theory Spec2Isabelle
  imports Complex_Main
begin

section \<open>The WebGL fluid background (js/fluid.js)\<close>

text \<open>
  The module is one immediately invoked function: it obtains a WebGL context, negotiates
  texture formats, builds nine programs, allocates the render targets, injects four
  initial splats and then runs \<open>update\<close> once per animation frame.

  Numbers. JavaScript numbers and GLSL floats are modelled as \<^typ>\<open>real\<close>. The
  quotients and products that JavaScript turns into a size with \<open>Math.round\<close> or
  \<open>Math.floor\<close>, where the last bit of a double can decide between two integers, are
  rounded to the nearest double by \<open>toDouble\<close>: those of \<open>getResolution\<close> and of
  \<open>resizeCanvas\<close>. The palette index \<open>floor(Math.random() * 5)\<close> is taken from the
  exact product, \<open>Math.random\<close> being any real of \<open>[0, 1)\<close>: rounding can move the
  index to the next entry but not out of the palette (lemma \<open>randomIndex_double\<close>), and
  no statement depends on which entry is drawn. The texel values computed on the GPU are
  not rounded: the statements about them are either equations of the arithmetic the
  shaders write down or lower bounds far above the smallest positive value of a
  half-float texel. Division by zero, which JavaScript
  answers with an infinity and GLSL leaves undefined, is not represented: a theorem
  whose statement rests on the value of a quotient carries the hypothesis that the
  divisor is positive.
\<close>

subsection \<open>Capability negotiation\<close>

datatype internalFormat = R16F | RG16F | RGBA16F | RGBA_internal

datatype pixelFormat = RED | RG | RGBA

text \<open>
  \<open>halfFloatTexType\<close> is \<open>gl.HALF_FLOAT\<close> on WebGL2, the extension's
  \<open>HALF_FLOAT_OES\<close> on WebGL1, and a falsy value when the extension is missing.
\<close>

datatype texType = HALF_FLOAT | HALF_FLOAT_OES | NoTexType

record texFormat =
  internalFormat :: internalFormat
  format :: pixelFormat

text \<open>
  What the page and the device answer: which contexts \<open>canvas.getContext\<close> gives,
  which extensions exist, and for which combinations a framebuffer with a 4x4 texture
  attached is \<open>FRAMEBUFFER_COMPLETE\<close>.
\<close>

record device =
  hasWebGL2 :: bool
  hasWebGL1 :: bool
  extHalfFloat :: bool
  extFloatLinear :: bool
  extHalfFloatLinear :: bool
  framebufferComplete :: "internalFormat \<Rightarrow> pixelFormat \<Rightarrow> texType \<Rightarrow> bool"

text \<open>
  \<open>supportRenderTextureFormat\<close> creates a probe texture and framebuffer, reads the
  status and deletes both; only the answer survives.
\<close>

definition supportRenderTextureFormat ::
  "device \<Rightarrow> internalFormat \<Rightarrow> pixelFormat \<Rightarrow> texType \<Rightarrow> bool" where
  "supportRenderTextureFormat gl ifmt fmt ty = framebufferComplete gl ifmt fmt ty"

function getSupportedFormat ::
  "device \<Rightarrow> internalFormat \<Rightarrow> pixelFormat \<Rightarrow> texType \<Rightarrow> texFormat option" where
  "getSupportedFormat gl ifmt fmt ty =
     (if \<not> supportRenderTextureFormat gl ifmt fmt ty then
        (case ifmt of
           R16F \<Rightarrow> getSupportedFormat gl RG16F RG ty
         | RG16F \<Rightarrow> getSupportedFormat gl RGBA16F RGBA ty
         | _ \<Rightarrow> None)
      else Some \<lparr>internalFormat = ifmt, format = fmt\<rparr>)"
  by pat_completeness auto
termination
  by (relation "measure (\<lambda>(gl, ifmt, fmt, ty).
        case ifmt of R16F \<Rightarrow> 2 | RG16F \<Rightarrow> Suc 0 | _ \<Rightarrow> 0)") auto

declare getSupportedFormat.simps [simp del]

record ext =
  formatRGBA :: "texFormat option"
  formatRG :: "texFormat option"
  formatR :: "texFormat option"
  halfFloatTexType :: texType
  supportLinearFiltering :: bool

text \<open>
  \<open>getWebGLContext\<close>: \<open>None\<close> when the canvas gives no context at all. The clear
  colour it sets, \<open>gl.clearColor(0, 0, 0, 1)\<close>, is the constant \<open>clearColor\<close> of the
  next subsection: nothing else in the module changes it.
\<close>

definition getWebGLContext :: "device \<Rightarrow> ext option" where
  "getWebGLContext gl =
     (let isWebGL2 = hasWebGL2 gl in
      if \<not> isWebGL2 \<and> \<not> hasWebGL1 gl then None
      else
        let linear = (if isWebGL2 then extFloatLinear gl else extHalfFloatLinear gl);
            ty = (if isWebGL2 then HALF_FLOAT
                  else if extHalfFloat gl then HALF_FLOAT_OES else NoTexType)
        in if isWebGL2 then
             Some \<lparr>formatRGBA = getSupportedFormat gl RGBA16F RGBA ty,
                   formatRG = getSupportedFormat gl RG16F RG ty,
                   formatR = getSupportedFormat gl R16F RED ty,
                   halfFloatTexType = ty,
                   supportLinearFiltering = linear\<rparr>
           else
             (let rgba = getSupportedFormat gl RGBA_internal RGBA ty in
              Some \<lparr>formatRGBA = rgba, formatRG = rgba, formatR = rgba,
                    halfFloatTexType = ty,
                    supportLinearFiltering = linear\<rparr>))"

subsection \<open>Vectors, textures and sampling\<close>

type_synonym vec2 = "real \<times> real"

type_synonym vec3 = "real \<times> real \<times> real"

datatype vec4 = Vec4 (vx: real) (vy: real) (vz: real) (vw: real)

datatype filterMode = NEAREST | LINEAR

text \<open>
  One render target, as \<open>createFBO\<close> returns it: the size, and the texture with its
  format, its filter and its contents. \<open>texels f i j\<close> is the texel in column \<open>i\<close>
  and row \<open>j\<close>; only indices below \<open>width\<close> and \<open>height\<close> are ever read, since every
  texture is created with \<open>CLAMP_TO_EDGE\<close>.
\<close>

record fbo =
  width :: nat
  height :: nat
  texFmt :: internalFormat
  filtering :: filterMode
  texels :: "nat \<Rightarrow> nat \<Rightarrow> vec4"

text \<open>\<open>gl.clearColor(0.0, 0.0, 0.0, 1.0)\<close>, set once in \<open>getWebGLContext\<close>.\<close>

definition clearColor :: vec4 where
  "clearColor = Vec4 0 0 0 1"

text \<open>
  Reading a texel: a one-channel texture answers \<open>(r, 0, 0, 1)\<close>, a two-channel one
  \<open>(r, g, 0, 1)\<close>.
\<close>

definition fetch :: "fbo \<Rightarrow> nat \<Rightarrow> nat \<Rightarrow> vec4" where
  "fetch f i j =
     (let t = texels f i j in
      case texFmt f of
        R16F \<Rightarrow> Vec4 (vx t) 0 0 1
      | RG16F \<Rightarrow> Vec4 (vx t) (vy t) 0 1
      | _ \<Rightarrow> t)"

definition clampIdx :: "int \<Rightarrow> nat \<Rightarrow> nat" where
  "clampIdx k n = nat (max 0 (min k (int n - 1)))"

definition mix :: "real \<Rightarrow> real \<Rightarrow> real \<Rightarrow> real" where
  "mix a b t = a * (1 - t) + b * t"

definition mix4 :: "vec4 \<Rightarrow> vec4 \<Rightarrow> real \<Rightarrow> vec4" where
  "mix4 a b t = Vec4 (mix (vx a) (vx b) t) (mix (vy a) (vy b) t)
                     (mix (vz a) (vz b) t) (mix (vw a) (vw b) t)"

definition fract :: "real \<Rightarrow> real" where
  "fract s = s - of_int \<lfloor>s\<rfloor>"

text \<open>
  \<open>texture2D\<close> with clamp-to-edge wrapping: the nearest texel, or the hardware's
  bilinear blend of the four texels around the sample point.
\<close>

definition texture2D :: "fbo \<Rightarrow> vec2 \<Rightarrow> vec4" where
  "texture2D f uv =
     (case filtering f of
        NEAREST \<Rightarrow>
          fetch f (clampIdx \<lfloor>fst uv * real (width f)\<rfloor> (width f))
                  (clampIdx \<lfloor>snd uv * real (height f)\<rfloor> (height f))
      | LINEAR \<Rightarrow>
          (let s = fst uv * real (width f) - 1 / 2;
               t = snd uv * real (height f) - 1 / 2;
               i0 = clampIdx \<lfloor>s\<rfloor> (width f);
               i1 = clampIdx (\<lfloor>s\<rfloor> + 1) (width f);
               j0 = clampIdx \<lfloor>t\<rfloor> (height f);
               j1 = clampIdx (\<lfloor>t\<rfloor> + 1) (height f)
           in mix4 (mix4 (fetch f i0 j0) (fetch f i1 j0) (fract s))
                   (mix4 (fetch f i0 j1) (fetch f i1 j1) (fract s)) (fract t)))"

subsection \<open>The shaders\<close>

text \<open>The vertex shader's outputs at one fragment.\<close>

record varyings =
  vUv :: vec2
  vL :: vec2
  vR :: vec2
  vT :: vec2
  vB :: vec2

definition baseVertexShader :: "vec2 \<Rightarrow> vec2 \<Rightarrow> varyings" where
  "baseVertexShader texelSize uv =
     \<lparr>vUv = uv,
      vL = (fst uv - fst texelSize, snd uv),
      vR = (fst uv + fst texelSize, snd uv),
      vT = (fst uv, snd uv + snd texelSize),
      vB = (fst uv, snd uv - snd texelSize)\<rparr>"

definition clearShader :: "(vec2 \<Rightarrow> vec4) \<Rightarrow> real \<Rightarrow> varyings \<Rightarrow> vec4" where
  "clearShader uTexture val v =
     (let t = uTexture (vUv v) in
      Vec4 (val * vx t) (val * vy t) (val * vz t) (val * vw t))"

definition displayShader :: "(vec2 \<Rightarrow> vec4) \<Rightarrow> vec3 \<Rightarrow> varyings \<Rightarrow> vec4" where
  "displayShader uTexture backColor v =
     (let c = uTexture (vUv v) in
      Vec4 (vx c + fst backColor) (vy c + fst (snd backColor))
           (vz c + snd (snd backColor)) 1)"

definition splatShader ::
  "(vec2 \<Rightarrow> vec4) \<Rightarrow> real \<Rightarrow> vec3 \<Rightarrow> vec2 \<Rightarrow> real \<Rightarrow> varyings \<Rightarrow> vec4" where
  "splatShader uTarget aspectRatio color point radius v =
     (let px = (fst (vUv v) - fst point) * aspectRatio;
          py = snd (vUv v) - snd point;
          k = exp (- (px * px + py * py) / radius);
          base = uTarget (vUv v)
      in Vec4 (vx base + k * fst color) (vy base + k * fst (snd color))
              (vz base + k * snd (snd color)) 1)"

definition bilerp :: "(vec2 \<Rightarrow> vec4) \<Rightarrow> vec2 \<Rightarrow> vec2 \<Rightarrow> vec4" where
  "bilerp sam uv tsize =
     (let stx = fst uv / fst tsize - 0.5;
          sty = snd uv / snd tsize - 0.5;
          iuvx = of_int \<lfloor>stx\<rfloor>;
          iuvy = of_int \<lfloor>sty\<rfloor>;
          a = sam ((iuvx + 0.5) * fst tsize, (iuvy + 0.5) * snd tsize);
          b = sam ((iuvx + 1.5) * fst tsize, (iuvy + 0.5) * snd tsize);
          c = sam ((iuvx + 0.5) * fst tsize, (iuvy + 1.5) * snd tsize);
          d = sam ((iuvx + 1.5) * fst tsize, (iuvy + 1.5) * snd tsize)
      in mix4 (mix4 a b (fract stx)) (mix4 c d (fract stx)) (fract sty))"

definition advectionShader ::
  "(vec2 \<Rightarrow> vec4) \<Rightarrow> (vec2 \<Rightarrow> vec4) \<Rightarrow> vec2 \<Rightarrow> vec2 \<Rightarrow> real \<Rightarrow> real \<Rightarrow> varyings \<Rightarrow> vec4" where
  "advectionShader uVelocity uSource texelSize dyeTexelSize dt dissipation v =
     (let vel = bilerp uVelocity (vUv v) texelSize;
          coord = (fst (vUv v) - dt * vx vel * fst texelSize,
                   snd (vUv v) - dt * vy vel * snd texelSize);
          result = bilerp uSource coord dyeTexelSize;
          decay = 1.0 + dissipation * dt
      in Vec4 (vx result / decay) (vy result / decay) (vz result / decay) (vw result / decay))"

definition divergenceShader :: "(vec2 \<Rightarrow> vec4) \<Rightarrow> varyings \<Rightarrow> vec4" where
  "divergenceShader uVelocity v =
     (let L0 = vx (uVelocity (vL v));
          R0 = vx (uVelocity (vR v));
          T0 = vy (uVelocity (vT v));
          B0 = vy (uVelocity (vB v));
          C = uVelocity (vUv v);
          L = (if fst (vL v) < 0.0 then - vx C else L0);
          R = (if fst (vR v) > 1.0 then - vx C else R0);
          T = (if snd (vT v) > 1.0 then - vy C else T0);
          B = (if snd (vB v) < 0.0 then - vy C else B0);
          dv = 0.5 * (R - L + T - B)
      in Vec4 dv 0 0 1)"

definition curlShader :: "(vec2 \<Rightarrow> vec4) \<Rightarrow> varyings \<Rightarrow> vec4" where
  "curlShader uVelocity v =
     (let L = vy (uVelocity (vL v));
          R = vy (uVelocity (vR v));
          T = vx (uVelocity (vT v));
          B = vx (uVelocity (vB v));
          vorticity = R - L - T + B
      in Vec4 (0.5 * vorticity) 0 0 1)"

definition vorticityShader ::
  "(vec2 \<Rightarrow> vec4) \<Rightarrow> (vec2 \<Rightarrow> vec4) \<Rightarrow> real \<Rightarrow> real \<Rightarrow> varyings \<Rightarrow> vec4" where
  "vorticityShader uVelocity uCurl curlK dt v =
     (let L = vx (uCurl (vL v));
          R = vx (uCurl (vR v));
          T = vx (uCurl (vT v));
          B = vx (uCurl (vB v));
          C = vx (uCurl (vUv v));
          fx0 = 0.5 * (\<bar>T\<bar> - \<bar>B\<bar>);
          fy0 = 0.5 * (\<bar>R\<bar> - \<bar>L\<bar>);
          len = sqrt (fx0 * fx0 + fy0 * fy0) + 0.0001;
          fx = fx0 / len * (curlK * C);
          fy = fy0 / len * (curlK * C) * (- 1.0);
          vel = uVelocity (vUv v)
      in Vec4 (vx vel + fx * dt) (vy vel + fy * dt) 0 1)"

definition pressureShader :: "(vec2 \<Rightarrow> vec4) \<Rightarrow> (vec2 \<Rightarrow> vec4) \<Rightarrow> varyings \<Rightarrow> vec4" where
  "pressureShader uPressure uDivergence v =
     (let L = vx (uPressure (vL v));
          R = vx (uPressure (vR v));
          T = vx (uPressure (vT v));
          B = vx (uPressure (vB v));
          divergence = vx (uDivergence (vUv v));
          pressure = (L + R + B + T - divergence) * 0.25
      in Vec4 pressure 0 0 1)"

definition gradientSubtractShader ::
  "(vec2 \<Rightarrow> vec4) \<Rightarrow> (vec2 \<Rightarrow> vec4) \<Rightarrow> varyings \<Rightarrow> vec4" where
  "gradientSubtractShader uPressure uVelocity v =
     (let L = vx (uPressure (vL v));
          R = vx (uPressure (vR v));
          T = vx (uPressure (vT v));
          B = vx (uPressure (vB v));
          velocity = uVelocity (vUv v)
      in Vec4 (vx velocity - (R - L)) (vy velocity - (T - B)) 0 1)"

subsection \<open>Configuration and render targets\<close>

record simConfig =
  SIM_RESOLUTION :: real
  DYE_RESOLUTION :: real
  DENSITY_DISSIPATION :: real
  VELOCITY_DISSIPATION :: real
  PRESSURE :: real
  PRESSURE_ITERATIONS :: nat
  CURL :: real
  SPLAT_RADIUS :: real
  SPLAT_FORCE :: real
  COLOR_UPDATE_SPEED :: real
  BACK_COLOR :: vec3

text \<open>The module's \<open>config\<close> object (its three unused flags left out).\<close>

definition config :: simConfig where
  "config =
     \<lparr>SIM_RESOLUTION = 128, DYE_RESOLUTION = 1024, DENSITY_DISSIPATION = 1.5,
      VELOCITY_DISSIPATION = 0.6, PRESSURE = 0.8, PRESSURE_ITERATIONS = 20, CURL = 30,
      SPLAT_RADIUS = 0.3, SPLAT_FORCE = 6000, COLOR_UPDATE_SPEED = 10,
      BACK_COLOR = (0.02, 0.02, 0.02)\<rparr>"

text \<open>
  \<open>createFBO\<close>: \<open>texImage2D\<close> with no data allocates zeroed storage, then
  \<open>gl.clear(COLOR_BUFFER_BIT)\<close> on the new framebuffer writes the clear colour.
\<close>

definition createFBO ::
  "nat \<Rightarrow> nat \<Rightarrow> internalFormat \<Rightarrow> pixelFormat \<Rightarrow> texType \<Rightarrow> filterMode \<Rightarrow> fbo" where
  "createFBO w h ifmt fmt ty filt =
     (let texture = \<lparr>width = w, height = h, texFmt = ifmt, filtering = filt,
                      texels = (\<lambda>i j. Vec4 0 0 0 0)\<rparr>
      in texture\<lparr>texels := (\<lambda>i j. clearColor)\<rparr>)"

record doubleFBO =
  dwidth :: nat
  dheight :: nat
  texelSizeX :: real
  texelSizeY :: real
  readBuf :: fbo
  writeBuf :: fbo

definition createDoubleFBO ::
  "nat \<Rightarrow> nat \<Rightarrow> internalFormat \<Rightarrow> pixelFormat \<Rightarrow> texType \<Rightarrow> filterMode \<Rightarrow> doubleFBO" where
  "createDoubleFBO w h ifmt fmt ty filt =
     \<lparr>dwidth = w, dheight = h, texelSizeX = 1.0 / real w, texelSizeY = 1.0 / real h,
      readBuf = createFBO w h ifmt fmt ty filt,
      writeBuf = createFBO w h ifmt fmt ty filt\<rparr>"

definition swap :: "doubleFBO \<Rightarrow> doubleFBO" where
  "swap d = d\<lparr>readBuf := writeBuf d, writeBuf := readBuf d\<rparr>"

text \<open>
  The value of a JavaScript arithmetic operation is the double nearest to the exact
  result, ties going to the even significand: \<open>toDouble\<close> rounds a real to 53
  significant bits (\<open>e\<close> is the binary exponent, \<open>u\<close> the unit in the last place).
  Overflow and the subnormal range are not represented; the quotients and products of
  \<open>getResolution\<close> are far from both.
\<close>

definition roundEven :: "real \<Rightarrow> int" where
  "roundEven q =
     (let f = \<lfloor>q\<rfloor>; r = q - of_int f
      in if r < 1 / 2 then f else if 1 / 2 < r then f + 1 else if even f then f else f + 1)"

definition toDouble :: "real \<Rightarrow> real" where
  "toDouble a =
     (if a = 0 then 0
      else (let e = \<lfloor>log 2 \<bar>a\<bar>\<rfloor>; u = 2 powr (of_int e - 52)
            in of_int (roundEven (a / u)) * u))"

text \<open>\<open>Math.round\<close>: the nearest integer, halves going up (exact on doubles).\<close>

definition jsRound :: "real \<Rightarrow> int" where
  "jsRound a = \<lfloor>a + 1 / 2\<rfloor>"

text \<open>
  \<open>getResolution\<close>, as a pair (width, height). The quotient of the two buffer sizes,
  its reciprocal and the product with the base resolution are each one JavaScript
  operation.
\<close>

definition getResolution :: "int \<Rightarrow> int \<Rightarrow> real \<Rightarrow> int \<times> int" where
  "getResolution drawingBufferWidth drawingBufferHeight resolution =
     (let aspectRatio0 = toDouble (real_of_int drawingBufferWidth / real_of_int drawingBufferHeight);
          aspectRatio = (if aspectRatio0 < 1 then toDouble (1.0 / aspectRatio0) else aspectRatio0);
          mn = jsRound resolution;
          mx = jsRound (toDouble (resolution * aspectRatio))
      in if drawingBufferWidth > drawingBufferHeight then (mx, mn) else (mn, mx))"

record pool =
  dye :: doubleFBO
  velocity :: doubleFBO
  divergence :: fbo
  curl :: fbo
  pressure :: doubleFBO

subsection \<open>The running module\<close>

record pointer =
  pid :: int
  texcoordX :: real
  texcoordY :: real
  prevTexcoordX :: real
  prevTexcoordY :: real
  deltaX :: real
  deltaY :: real
  down :: bool
  moved :: bool
  color :: vec3

datatype prog = ClearP | DisplayP | SplatP | AdvectionP | DivergenceP | CurlP
  | VorticityP | PressureP | GradientSubtractP

datatype target = Screen | DyeT | VelocityT | DivergenceT | CurlT | PressureT

datatype error = TypeError

text \<open>
  A procedure either finishes or throws; the state it has reached is kept in both
  cases, as a JavaScript exception keeps every assignment made before it.
\<close>

datatype 'a outcome = Done 'a | Raised error 'a

fun seqAll :: "('a \<Rightarrow> 'a outcome) list \<Rightarrow> 'a \<Rightarrow> 'a outcome" where
  "seqAll [] w = Done w"
| "seqAll (f # fs) w = (case f w of Done w' \<Rightarrow> seqAll fs w' | Raised e w' \<Rightarrow> Raised e w')"

text \<open>
  The module's variables and what it does to the page and the GPU.
  \<^item> \<open>clientWidth\<close>, \<open>clientHeight\<close>, \<open>devicePixelRatio\<close>: the page's layout.
  \<^item> \<open>canvasWidth\<close>, \<open>canvasHeight\<close>: \<open>canvas.width\<close> and \<open>canvas.height\<close>, which
    are also \<open>gl.drawingBufferWidth\<close> and \<open>gl.drawingBufferHeight\<close>.
  \<^item> \<open>pointerEventsNone\<close>, \<open>listening\<close>: whether \<open>canvas.style.pointerEvents\<close> has
    been set to \<open>none\<close> and whether the two window listeners are installed.
  \<^item> \<open>pointers0\<close>: the one entry of \<open>pointers\<close>.
  \<^item> \<open>pool\<close>: the variables \<open>dye, velocity, divergence, curl, pressure\<close>, declared
    without a value and assigned together by \<open>initFramebuffers\<close>.
  \<^item> \<open>uDyeTexelSize\<close>: the advection program's uniform \<open>dyeTexelSize\<close>, which keeps
    its value between draws; a uniform never set is zero.
  \<^item> \<open>randoms\<close>, \<open>randomPos\<close>: the answers \<open>Math.random\<close> gives, in order.
  \<^item> \<open>draws\<close>, \<open>splatCalls\<close>, \<open>frameRequests\<close>: a record of every draw call (program
    and target), every call of \<open>splat\<close> with its arguments, and the number of
    \<open>requestAnimationFrame\<close> calls.
\<close>

record world =
  clientWidth :: int
  clientHeight :: int
  devicePixelRatio :: real
  canvasWidth :: int
  canvasHeight :: int
  pointerEventsNone :: bool
  listening :: bool
  pool :: "pool option"
  pointers0 :: pointer
  autoSplatTimer :: real
  lastTime :: int
  colorTimer :: real
  uDyeTexelSize :: vec2
  randoms :: "nat \<Rightarrow> real"
  randomPos :: nat
  screen :: "nat \<Rightarrow> nat \<Rightarrow> vec4"
  draws :: "(prog \<times> target) list"
  splatCalls :: "(real \<times> real \<times> real \<times> real \<times> vec3) list"
  frameRequests :: nat

definition mathRandom :: "world \<Rightarrow> real \<times> world" where
  "mathRandom w = (randoms w (randomPos w), w\<lparr>randomPos := Suc (randomPos w)\<rparr>)"

definition PALETTE :: "vec3 list" where
  "PALETTE = [(0.0, 0.91, 0.43), (0.0, 0.7, 0.35), (0.0, 0.55, 0.28),
              (0.08, 0.95, 0.55), (0.0, 0.4, 0.2)]"

text \<open>
  \<open>getRandomColor\<close>: \<open>None\<close> stands for the TypeError of reading \<open>c[0]\<close> when the
  index misses the palette. The index is the floor of the exact product.
\<close>

definition getRandomColor :: "world \<Rightarrow> vec3 option \<times> world" where
  "getRandomColor w =
     (let (a, w') = mathRandom w;
          k = \<lfloor>a * real (length PALETTE)\<rfloor>
      in if 0 \<le> k \<and> k < int (length PALETTE) then
           (let c = PALETTE ! nat k in
            (Some (fst c * 0.25, fst (snd c) * 0.25, snd (snd c) * 0.25), w'))
         else (None, w'))"

text \<open>
  \<open>resizeCanvas\<close>: the products \<open>clientWidth * dpr\<close> and \<open>clientHeight * dpr\<close> are
  JavaScript products, then \<open>Math.floor\<close>.
\<close>

definition resizeCanvas :: "world \<Rightarrow> bool \<times> world" where
  "resizeCanvas w =
     (let dpr = min (if devicePixelRatio w = 0 then 1 else devicePixelRatio w) 2;
          nw = \<lfloor>toDouble (real_of_int (clientWidth w) * dpr)\<rfloor>;
          nh = \<lfloor>toDouble (real_of_int (clientHeight w) * dpr)\<rfloor>
      in if canvasWidth w \<noteq> nw \<or> canvasHeight w \<noteq> nh
         then (True, w\<lparr>canvasWidth := nw, canvasHeight := nh\<rparr>)
         else (False, w))"

text \<open>
  \<open>initFramebuffers\<close>. With the 4- and 2-channel formats present and the 1-channel one
  missing, reading \<open>r.internalFormat\<close> throws after \<open>dye\<close> and \<open>velocity\<close> are
  assigned; the model throws there too but does not keep the two assignments
  (\<open>getWebGLContext\<close> never gives such formats, see \<open>formatR_present\<close>).
\<close>

definition initFramebuffers :: "ext \<Rightarrow> simConfig \<Rightarrow> world \<Rightarrow> world outcome" where
  "initFramebuffers ex cfg w =
     (let simRes = getResolution (canvasWidth w) (canvasHeight w) (SIM_RESOLUTION cfg);
          dyeRes = getResolution (canvasWidth w) (canvasHeight w) (DYE_RESOLUTION cfg);
          ty = halfFloatTexType ex;
          filt = (if supportLinearFiltering ex then LINEAR else NEAREST)
      in case formatRGBA ex of
           None \<Rightarrow> Done w
         | Some rgba \<Rightarrow>
            (case formatRG ex of
               None \<Rightarrow> Done w
             | Some rg \<Rightarrow>
                (case formatR ex of
                   None \<Rightarrow> Raised TypeError w
                 | Some r \<Rightarrow>
                    Done (w\<lparr>pool := Some
                      \<lparr>dye = createDoubleFBO (nat (fst dyeRes)) (nat (snd dyeRes))
                               (internalFormat rgba) (format rgba) ty filt,
                       velocity = createDoubleFBO (nat (fst simRes)) (nat (snd simRes))
                               (internalFormat rg) (format rg) ty filt,
                       divergence = createFBO (nat (fst simRes)) (nat (snd simRes))
                               (internalFormat r) (format r) ty NEAREST,
                       curl = createFBO (nat (fst simRes)) (nat (snd simRes))
                               (internalFormat r) (format r) ty NEAREST,
                       pressure = createDoubleFBO (nat (fst simRes)) (nat (snd simRes))
                               (internalFormat r) (format r) ty NEAREST\<rparr>\<rparr>))))"

subsection \<open>Pointer tracking\<close>

definition correctDeltaX :: "world \<Rightarrow> real \<Rightarrow> real" where
  "correctDeltaX w delta =
     (let aspectRatio = real_of_int (canvasWidth w) / real_of_int (canvasHeight w)
      in if aspectRatio < 1 then delta * aspectRatio else delta)"

definition correctDeltaY :: "world \<Rightarrow> real \<Rightarrow> real" where
  "correctDeltaY w delta =
     (let aspectRatio = real_of_int (canvasWidth w) / real_of_int (canvasHeight w)
      in if aspectRatio > 1 then delta / aspectRatio else delta)"

text \<open>The \<open>pointermove\<close> and \<open>touchmove\<close> listeners (the same body on both).\<close>

definition onMove :: "real \<Rightarrow> real \<Rightarrow> world \<Rightarrow> world" where
  "onMove clientX clientY w =
     (let p = pointers0 w;
          tx = clientX / real_of_int (clientWidth w);
          ty = 1.0 - clientY / real_of_int (clientHeight w);
          dx = correctDeltaX w (tx - texcoordX p);
          dy = correctDeltaY w (ty - texcoordY p)
      in w\<lparr>pointers0 := p\<lparr>prevTexcoordX := texcoordX p, prevTexcoordY := texcoordY p,
                            texcoordX := tx, texcoordY := ty, deltaX := dx, deltaY := dy,
                            moved := (\<bar>dx\<bar> > 0 \<or> \<bar>dy\<bar> > 0), down := True\<rparr>\<rparr>)"

subsection \<open>Draw calls\<close>

text \<open>
  \<open>blit(target)\<close> draws one quad over the whole target: the fragment of texel
  \<open>(i, j)\<close> sits at the texel's centre, and the vertex shader's outputs there are the
  interpolated varyings.
\<close>

definition fragCoord :: "nat \<Rightarrow> nat \<Rightarrow> nat \<Rightarrow> nat \<Rightarrow> vec2" where
  "fragCoord w h i j = ((real i + 1 / 2) / real w, (real j + 1 / 2) / real h)"

definition blit :: "(varyings \<Rightarrow> vec4) \<Rightarrow> vec2 \<Rightarrow> fbo \<Rightarrow> fbo" where
  "blit frag texelSize tgt =
     tgt\<lparr>texels := (\<lambda>i j. frag (baseVertexShader texelSize
                                   (fragCoord (width tgt) (height tgt) i j)))\<rparr>"

text \<open>A pass over a double buffer: draw into \<open>write\<close> from \<open>read\<close>, then swap.\<close>

definition blitSwap :: "(fbo \<Rightarrow> varyings \<Rightarrow> vec4) \<Rightarrow> vec2 \<Rightarrow> doubleFBO \<Rightarrow> doubleFBO" where
  "blitSwap frag texelSize d =
     swap (d\<lparr>writeBuf := blit (frag (readBuf d)) texelSize (writeBuf d)\<rparr>)"

definition velTexel :: "pool \<Rightarrow> vec2" where
  "velTexel p = (texelSizeX (velocity p), texelSizeY (velocity p))"

text \<open>
  A draw needs the render targets: with the pool's variables still undefined the first
  property read throws a TypeError.
\<close>

definition drawPass :: "prog \<Rightarrow> target \<Rightarrow> (pool \<Rightarrow> pool) \<Rightarrow> world \<Rightarrow> world outcome" where
  "drawPass pr tg f w =
     (case pool w of
        None \<Rightarrow> Raised TypeError w
      | Some p \<Rightarrow> Done (w\<lparr>pool := Some (f p), draws := draws w @ [(pr, tg)]\<rparr>))"

subsection \<open>Impulse injection\<close>

definition correctRadius :: "world \<Rightarrow> real \<Rightarrow> real" where
  "correctRadius w radius =
     (let aspectRatio = real_of_int (canvasWidth w) / real_of_int (canvasHeight w)
      in if aspectRatio > 1 then radius * aspectRatio else radius)"

text \<open>
  \<open>splat\<close>: the uniforms \<open>aspectRatio\<close>, \<open>point\<close> and \<open>radius\<close> are set once and
  serve both draws; \<open>texelSize\<close> is never set for this program.
\<close>

definition splatVelocity :: "simConfig \<Rightarrow> world \<Rightarrow> real \<Rightarrow> real \<Rightarrow> real \<Rightarrow> real \<Rightarrow> pool \<Rightarrow> pool" where
  "splatVelocity cfg w x y dx dy p =
     p\<lparr>velocity := blitSwap
         (\<lambda>src. splatShader (texture2D src)
                   (real_of_int (canvasWidth w) / real_of_int (canvasHeight w))
                   (dx * SPLAT_FORCE cfg, dy * SPLAT_FORCE cfg, 0.0) (x, y)
                   (correctRadius w (SPLAT_RADIUS cfg / 100.0)))
         (0, 0) (velocity p)\<rparr>"

definition splatDye :: "simConfig \<Rightarrow> world \<Rightarrow> real \<Rightarrow> real \<Rightarrow> vec3 \<Rightarrow> pool \<Rightarrow> pool" where
  "splatDye cfg w x y col p =
     p\<lparr>dye := blitSwap
         (\<lambda>src. splatShader (texture2D src)
                   (real_of_int (canvasWidth w) / real_of_int (canvasHeight w))
                   col (x, y)
                   (correctRadius w (SPLAT_RADIUS cfg / 100.0)))
         (0, 0) (dye p)\<rparr>"

definition splat ::
  "simConfig \<Rightarrow> real \<Rightarrow> real \<Rightarrow> real \<Rightarrow> real \<Rightarrow> vec3 \<Rightarrow> world \<Rightarrow> world outcome" where
  "splat cfg x y dx dy col w =
     seqAll [drawPass SplatP VelocityT (splatVelocity cfg w x y dx dy),
             drawPass SplatP DyeT (splatDye cfg w x y col)]
       (w\<lparr>splatCalls := splatCalls w @ [(x, y, dx, dy, col)]\<rparr>)"

subsection \<open>The simulation step\<close>

definition curlPass :: "pool \<Rightarrow> pool" where
  "curlPass p =
     p\<lparr>curl := blit (curlShader (texture2D (readBuf (velocity p)))) (velTexel p) (curl p)\<rparr>"

definition vorticityPass :: "simConfig \<Rightarrow> real \<Rightarrow> pool \<Rightarrow> pool" where
  "vorticityPass cfg dt p =
     p\<lparr>velocity := blitSwap
         (\<lambda>src. vorticityShader (texture2D src) (texture2D (curl p)) (CURL cfg) dt)
         (velTexel p) (velocity p)\<rparr>"

definition divergencePass :: "pool \<Rightarrow> pool" where
  "divergencePass p =
     p\<lparr>divergence := blit (divergenceShader (texture2D (readBuf (velocity p))))
                          (velTexel p) (divergence p)\<rparr>"

definition clearPass :: "simConfig \<Rightarrow> pool \<Rightarrow> pool" where
  "clearPass cfg p =
     p\<lparr>pressure := blitSwap (\<lambda>src. clearShader (texture2D src) (PRESSURE cfg))
                      (0, 0) (pressure p)\<rparr>"

definition pressurePass :: "pool \<Rightarrow> pool" where
  "pressurePass p =
     p\<lparr>pressure := blitSwap
         (\<lambda>src. pressureShader (texture2D src) (texture2D (divergence p)))
         (velTexel p) (pressure p)\<rparr>"

text \<open>
  The Jacobi loop \<open>for (i = 0; i < PRESSURE_ITERATIONS; i++)\<close>, by the number of
  iterations still to run.
\<close>

fun pressureLoop :: "nat \<Rightarrow> world \<Rightarrow> world outcome" where
  "pressureLoop 0 w = Done w"
| "pressureLoop (Suc n) w =
     (case drawPass PressureP PressureT pressurePass w of
        Done w' \<Rightarrow> pressureLoop n w'
      | Raised e w' \<Rightarrow> Raised e w')"

definition gradientSubtractPass :: "pool \<Rightarrow> pool" where
  "gradientSubtractPass p =
     p\<lparr>velocity := blitSwap
         (\<lambda>src. gradientSubtractShader (texture2D (readBuf (pressure p))) (texture2D src))
         (velTexel p) (velocity p)\<rparr>"

text \<open>
  Velocity advection: \<open>dyeTexelSize\<close> is set only when linear filtering is missing;
  otherwise the draw runs with whatever the uniform holds.
\<close>

definition advectVelocity :: "ext \<Rightarrow> simConfig \<Rightarrow> real \<Rightarrow> world \<Rightarrow> world outcome" where
  "advectVelocity ex cfg dt w =
     (case pool w of
        None \<Rightarrow> Raised TypeError w
      | Some p \<Rightarrow>
         (let w1 = (if \<not> supportLinearFiltering ex
                    then w\<lparr>uDyeTexelSize := velTexel p\<rparr> else w)
          in drawPass AdvectionP VelocityT
               (\<lambda>q. q\<lparr>velocity := blitSwap
                    (\<lambda>src. advectionShader (texture2D src) (texture2D src) (velTexel p)
                              (uDyeTexelSize w1) dt (VELOCITY_DISSIPATION cfg))
                    (velTexel p) (velocity q)\<rparr>) w1))"

text \<open>
  Dye advection, with the same program: \<open>texelSize\<close> and \<open>dt\<close> keep the values of the
  velocity advection just before.
\<close>

definition advectDye :: "simConfig \<Rightarrow> real \<Rightarrow> world \<Rightarrow> world outcome" where
  "advectDye cfg dt w =
     (case pool w of
        None \<Rightarrow> Raised TypeError w
      | Some p \<Rightarrow>
         (let w1 = w\<lparr>uDyeTexelSize := (texelSizeX (dye p), texelSizeY (dye p))\<rparr>
          in drawPass AdvectionP DyeT
               (\<lambda>q. q\<lparr>dye := blitSwap
                    (\<lambda>src. advectionShader (texture2D (readBuf (velocity p))) (texture2D src)
                              (velTexel p) (uDyeTexelSize w1) dt (DENSITY_DISSIPATION cfg))
                    (velTexel p) (dye q)\<rparr>) w1))"

definition step :: "ext \<Rightarrow> simConfig \<Rightarrow> real \<Rightarrow> world \<Rightarrow> world outcome" where
  "step ex cfg dt =
     seqAll [drawPass CurlP CurlT curlPass,
             drawPass VorticityP VelocityT (vorticityPass cfg dt),
             drawPass DivergenceP DivergenceT divergencePass,
             drawPass ClearP PressureT (clearPass cfg),
             pressureLoop (PRESSURE_ITERATIONS cfg),
             drawPass GradientSubtractP VelocityT gradientSubtractPass,
             advectVelocity ex cfg dt,
             advectDye cfg dt]"

text \<open>\<open>render(null)\<close>: the display program drawn to the canvas.\<close>

definition render :: "simConfig \<Rightarrow> world \<Rightarrow> world outcome" where
  "render cfg w =
     (case pool w of
        None \<Rightarrow> Raised TypeError w
      | Some p \<Rightarrow>
         Done (w\<lparr>screen := (\<lambda>i j. displayShader (texture2D (readBuf (dye p))) (BACK_COLOR cfg)
                              (baseVertexShader (0, 0)
                                 (fragCoord (nat (canvasWidth w)) (nat (canvasHeight w)) i j))),
                 draws := draws w @ [(DisplayP, Screen)]\<rparr>))"

subsection \<open>The animation loop\<close>

text \<open>The block \<open>if (p.moved) { ... }\<close> of \<open>update\<close>.\<close>

definition pointerSplats :: "simConfig \<Rightarrow> real \<Rightarrow> world \<Rightarrow> world outcome" where
  "pointerSplats cfg dt w =
     (if moved (pointers0 w) then
        (let w1 = w\<lparr>pointers0 := (pointers0 w)\<lparr>moved := False\<rparr>,
                     colorTimer := colorTimer w + dt * COLOR_UPDATE_SPEED cfg\<rparr>
         in case getRandomColor w1 of
              (None, w2) \<Rightarrow> Raised TypeError w2
            | (Some c, w2) \<Rightarrow>
               (let w3 = w2\<lparr>pointers0 := (pointers0 w2)\<lparr>color := c\<rparr>\<rparr>;
                    p = pointers0 w3
                in splat cfg (texcoordX p) (texcoordY p) (deltaX p) (deltaY p) (color p) w3))
      else Done w)"

definition autoSplat :: "simConfig \<Rightarrow> real \<Rightarrow> world \<Rightarrow> world outcome" where
  "autoSplat cfg dt w =
     (let w1 = w\<lparr>autoSplatTimer := autoSplatTimer w + dt\<rparr>
      in if autoSplatTimer w1 > 0.4 then
           (let w2 = w1\<lparr>autoSplatTimer := 0\<rparr>;
                (x, w3) = mathRandom w2;
                (y, w4) = mathRandom w3;
                (a, w5) = mathRandom w4;
                (b, w6) = mathRandom w5;
                dx = (a - 0.5) * 0.0003;
                dy = (b - 0.5) * 0.0003
            in case getRandomColor w6 of
                 (None, w7) \<Rightarrow> Raised TypeError w7
               | (Some c, w7) \<Rightarrow> splat cfg x y dx dy c w7)
         else Done w1)"

text \<open>
  One tick of \<open>update\<close>; \<open>now\<close> is what \<open>Date.now()\<close> answers. The tick ends by
  asking for the next animation frame, which the browser turns into the next tick.
\<close>

definition update :: "ext \<Rightarrow> simConfig \<Rightarrow> int \<Rightarrow> world \<Rightarrow> world outcome" where
  "update ex cfg now w =
     (let dt = min (real_of_int (now - lastTime w) / 1000) 0.016667;
          w1 = w\<lparr>lastTime := now\<rparr>;
          (resized, w2) = resizeCanvas w1
      in seqAll [(\<lambda>v. if resized then initFramebuffers ex cfg v else Done v),
                 pointerSplats cfg dt,
                 autoSplat cfg dt,
                 step ex cfg dt,
                 render cfg,
                 (\<lambda>v. Done (v\<lparr>frameRequests := Suc (frameRequests v)\<rparr>))] w2)"

text \<open>
  The loop \<open>for (i = 0; i < 4; i++)\<close> of initial splats, by the number of rounds still
  to run. Each round asks \<open>Math.random\<close> for the colour, the position and the force,
  in this order.
\<close>

fun initialSplats :: "simConfig \<Rightarrow> nat \<Rightarrow> world \<Rightarrow> world outcome" where
  "initialSplats cfg 0 w = Done w"
| "initialSplats cfg (Suc n) w =
     (case getRandomColor w of
        (None, w1) \<Rightarrow> Raised TypeError w1
      | (Some c, w1) \<Rightarrow>
         (let (x, w2) = mathRandom w1;
              (y, w3) = mathRandom w2;
              (a, w4) = mathRandom w3;
              (b, w5) = mathRandom w4;
              dx = (a - 0.5) * 0.001;
              dy = (b - 0.5) * 0.001
          in case splat cfg x y dx dy c w5 of
               Done w6 \<Rightarrow> initialSplats cfg n w6
             | Raised e w6 \<Rightarrow> Raised e w6))"

definition newPointer :: pointer where
  "newPointer =
     \<lparr>pid = - 1, texcoordX = 0, texcoordY = 0, prevTexcoordX = 0, prevTexcoordY = 0,
      deltaX = 0, deltaY = 0, down = False, moved = False, color = (0, 0, 0)\<rparr>"

text \<open>
  The module body after the context is obtained and before the first \<open>update\<close>:
  the canvas is sized, the render targets are allocated, the pointer record and the
  listeners are set up, \<open>lastTime\<close> takes the first reading \<open>t0\<close> of \<open>Date.now()\<close>,
  and the four initial splats are injected. Shader compilation and program linking are
  taken to succeed.
\<close>

definition startup :: "ext \<Rightarrow> simConfig \<Rightarrow> int \<Rightarrow> world \<Rightarrow> world outcome" where
  "startup ex cfg t0 =
     seqAll [(\<lambda>v. Done (snd (resizeCanvas v))),
             initFramebuffers ex cfg,
             (\<lambda>v. Done (v\<lparr>pointers0 := newPointer, pointerEventsNone := True,
                           listening := True, autoSplatTimer := 0, lastTime := t0,
                           colorTimer := 0\<rparr>)),
             initialSplats cfg 4]"

text \<open>
  The whole module body up to the end of the first \<open>update\<close>, which reads the clock
  as \<open>t1\<close>. The page is taken to hold the canvas element; without a WebGL context
  the module returns at once.
\<close>

definition main :: "device \<Rightarrow> simConfig \<Rightarrow> int \<Rightarrow> int \<Rightarrow> world \<Rightarrow> world outcome" where
  "main gl cfg t0 t1 w =
     (case getWebGLContext gl of
        None \<Rightarrow> Done w
      | Some ex \<Rightarrow>
         (case startup ex cfg t0 w of
            Done v \<Rightarrow> update ex cfg t1 v
          | Raised e v \<Rightarrow> Raised e v))"

text \<open>The page before the module runs: a canvas of the given size, nothing drawn.\<close>

definition pageLoad :: "int \<Rightarrow> int \<Rightarrow> real \<Rightarrow> int \<Rightarrow> int \<Rightarrow> (nat \<Rightarrow> real) \<Rightarrow> world" where
  "pageLoad cw ch dpr w0 h0 rnd =
     \<lparr>clientWidth = cw, clientHeight = ch, devicePixelRatio = dpr,
      canvasWidth = w0, canvasHeight = h0, pointerEventsNone = False, listening = False,
      pool = None, pointers0 = newPointer, autoSplatTimer = 0, lastTime = 0,
      colorTimer = 0, uDyeTexelSize = (0, 0), randoms = rnd, randomPos = 0,
      screen = (\<lambda>i j. Vec4 0 0 0 0), draws = [], splatCalls = [], frameRequests = 0\<rparr>"

subsection \<open>Discrete fields\<close>

text \<open>
  The Jacobi sweep in the words of the specification, on a grid of \<open>n\<close> by \<open>m\<close> cells
  whose border cells take themselves as the missing neighbour:
  \<open>pressure = (L + R + B + T - divergence) / 4\<close>.
\<close>

definition jacobiSweep ::
  "nat \<Rightarrow> nat \<Rightarrow> (nat \<Rightarrow> nat \<Rightarrow> real) \<Rightarrow> (nat \<Rightarrow> nat \<Rightarrow> real) \<Rightarrow> nat \<Rightarrow> nat \<Rightarrow> real" where
  "jacobiSweep n m D P i j =
     (P (i - 1) j + P (min (i + 1) (n - 1)) j + P i (j - 1) + P i (min (j + 1) (m - 1))
        - D i j) / 4"

text \<open>
  The shape \<open>initFramebuffers\<close> gives the simulation-resolution targets: one size for
  all of them, and the velocity's texel size its reciprocal.
\<close>

definition simShaped :: "nat \<Rightarrow> nat \<Rightarrow> pool \<Rightarrow> bool" where
  "simShaped n m p =
     (0 < n \<and> 0 < m
      \<and> texelSizeX (velocity p) = 1 / real n \<and> texelSizeY (velocity p) = 1 / real m
      \<and> width (readBuf (velocity p)) = n \<and> height (readBuf (velocity p)) = m
      \<and> width (writeBuf (velocity p)) = n \<and> height (writeBuf (velocity p)) = m
      \<and> width (divergence p) = n \<and> height (divergence p) = m
      \<and> width (curl p) = n \<and> height (curl p) = m
      \<and> width (readBuf (pressure p)) = n \<and> height (readBuf (pressure p)) = m
      \<and> width (writeBuf (pressure p)) = n \<and> height (writeBuf (pressure p)) = m)"

text \<open>The scalar fields a shader reads from the first channel.\<close>

definition pressureField :: "pool \<Rightarrow> nat \<Rightarrow> nat \<Rightarrow> real" where
  "pressureField p i j = vx (fetch (readBuf (pressure p)) i j)"

definition divergenceField :: "pool \<Rightarrow> nat \<Rightarrow> nat \<Rightarrow> real" where
  "divergenceField p i j = vx (fetch (divergence p) i j)"

text \<open>
  The first channel of the pressure pair's write buffer: after a swap, the field that
  was read to produce the current one.
\<close>

definition pressureBack :: "pool \<Rightarrow> nat \<Rightarrow> nat \<Rightarrow> real" where
  "pressureBack p i j = vx (fetch (writeBuf (pressure p)) i j)"

text \<open>
  The splat's weight at texel \<open>(i, j)\<close> of an \<open>n\<close> by \<open>m\<close> target, in the words of
  the specification: \<open>exp(-|p|^2 / radius)\<close>, with \<open>p\<close> the offset of the texel centre
  from the splat position, its x component multiplied by the canvas aspect ratio.
\<close>

definition splatKernel ::
  "world \<Rightarrow> simConfig \<Rightarrow> real \<Rightarrow> real \<Rightarrow> nat \<Rightarrow> nat \<Rightarrow> nat \<Rightarrow> nat \<Rightarrow> real" where
  "splatKernel w cfg x y n m i j =
     (let aspect = real_of_int (canvasWidth w) / real_of_int (canvasHeight w);
          px = ((real i + 1 / 2) / real n - x) * aspect;
          py = (real j + 1 / 2) / real m - y;
          radius = (if aspect > 1 then SPLAT_RADIUS cfg / 100 * aspect
                    else SPLAT_RADIUS cfg / 100)
      in exp (- (px * px + py * py) / radius))"

text \<open>Both buffers of a pair have the given size.\<close>

definition sameSize :: "nat \<Rightarrow> nat \<Rightarrow> doubleFBO \<Rightarrow> bool" where
  "sameSize n m d =
     (width (readBuf d) = n \<and> height (readBuf d) = m
      \<and> width (writeBuf d) = n \<and> height (writeBuf d) = m)"

text \<open>The eight render targets of a pool.\<close>

definition poolTargets :: "pool \<Rightarrow> fbo list" where
  "poolTargets p =
     [readBuf (dye p), writeBuf (dye p), readBuf (velocity p), writeBuf (velocity p),
      divergence p, curl p, readBuf (pressure p), writeBuf (pressure p)]"

subsection \<open>Predicates for the statements\<close>

text \<open>\<open>Math.random\<close> answers in \<open>[0, 1)\<close>.\<close>

definition inUnit :: "(nat \<Rightarrow> real) \<Rightarrow> bool" where
  "inUnit rnd = (\<forall>k. 0 \<le> rnd k \<and> rnd k < 1)"

text \<open>The five colours \<open>getRandomColor\<close> can return.\<close>

definition paletteColors :: "vec3 list" where
  "paletteColors = map (\<lambda>c. (fst c * 0.25, fst (snd c) * 0.25, snd (snd c) * 0.25)) PALETTE"

text \<open>
  \<open>gpuOnly w w'\<close>: from \<open>w\<close> to \<open>w'\<close> only the render targets, the record of draws,
  the advection uniform and the canvas image have changed, and the targets exist.
  A stage is a \<open>gpuStage\<close> when, run with the targets allocated, it finishes with
  such a change.
\<close>

definition gpuOnly :: "world \<Rightarrow> world \<Rightarrow> bool" where
  "gpuOnly w w' =
     (\<exists>p' D U S. w' = w\<lparr>pool := Some p', draws := D, uDyeTexelSize := U, screen := S\<rparr>)"

definition gpuStage :: "(world \<Rightarrow> world outcome) \<Rightarrow> bool" where
  "gpuStage f = (\<forall>w. pool w \<noteq> None \<longrightarrow> (\<exists>w'. f w = Done w' \<and> gpuOnly w w'))"

text \<open>
  The bounds on the arguments of an initial splat: a position in the unit square, force
  components of magnitude at most 0.0005, a colour of the scaled palette with every
  channel in \<open>[0, 0.25]\<close>.
\<close>

definition initialCall :: "real \<times> real \<times> real \<times> real \<times> vec3 \<Rightarrow> bool" where
  "initialCall c =
     (case c of (x, y, dx, dy, col) \<Rightarrow>
        0 \<le> x \<and> x \<le> 1 \<and> 0 \<le> y \<and> y \<le> 1
        \<and> \<bar>dx\<bar> \<le> 0.0005 \<and> \<bar>dy\<bar> \<le> 0.0005
        \<and> col \<in> set paletteColors
        \<and> 0 \<le> fst col \<and> fst col \<le> 0.25
        \<and> 0 \<le> fst (snd col) \<and> fst (snd col) \<le> 0.25
        \<and> 0 \<le> snd (snd col) \<and> snd (snd col) \<le> 0.25)"

text \<open>The dye's second channel is nowhere negative on the grid.\<close>

definition greenNonneg :: "pool \<Rightarrow> bool" where
  "greenNonneg p =
     (\<forall>i < width (readBuf (dye p)). \<forall>j < height (readBuf (dye p)).
        0 \<le> vy (texels (readBuf (dye p)) i j))"

text \<open>
  A floor for the splat's weight at the texel that contains the splat position, on an
  \<open>n\<close> by \<open>m\<close> target: the texel centre is at most half a texel from the position on
  each axis, so the offset \<open>p\<close> of the kernel has \<open>|p.x| \<le> aspect / (2 n)\<close> and
  \<open>|p.y| \<le> 1 / (2 m)\<close>.
\<close>

definition splatFloor :: "world \<Rightarrow> simConfig \<Rightarrow> nat \<Rightarrow> nat \<Rightarrow> real" where
  "splatFloor w cfg n m =
     (let aspect = real_of_int (canvasWidth w) / real_of_int (canvasHeight w);
          radius = (if aspect > 1 then SPLAT_RADIUS cfg / 100 * aspect
                    else SPLAT_RADIUS cfg / 100)
      in exp (- ((aspect / (2 * real n)) * (aspect / (2 * real n))
                 + (1 / (2 * real m)) * (1 / (2 * real m))) / radius))"

text \<open>The texel sizes a pool carries: the dye's and the velocity's.\<close>

definition texelSizes :: "pool \<Rightarrow> vec2 \<times> vec2" where
  "texelSizes p = ((texelSizeX (dye p), texelSizeY (dye p)), velTexel p)"

section \<open>Example devices and pages\<close>

text \<open>Concrete inputs on which the theorems below are instantiated.\<close>

definition gpuRGBAonly :: device where
  "gpuRGBAonly = \<lparr>hasWebGL2 = True, hasWebGL1 = True, extHalfFloat = True,
     extFloatLinear = True, extHalfFloatLinear = True,
     framebufferComplete = (\<lambda>i f t. i = RGBA16F)\<rparr>"

definition gpuWebGL1 :: device where
  "gpuWebGL1 = \<lparr>hasWebGL2 = False, hasWebGL1 = True, extHalfFloat = True,
     extFloatLinear = False, extHalfFloatLinear = False,
     framebufferComplete = (\<lambda>i f t. i = RGBA_internal \<and> t = HALF_FLOAT_OES)\<rparr>"

definition gpuNoFloat :: device where
  "gpuNoFloat = \<lparr>hasWebGL2 = True, hasWebGL1 = True, extHalfFloat = False,
     extFloatLinear = False, extHalfFloatLinear = False,
     framebufferComplete = (\<lambda>i f t. False)\<rparr>"

definition extWebGL1 :: ext where
  "extWebGL1 = \<lparr>formatRGBA = Some \<lparr>internalFormat = RGBA_internal, format = RGBA\<rparr>,
              formatRG = Some \<lparr>internalFormat = RGBA_internal, format = RGBA\<rparr>,
              formatR = Some \<lparr>internalFormat = RGBA_internal, format = RGBA\<rparr>,
              halfFloatTexType = HALF_FLOAT_OES, supportLinearFiltering = False\<rparr>"

definition grid2 :: "internalFormat \<Rightarrow> filterMode \<Rightarrow> (nat \<Rightarrow> nat \<Rightarrow> vec4) \<Rightarrow> fbo" where
  "grid2 ifmt filt t = \<lparr>width = 2, height = 2, texFmt = ifmt, filtering = filt, texels = t\<rparr>"

definition double2 :: "internalFormat \<Rightarrow> filterMode \<Rightarrow> (nat \<Rightarrow> nat \<Rightarrow> vec4) \<Rightarrow> doubleFBO" where
  "double2 ifmt filt t =
     \<lparr>dwidth = 2, dheight = 2, texelSizeX = 1 / 2, texelSizeY = 1 / 2,
      readBuf = grid2 ifmt filt t, writeBuf = grid2 ifmt filt (\<lambda>i j. clearColor)\<rparr>"

definition pool2 :: pool where
  "pool2 =
     \<lparr>dye = double2 RGBA16F LINEAR (\<lambda>i j. Vec4 0 (real i) 0 1),
      velocity = double2 RG16F LINEAR (\<lambda>i j. Vec4 (real i) (real j) 0 1),
      divergence = grid2 R16F NEAREST (\<lambda>i j. Vec4 1 0 0 1),
      curl = grid2 R16F NEAREST (\<lambda>i j. clearColor),
      pressure = double2 R16F NEAREST (\<lambda>i j. Vec4 (real (i + 2 * j)) 0 0 1)\<rparr>"

definition world2 :: world where
  "world2 = (pageLoad 2 2 1 2 2 (\<lambda>k. 1 / 2))\<lparr>pool := Some pool2\<rparr>"

definition page800 :: world where
  "page800 = pageLoad 800 600 1 300 150 (\<lambda>k. 1 / 2)"

definition worldMoved :: world where
  "worldMoved = world2\<lparr>pointers0 := newPointer\<lparr>texcoordX := 1 / 2, texcoordY := 1 / 2,
                    deltaX := 1 / 10, moved := True\<rparr>\<rparr>"

definition pageMoved :: world where
  "pageMoved = page800\<lparr>pointers0 := newPointer\<lparr>texcoordX := 1 / 2, texcoordY := 1 / 2,
                    deltaX := 1 / 10, moved := True\<rparr>\<rparr>"

definition extLinear :: ext where
  "extLinear = \<lparr>formatRGBA = Some \<lparr>internalFormat = RGBA16F, format = RGBA\<rparr>,
              formatRG = Some \<lparr>internalFormat = RG16F, format = RG\<rparr>,
              formatR = Some \<lparr>internalFormat = R16F, format = RED\<rparr>,
              halfFloatTexType = HALF_FLOAT, supportLinearFiltering = True\<rparr>"

definition world4 :: world where
  "world4 = world2\<lparr>pool := Some (pool2\<lparr>dye :=
      \<lparr>dwidth = 4, dheight = 4, texelSizeX = 1 / 4, texelSizeY = 1 / 4,
       readBuf = \<lparr>width = 4, height = 4, texFmt = RGBA16F, filtering = LINEAR,
                  texels = (\<lambda>i j. clearColor)\<rparr>,
       writeBuf = \<lparr>width = 4, height = 4, texFmt = RGBA16F, filtering = LINEAR,
                   texels = (\<lambda>i j. clearColor)\<rparr>\<rparr>\<rparr>)\<rparr>"

section \<open>Properties\<close>

subsection \<open>Format negotiation\<close>

lemma getSupportedFormat_supported:
  "supportRenderTextureFormat gl ifmt fmt ty \<Longrightarrow>
   getSupportedFormat gl ifmt fmt ty = Some \<lparr>internalFormat = ifmt, format = fmt\<rparr>"
  by (subst getSupportedFormat.simps) simp

lemma getSupportedFormat_unsupported:
  "\<not> supportRenderTextureFormat gl ifmt fmt ty \<Longrightarrow>
   getSupportedFormat gl ifmt fmt ty =
     (case ifmt of
        R16F \<Rightarrow> getSupportedFormat gl RG16F RG ty
      | RG16F \<Rightarrow> getSupportedFormat gl RGBA16F RGBA ty
      | _ \<Rightarrow> None)"
  by (subst getSupportedFormat.simps) simp

text \<open>The 1-channel record is missing only when the 2-channel record is.\<close>

lemma formatR_present:
  assumes "getWebGLContext gl = Some ex" and "formatRG ex \<noteq> None"
  shows "formatR ex \<noteq> None"
proof (cases "hasWebGL2 gl")
  case True
  let ?ty = "HALF_FLOAT"
  from assms(1) True have e: "formatRG ex = getSupportedFormat gl RG16F RG ?ty"
    "formatR ex = getSupportedFormat gl R16F RED ?ty"
    by (auto simp: getWebGLContext_def Let_def)
  show ?thesis
  proof (cases "supportRenderTextureFormat gl R16F RED ?ty")
    case True
    then show ?thesis by (simp add: e getSupportedFormat_supported)
  next
    case False
    then have "formatR ex = formatRG ex"
      by (simp add: e getSupportedFormat_unsupported)
    with assms(2) show ?thesis by simp
  qed
next
  case False
  with assms(1) have "formatR ex = formatRG ex"
    by (auto simp: getWebGLContext_def Let_def split: if_splits)
  with assms(2) show ?thesis by simp
qed

text \<open>
  C7. A probe that succeeds returns the requested pair unchanged. A failed 1-channel
  request is answered by the 2-channel request, a failed 2-channel request by the
  4-channel request, and a failed 4-channel request (\<open>RGBA16F\<close>, or \<open>RGBA\<close> on
  WebGL1) by no format. Without WebGL2 the 2- and 1-channel records are the 4-channel
  record.
\<close>

theorem getSupportedFormat_escalates:
  "(supportRenderTextureFormat gl ifmt fmt ty \<longrightarrow>
      getSupportedFormat gl ifmt fmt ty = Some \<lparr>internalFormat = ifmt, format = fmt\<rparr>)
   \<and> (\<not> supportRenderTextureFormat gl R16F fmt ty \<longrightarrow>
      getSupportedFormat gl R16F fmt ty = getSupportedFormat gl RG16F RG ty)
   \<and> (\<not> supportRenderTextureFormat gl RG16F fmt ty \<longrightarrow>
      getSupportedFormat gl RG16F fmt ty = getSupportedFormat gl RGBA16F RGBA ty)
   \<and> (\<not> supportRenderTextureFormat gl RGBA16F fmt ty \<longrightarrow>
      getSupportedFormat gl RGBA16F fmt ty = None)
   \<and> (\<not> supportRenderTextureFormat gl RGBA_internal fmt ty \<longrightarrow>
      getSupportedFormat gl RGBA_internal fmt ty = None)
   \<and> (\<not> hasWebGL2 gl \<longrightarrow> getWebGLContext gl = Some ex \<longrightarrow>
      formatRGBA ex = getSupportedFormat gl RGBA_internal RGBA (halfFloatTexType ex)
      \<and> formatRG ex = formatRGBA ex \<and> formatR ex = formatRGBA ex)"
proof (intro conjI impI)
  assume "\<not> hasWebGL2 gl" and "getWebGLContext gl = Some ex"
  then have e: "ex = \<lparr>formatRGBA = getSupportedFormat gl RGBA_internal RGBA
            (if extHalfFloat gl then HALF_FLOAT_OES else NoTexType),
          formatRG = getSupportedFormat gl RGBA_internal RGBA
            (if extHalfFloat gl then HALF_FLOAT_OES else NoTexType),
          formatR = getSupportedFormat gl RGBA_internal RGBA
            (if extHalfFloat gl then HALF_FLOAT_OES else NoTexType),
          halfFloatTexType = (if extHalfFloat gl then HALF_FLOAT_OES else NoTexType),
          supportLinearFiltering = extHalfFloatLinear gl\<rparr>"
    by (auto simp: getWebGLContext_def Let_def split: if_splits)
  show "formatRGBA ex = getSupportedFormat gl RGBA_internal RGBA (halfFloatTexType ex)"
    by (subst e, subst e) simp
  show "formatRG ex = formatRGBA ex" by (subst e, subst e) simp
  show "formatR ex = formatRGBA ex" by (subst e, subst e) simp
qed (simp_all add: getSupportedFormat_supported getSupportedFormat_unsupported)

theorem getSupportedFormat_escalates_witness:
  "\<not> supportRenderTextureFormat gpuRGBAonly R16F RED HALF_FLOAT
   \<and> \<not> supportRenderTextureFormat gpuRGBAonly RG16F RG HALF_FLOAT
   \<and> supportRenderTextureFormat gpuRGBAonly RGBA16F RGBA HALF_FLOAT
   \<and> getSupportedFormat gpuRGBAonly R16F RED HALF_FLOAT
       = Some \<lparr>internalFormat = RGBA16F, format = RGBA\<rparr>
   \<and> \<not> supportRenderTextureFormat gpuNoFloat RGBA16F RGBA HALF_FLOAT
   \<and> getSupportedFormat gpuNoFloat RGBA16F RGBA HALF_FLOAT = None
   \<and> \<not> supportRenderTextureFormat gpuNoFloat RGBA_internal RGBA NoTexType
   \<and> getSupportedFormat gpuNoFloat RGBA_internal RGBA NoTexType = None
   \<and> \<not> hasWebGL2 gpuWebGL1
   \<and> getWebGLContext gpuWebGL1 = Some extWebGL1
   \<and> formatRG extWebGL1 = formatRGBA extWebGL1
   \<and> formatR extWebGL1 = formatRGBA extWebGL1"
proof -
  have a: "\<not> supportRenderTextureFormat gpuRGBAonly R16F RED HALF_FLOAT"
    and b: "\<not> supportRenderTextureFormat gpuRGBAonly RG16F RG HALF_FLOAT"
    and c: "supportRenderTextureFormat gpuRGBAonly RGBA16F RGBA HALF_FLOAT"
    by (simp_all add: supportRenderTextureFormat_def gpuRGBAonly_def)
  have d: "\<not> supportRenderTextureFormat gpuNoFloat RGBA16F RGBA HALF_FLOAT"
    and e: "\<not> supportRenderTextureFormat gpuNoFloat RGBA_internal RGBA NoTexType"
    by (simp_all add: supportRenderTextureFormat_def gpuNoFloat_def)
  have s: "supportRenderTextureFormat gpuWebGL1 RGBA_internal RGBA HALF_FLOAT_OES"
    by (simp add: supportRenderTextureFormat_def gpuWebGL1_def)
  have f: "\<not> hasWebGL2 gpuWebGL1" by (simp add: gpuWebGL1_def)
  have "getSupportedFormat gpuRGBAonly R16F RED HALF_FLOAT
          = getSupportedFormat gpuRGBAonly RG16F RG HALF_FLOAT"
    using getSupportedFormat_escalates [of gpuRGBAonly R16F RED HALF_FLOAT] a by blast
  also have "\<dots> = getSupportedFormat gpuRGBAonly RGBA16F RGBA HALF_FLOAT"
    using getSupportedFormat_escalates [of gpuRGBAonly RG16F RG HALF_FLOAT] b by blast
  also have "\<dots> = Some \<lparr>internalFormat = RGBA16F, format = RGBA\<rparr>"
    using getSupportedFormat_escalates [of gpuRGBAonly RGBA16F RGBA HALF_FLOAT] c by blast
  finally have g: "getSupportedFormat gpuRGBAonly R16F RED HALF_FLOAT
          = Some \<lparr>internalFormat = RGBA16F, format = RGBA\<rparr>" .
  have h: "getSupportedFormat gpuNoFloat RGBA16F RGBA HALF_FLOAT = None"
    using getSupportedFormat_escalates [of gpuNoFloat RGBA16F RGBA HALF_FLOAT] d by blast
  have i: "getSupportedFormat gpuNoFloat RGBA_internal RGBA NoTexType = None"
    using getSupportedFormat_escalates [of gpuNoFloat RGBA_internal RGBA NoTexType] e by blast
  have k: "getSupportedFormat gpuWebGL1 RGBA_internal RGBA HALF_FLOAT_OES
             = Some \<lparr>internalFormat = RGBA_internal, format = RGBA\<rparr>"
    using getSupportedFormat_escalates [of gpuWebGL1 RGBA_internal RGBA HALF_FLOAT_OES] s
    by blast
  have l: "getWebGLContext gpuWebGL1 = Some extWebGL1"
  proof -
    have flags: "hasWebGL1 gpuWebGL1" "extHalfFloat gpuWebGL1" "\<not> extHalfFloatLinear gpuWebGL1"
      by (simp_all add: gpuWebGL1_def)
    show ?thesis
      by (simp add: getWebGLContext_def extWebGL1_def Let_def k f flags)
  qed
  have m: "formatRG extWebGL1 = formatRGBA extWebGL1 \<and> formatR extWebGL1 = formatRGBA extWebGL1"
    using getSupportedFormat_escalates [of gpuWebGL1 RGBA_internal RGBA HALF_FLOAT_OES extWebGL1]
      f l by blast
  from a b c d e f g h i l m show ?thesis by blast
qed

subsection \<open>Resolution\<close>

text \<open>
  Rounding to a double: a value between \<open>2^52 u\<close> and \<open>2^53 u\<close>, \<open>u\<close> a power of two,
  is rounded to a multiple of \<open>u\<close>; rounding never goes below the power of two under
  its argument.
\<close>

lemma roundEven_ge: "of_int k \<le> q \<Longrightarrow> k \<le> roundEven q"
proof -
  assume "of_int k \<le> q"
  then have "k \<le> \<lfloor>q\<rfloor>" by (simp add: le_floor_iff)
  then show ?thesis by (simp add: roundEven_def Let_def)
qed

lemma roundEven_of_int [simp]: "roundEven (of_int k) = k"
  by (simp add: roundEven_def Let_def)

lemma powr_shift:
  "(2::real) powr (x + 52) = 2 ^ 52 * 2 powr x" "(2::real) powr (x + 53) = 2 ^ 53 * 2 powr x"
  "(2::real) powr (x - 52) * 2 ^ 52 = 2 powr x"
  by (simp_all add: powr_add powr_diff)

lemma toDouble_lower:
  assumes "0 < a"
  shows "2 powr of_int \<lfloor>log 2 a\<rfloor> \<le> toDouble a"
proof -
  let ?e = "\<lfloor>log 2 a\<rfloor>"
  let ?u = "(2::real) powr (of_int ?e - 52)"
  have u: "0 < ?u" by simp
  have "2 powr of_int ?e \<le> 2 powr log 2 a" by (intro powr_mono) simp_all
  also have "\<dots> = a" using assms by simp
  finally have le: "2 powr of_int ?e \<le> a" .
  have split: "2 powr of_int ?e = 2 ^ 52 * ?u"
    using powr_shift(3) [of "of_int ?e"] by (simp only: mult.commute)
  have "real_of_int (2 ^ 52) * ?u \<le> a" using le split by simp
  then have "real_of_int (2 ^ 52) \<le> a / ?u" using u by (simp add: pos_le_divide_eq)
  then have "2 ^ 52 \<le> roundEven (a / ?u)" by (rule roundEven_ge)
  then have "real_of_int (2 ^ 52) \<le> of_int (roundEven (a / ?u))" by linarith
  then have "real_of_int (2 ^ 52) * ?u \<le> of_int (roundEven (a / ?u)) * ?u"
    using u by (intro mult_right_mono) simp_all
  moreover have "toDouble a = of_int (roundEven (a / ?u)) * ?u"
    using assms by (simp add: toDouble_def Let_def)
  ultimately show ?thesis using split by simp
qed

lemma toDouble_pos: "0 < a \<Longrightarrow> 0 < toDouble a"
  using toDouble_lower [of a] by (rule_tac less_le_trans [of _ "2 powr of_int \<lfloor>log 2 a\<rfloor>"]) simp_all

lemma toDouble_ge_one:
  assumes "1 \<le> a"
  shows "1 \<le> toDouble a"
proof -
  have "0 \<le> log 2 a" using assms by simp
  then have "0 \<le> \<lfloor>log 2 a\<rfloor>" by simp
  then have "(1::real) \<le> 2 powr of_int \<lfloor>log 2 a\<rfloor>" by (simp add: ge_one_powr_ge_zero)
  with toDouble_lower [of a] assms show ?thesis by linarith
qed

lemma toDouble_unit:
  assumes "u = 2 powr of_int z" and "2 ^ 52 * u \<le> \<bar>a\<bar>" and "\<bar>a\<bar> < 2 ^ 53 * u"
  shows "toDouble a = of_int (roundEven (a / u)) * u"
proof -
  have u: "0 < u" using assms(1) by simp
  have lo: "2 powr (of_int (z + 52)) \<le> \<bar>a\<bar>"
    using assms(2) powr_shift(1) [of "of_int z"] by (simp add: assms(1))
  have "of_int (z + 52) + 1 = real_of_int z + 53" by simp
  then have hi: "\<bar>a\<bar> < 2 powr (of_int (z + 52) + 1)"
    using assms(3) powr_shift(2) [of "of_int z"] by (simp only: assms(1))
  have a0: "0 < \<bar>a\<bar>" using lo by (rule less_le_trans [rotated]) simp
  have "of_int (z + 52) \<le> log 2 \<bar>a\<bar>"
    using lo a0 by (simp add: le_log_iff)
  moreover have "log 2 \<bar>a\<bar> < of_int (z + 52) + 1"
    using hi a0 by (simp add: log_less_iff)
  ultimately have "\<lfloor>log 2 \<bar>a\<bar>\<rfloor> = z + 52" by (simp add: floor_unique)
  moreover have "a \<noteq> 0" using a0 by auto
  ultimately show ?thesis by (simp add: toDouble_def Let_def assms(1))
qed


lemma toDouble_frac:
  assumes "2 ^ 52 / 2 ^ k \<le> \<bar>a\<bar>" and "\<bar>a\<bar> < 2 ^ 53 / 2 ^ k"
  shows "toDouble a = of_int (roundEven (a * 2 ^ k)) / 2 ^ k"
proof -
  have u: "1 / 2 ^ k = (2::real) powr of_int (- int k)"
    by (simp add: powr_minus powr_realpow divide_inverse)
  from toDouble_unit [OF u] assms show ?thesis by simp
qed

text \<open>On a surface of positive size a base resolution of at least 1 gives a grid with cells.\<close>

lemma getResolution_pos:
  assumes "0 < W" and "0 < H" and "1 \<le> res"
  shows "0 < fst (getResolution W H res) \<and> 0 < snd (getResolution W H res)"
proof -
  let ?q = "toDouble (real_of_int W / real_of_int H)"
  let ?r = "if ?q < 1 then toDouble (1.0 / ?q) else ?q"
  have mn: "0 < jsRound res" using assms(3) by (simp add: jsRound_def)
  have "0 < ?q" using assms by (intro toDouble_pos) simp
  then have "1 \<le> 1.0 / ?q" if "?q < 1" using that by simp
  then have a: "1 \<le> ?r" by (auto intro: toDouble_ge_one)
  have "1 \<le> res * ?r"
    using assms(3) a by (metis mult_mono order_trans zero_le_one mult_1)
  then have "1 \<le> toDouble (res * ?r)" by (rule toDouble_ge_one)
  then have mx: "0 < jsRound (toDouble (res * ?r))" by (simp add: jsRound_def)
  from mn mx show ?thesis by (simp add: getResolution_def Let_def)
qed

text \<open>
  The dye grid of the module's configuration (base 1024): rounding to a double loses at
  most one part in \<open>2^53\<close>, so the grid has at least 1023 cells along the shorter side
  of the canvas and at least 1023 times the aspect ratio along its width.
\<close>

lemma roundEven_lower: "q - 1 / 2 \<le> of_int (roundEven q)"
proof -
  have "q - 1 < of_int \<lfloor>q\<rfloor>" "of_int \<lfloor>q\<rfloor> \<le> q" by linarith+
  then show ?thesis by (auto simp: roundEven_def Let_def; linarith)
qed

lemma toDouble_rel:
  assumes "0 < a"
  shows "a * (1 - 1 / 2 ^ 53) \<le> toDouble a"
proof -
  let ?e = "\<lfloor>log 2 a\<rfloor>"
  let ?u = "(2::real) powr (of_int ?e - 52)"
  have u: "0 < ?u" by simp
  have "2 powr of_int ?e \<le> 2 powr log 2 a" by (intro powr_mono) simp_all
  also have "\<dots> = a" using assms by simp
  finally have le: "2 powr of_int ?e \<le> a" .
  have split: "2 powr of_int ?e = 2 ^ 52 * ?u"
    using powr_shift(3) [of "of_int ?e"] by (simp only: mult.commute)
  from le split have ua: "2 ^ 52 * ?u \<le> a" by simp
  have td: "toDouble a = of_int (roundEven (a / ?u)) * ?u"
    using assms by (simp add: toDouble_def Let_def)
  have "(a / ?u - 1 / 2) * ?u \<le> of_int (roundEven (a / ?u)) * ?u"
    using u roundEven_lower [of "a / ?u"] by (intro mult_right_mono) simp_all
  moreover have "(a / ?u - 1 / 2) * ?u = a - ?u / 2" using u by (simp add: field_simps)
  ultimately have "a - ?u / 2 \<le> toDouble a" by (simp only: td)
  moreover have "?u / 2 \<le> a / 2 ^ 53" using ua by simp
  ultimately have "a - a / 2 ^ 53 \<le> toDouble a" by linarith
  then show ?thesis by (simp add: algebra_simps)
qed

lemma toDouble_ge_1024:
  assumes "1024 \<le> a"
  shows "1024 \<le> toDouble a"
proof -
  have a: "0 < a" using assms by simp
  have "10 \<le> log 2 a" using assms a by (simp add: le_log_iff)
  then have "10 \<le> \<lfloor>log 2 a\<rfloor>" by (simp add: le_floor_iff)
  then have "(2::real) powr 10 \<le> 2 powr of_int \<lfloor>log 2 a\<rfloor>"
    by (intro powr_mono) simp_all
  then have "(1024::real) \<le> 2 powr of_int \<lfloor>log 2 a\<rfloor>" by simp
  with toDouble_lower [OF a] show ?thesis by linarith
qed

lemma jsRound_lower: "a - 1 / 2 \<le> of_int (jsRound a)"
  unfolding jsRound_def by linarith

lemma dyeGrid_bounds:
  assumes "0 < W" and "0 < H"
  shows "1023 * (real_of_int W / real_of_int H) \<le> real_of_int (fst (getResolution W H 1024))
       \<and> 1023 \<le> real_of_int (snd (getResolution W H 1024))"
proof -
  let ?A = "real_of_int W / real_of_int H"
  let ?q = "toDouble ?A"
  let ?r = "if ?q < 1 then toDouble (1 / ?q) else ?q"
  let ?mx = "jsRound (toDouble (1024 * ?r))"
  have A: "0 < ?A" using assms by simp
  have q: "0 < ?q" using A by (rule toDouble_pos)
  then have "1 \<le> 1 / ?q" if "?q < 1" using that by simp
  then have r: "1 \<le> ?r" by (auto intro: toDouble_ge_one)
  then have "1024 \<le> 1024 * ?r" by simp
  then have "1024 \<le> toDouble (1024 * ?r)" by (rule toDouble_ge_1024)
  with jsRound_lower [of "toDouble (1024 * ?r)"] have mx: "1023 \<le> real_of_int ?mx" by linarith
  show ?thesis
  proof (cases "H < W")
    case True
    then have A1: "1 \<le> ?A" using assms by simp
    then have q1: "1 \<le> ?q" by (rule toDouble_ge_one)
    then have nq: "\<not> ?q < 1" by simp
    have "?A * (1 - 1 / 2 ^ 53) \<le> ?q" using A by (rule toDouble_rel)
    then have "1024 * (?A * (1 - 1 / 2 ^ 53)) \<le> 1024 * ?q" by simp
    then have "1024 * (?A * (1 - 1 / 2 ^ 53)) * (1 - 1 / 2 ^ 53) \<le> 1024 * ?q * (1 - 1 / 2 ^ 53)"
      by (rule mult_right_mono) simp
    also have "1024 * ?q * (1 - 1 / 2 ^ 53) \<le> toDouble (1024 * ?q)"
      using q by (intro toDouble_rel) simp
    finally have "1024 * (?A * (1 - 1 / 2 ^ 53)) * (1 - 1 / 2 ^ 53) \<le> toDouble (1024 * ?q)" .
    then have "1023 * ?A + 1 / 2 \<le> toDouble (1024 * ?q)" using A1 by simp
    with jsRound_lower [of "toDouble (1024 * ?q)"]
    have "1023 * ?A \<le> real_of_int (jsRound (toDouble (1024 * ?q)))" by linarith
    with True nq show ?thesis by (simp add: getResolution_def Let_def jsRound_def)
  next
    case False
    then have "?A \<le> 1" using assms by simp
    then have "1023 * ?A \<le> 1024" by simp
    with False mx show ?thesis by (auto simp: getResolution_def Let_def jsRound_def split: if_split_asm)
  qed
qed

text \<open>
  The palette index: for a double \<open>r\<close> of \<open>[0, 1)\<close>, at most \<open>1 - 2^-53\<close>, the
  JavaScript product \<open>r * 5\<close> is below 5, so that its floor is an index of the palette.
\<close>

lemma roundEven_upper: "of_int (roundEven q) \<le> q + 1 / 2"
proof -
  have "q - 1 < of_int \<lfloor>q\<rfloor>" "of_int \<lfloor>q\<rfloor> \<le> q" by linarith+
  then show ?thesis by (auto simp: roundEven_def Let_def; linarith)
qed

lemma toDouble_upper:
  assumes "0 < a"
  shows "toDouble a \<le> 2 * 2 powr of_int \<lfloor>log 2 a\<rfloor>"
proof -
  let ?e = "\<lfloor>log 2 a\<rfloor>"
  let ?u = "(2::real) powr (of_int ?e - 52)"
  have u: "0 < ?u" by simp
  have "(log 2 a < of_int ?e + 1) = (a < 2 powr (of_int ?e + 1))"
    using assms by (intro log_less_iff) simp_all
  moreover have "log 2 a < of_int ?e + 1" by linarith
  ultimately have "a < 2 powr (of_int ?e + 1)" by blast
  also have "\<dots> = 2 ^ 53 * ?u" by (simp add: powr_add powr_diff)
  finally have "a / ?u < 2 ^ 53" using u by (simp add: pos_divide_less_eq)
  with roundEven_upper [of "a / ?u"] have "real_of_int (roundEven (a / ?u)) < 2 ^ 53 + 1 / 2"
    by linarith
  then have "real_of_int (roundEven (a / ?u)) < real_of_int (2 ^ 53 + 1)" by simp
  then have "roundEven (a / ?u) < 2 ^ 53 + 1" by (simp only: of_int_less_iff)
  then have "roundEven (a / ?u) \<le> 2 ^ 53" by simp
  then have "real_of_int (roundEven (a / ?u)) \<le> real_of_int (2 ^ 53)" by (simp only: of_int_le_iff)
  then have m: "real_of_int (roundEven (a / ?u)) * ?u \<le> real_of_int (2 ^ 53) * ?u"
    using u by (intro mult_right_mono) simp_all
  have td: "toDouble a = of_int (roundEven (a / ?u)) * ?u"
    using assms by (simp add: toDouble_def Let_def)
  have eq: "real_of_int (2 ^ 53) * ?u = 2 * 2 powr of_int ?e" by (simp add: powr_diff)
  from m show ?thesis by (simp only: td eq)
qed

lemma randomIndex_double:
  assumes "0 \<le> r" and "r \<le> 1 - 1 / 2 ^ 53"
  shows "0 \<le> \<lfloor>toDouble (r * 5)\<rfloor> \<and> \<lfloor>toDouble (r * 5)\<rfloor> < 5"
proof (cases "r = 0")
  case True
  then show ?thesis by (simp add: toDouble_def)
next
  case False
  with assms(1) have x: "0 < r * 5" by simp
  from toDouble_pos [OF x] have lo: "0 \<le> \<lfloor>toDouble (r * 5)\<rfloor>" by simp
  have "toDouble (r * 5) < 5"
  proof (cases "r * 5 < 4")
    case True
    then have "log 2 (r * 5) < 2" using x by (simp add: log_less_iff)
    then have "\<lfloor>log 2 (r * 5)\<rfloor> \<le> 1" by (simp add: floor_le_iff)
    then have "(2::real) powr of_int \<lfloor>log 2 (r * 5)\<rfloor> \<le> 2 powr 1"
      by (intro powr_mono) simp_all
    with toDouble_upper [OF x] show ?thesis by simp
  next
    case False
    have hi: "r * 5 \<le> 5 - 5 / 2 ^ 53" using assms(2) by simp
    have td: "toDouble (r * 5) = of_int (roundEven (r * 5 * 2 ^ 50)) / 2 ^ 50"
      using False hi x by (intro toDouble_frac) simp_all
    have "r * 5 * 2 ^ 50 \<le> 5 * 2 ^ 50 - 5 / 8" using hi by simp
    with roundEven_upper [of "r * 5 * 2 ^ 50"]
    have "real_of_int (roundEven (r * 5 * 2 ^ 50)) < real_of_int (5 * 2 ^ 50)" by simp
    then have "roundEven (r * 5 * 2 ^ 50) < 5 * 2 ^ 50" by (simp only: of_int_less_iff)
    then have "roundEven (r * 5 * 2 ^ 50) \<le> 5 * 2 ^ 50 - 1" by simp
    then have "real_of_int (roundEven (r * 5 * 2 ^ 50)) \<le> real_of_int (5 * 2 ^ 50 - 1)"
      by (simp only: of_int_le_iff)
    then show ?thesis by (simp add: td)
  qed
  then have "\<lfloor>toDouble (r * 5)\<rfloor> < 5" by (simp add: floor_less_iff)
  with lo show ?thesis by simp
qed





subsection \<open>Sampling at texel centres\<close>

lemma mix4_zero [simp]: "mix4 a b 0 = a"
  by (cases a) (simp add: mix4_def mix_def)

lemma fract_of_int [simp]: "fract (of_int k) = 0"
  by (simp add: fract_def)

lemma texture2D_texel:
  assumes "0 < width f" and "0 < height f"
  shows "texture2D f ((real_of_int a + 1 / 2) / real (width f),
                      (real_of_int b + 1 / 2) / real (height f))
         = fetch f (clampIdx a (width f)) (clampIdx b (height f))"
proof -
  have w: "(real_of_int a + 1 / 2) / real (width f) * real (width f) = real_of_int a + 1 / 2"
    using assms by simp
  have h: "(real_of_int b + 1 / 2) / real (height f) * real (height f) = real_of_int b + 1 / 2"
    using assms by simp
  have fl: "\<lfloor>real_of_int k + 1 / 2\<rfloor> = k" for k :: int
    by linarith
  show ?thesis
  proof (cases "filtering f")
    case NEAREST
    then show ?thesis using assms by (simp add: texture2D_def fl del: of_int_add)
  next
    case LINEAR
    then show ?thesis using assms by (simp add: texture2D_def Let_def)
  qed
qed

lemma clampIdx_inside: "i < n \<Longrightarrow> clampIdx (int i) n = i"
  by (simp add: clampIdx_def)

lemma texture2D_center:
  assumes "i < width f" and "j < height f"
  shows "texture2D f (fragCoord (width f) (height f) i j) = fetch f i j"
  using texture2D_texel [of f "int i" "int j"] assms
  by (simp add: fragCoord_def clampIdx_inside)

subsection \<open>Divergence\<close>

text \<open>
  C6. Every texel the divergence pass writes is \<open>0.5 * (R - L + T - B)\<close> in its
  first channel, where \<open>L, R\<close> are the x components and \<open>T, B\<close> the y components of
  the velocity sampled at the four neighbour coordinates, and a neighbour whose
  coordinate lies outside \<open>[0, 1]\<close> is replaced by the negated matching component of
  the centre velocity.
\<close>

theorem divergencePass_texel:
  assumes "i < width (divergence p)" and "j < height (divergence p)"
    and "0 \<le> texelSizeX (velocity p)" and "0 \<le> texelSizeY (velocity p)"
  shows "texels (divergence (divergencePass p)) i j =
     (let v = baseVertexShader (velTexel p)
                (fragCoord (width (divergence p)) (height (divergence p)) i j);
          S = texture2D (readBuf (velocity p));
          C = S (vUv v);
          L = (if fst (vL v) < 0 \<or> 1 < fst (vL v) then - vx C else vx (S (vL v)));
          R = (if fst (vR v) < 0 \<or> 1 < fst (vR v) then - vx C else vx (S (vR v)));
          T = (if snd (vT v) < 0 \<or> 1 < snd (vT v) then - vy C else vy (S (vT v)));
          B = (if snd (vB v) < 0 \<or> 1 < snd (vB v) then - vy C else vy (S (vB v)))
      in Vec4 (0.5 * (R - L + T - B)) 0 0 1)"
proof -
  let ?w = "width (divergence p)" and ?h = "height (divergence p)"
  have u: "0 \<le> fst (fragCoord ?w ?h i j)" "fst (fragCoord ?w ?h i j) \<le> 1"
    using assms(1) by (simp_all add: fragCoord_def)
  have v: "0 \<le> snd (fragCoord ?w ?h i j)" "snd (fragCoord ?w ?h i j) \<le> 1"
    using assms(2) by (simp_all add: fragCoord_def)
  have l: "\<not> 1 < fst (fragCoord ?w ?h i j) - texelSizeX (velocity p)"
    using u assms(3) by linarith
  have r: "\<not> fst (fragCoord ?w ?h i j) + texelSizeX (velocity p) < 0"
    using u assms(3) by linarith
  have t: "\<not> snd (fragCoord ?w ?h i j) + texelSizeY (velocity p) < 0"
    using v assms(4) by linarith
  have b: "\<not> 1 < snd (fragCoord ?w ?h i j) - texelSizeY (velocity p)"
    using v assms(4) by linarith
  show ?thesis
    by (simp add: divergencePass_def blit_def divergenceShader_def baseVertexShader_def
          velTexel_def Let_def l r t b)
qed

theorem divergencePass_texel_witness:
  "0 < width (divergence pool2) \<and> 0 < height (divergence pool2)
   \<and> 0 \<le> texelSizeX (velocity pool2) \<and> 0 \<le> texelSizeY (velocity pool2)
   \<and> texels (divergence (divergencePass pool2)) 0 0 = Vec4 1 0 0 1"
  using divergencePass_texel [of 0 pool2 0]
  apply (simp add: pool2_def double2_def grid2_def Let_def baseVertexShader_def velTexel_def fragCoord_def)
  apply (simp add: texture2D_def fetch_def clampIdx_def fract_def mix4_def mix_def)
  done

subsection \<open>Pressure relaxation\<close>

lemma vx_fetch [simp]: "vx (fetch f i j) = vx (texels f i j)"
  by (simp add: fetch_def Let_def split: internalFormat.split)

lemma drawPass_Some:
  "pool w = Some p \<Longrightarrow>
   drawPass pr tg f w = Done (w\<lparr>pool := Some (f p), draws := draws w @ [(pr, tg)]\<rparr>)"
  by (simp add: drawPass_def)

lemma pressureLoop_Some:
  "pool w = Some p \<Longrightarrow>
   pressureLoop n w =
     Done (w\<lparr>pool := Some ((pressurePass ^^ n) p),
             draws := draws w @ replicate n (PressureP, PressureT)\<rparr>)"
proof (induction n arbitrary: w p)
  case 0
  then show ?case by simp
next
  case (Suc n)
  let ?w1 = "w\<lparr>pool := Some (pressurePass p), draws := draws w @ [(PressureP, PressureT)]\<rparr>"
  have "pool ?w1 = Some (pressurePass p)" by simp
  from Suc.IH [OF this] Suc.prems show ?case
    by (simp add: drawPass_Some funpow_swap1 replicate_app_Cons_same)
qed

lemma neighbour_left:
  "0 < n \<Longrightarrow> (real i + 1 / 2) / real n - 1 / real n = (real_of_int (int i - 1) + 1 / 2) / real n"
  by (simp add: field_simps)

lemma neighbour_right:
  "0 < n \<Longrightarrow> (real i + 1 / 2) / real n + 1 / real n = (real_of_int (int i + 1) + 1 / 2) / real n"
  by (simp add: field_simps)

lemma centre_int: "(real i + 1 / 2) / real n = (real_of_int (int i) + 1 / 2) / real n"
  by simp

lemma clampIdx_pred: "i < n \<Longrightarrow> clampIdx (int i - 1) n = i - 1"
  by (auto simp: clampIdx_def)

lemma clampIdx_succ: "i < n \<Longrightarrow> clampIdx (int i + 1) n = min (i + 1) (n - 1)"
  by (auto simp: clampIdx_def)

lemma sample_centre:
  assumes "width f = n" "height f = m" "i < n" "j < m"
  shows "texture2D f ((real i + 1 / 2) / real n, (real j + 1 / 2) / real m) = fetch f i j"
  using texture2D_center [of i f j] assms by (simp add: fragCoord_def)

lemma sample_left:
  assumes "width f = n" "height f = m" "i < n" "j < m"
  shows "texture2D f ((real i + 1 / 2) / real n - 1 / real n, (real j + 1 / 2) / real m)
         = fetch f (i - 1) j"
proof -
  have "0 < width f" "0 < height f" using assms by auto
  from texture2D_texel [OF this, of "int i - 1" "int j"] assms show ?thesis
    by (simp only: neighbour_left [symmetric] centre_int [symmetric] clampIdx_pred clampIdx_inside)
qed

lemma sample_right:
  assumes "width f = n" "height f = m" "i < n" "j < m"
  shows "texture2D f ((real i + 1 / 2) / real n + 1 / real n, (real j + 1 / 2) / real m)
         = fetch f (min (i + 1) (n - 1)) j"
proof -
  have "0 < width f" "0 < height f" using assms by auto
  from texture2D_texel [OF this, of "int i + 1" "int j"] assms show ?thesis
    by (simp only: neighbour_right [symmetric] centre_int [symmetric] clampIdx_succ clampIdx_inside)
qed

lemma sample_bottom:
  assumes "width f = n" "height f = m" "i < n" "j < m"
  shows "texture2D f ((real i + 1 / 2) / real n, (real j + 1 / 2) / real m - 1 / real m)
         = fetch f i (j - 1)"
proof -
  have "0 < width f" "0 < height f" using assms by auto
  from texture2D_texel [OF this, of "int i" "int j - 1"] assms show ?thesis
    by (simp only: neighbour_left [symmetric] centre_int [symmetric] clampIdx_pred clampIdx_inside)
qed

lemma sample_top:
  assumes "width f = n" "height f = m" "i < n" "j < m"
  shows "texture2D f ((real i + 1 / 2) / real n, (real j + 1 / 2) / real m + 1 / real m)
         = fetch f i (min (j + 1) (m - 1))"
proof -
  have "0 < width f" "0 < height f" using assms by auto
  from texture2D_texel [OF this, of "int i" "int j + 1"] assms show ?thesis
    by (simp only: neighbour_right [symmetric] centre_int [symmetric] clampIdx_succ clampIdx_inside)
qed

lemma pressurePass_sweep:
  assumes "simShaped n m q" and "i < n" and "j < m"
  shows "pressureField (pressurePass q) i j
         = jacobiSweep n m (divergenceField q) (pressureField q) i j"
proof -
  from assms(1) have d: "width (writeBuf (pressure q)) = n" "height (writeBuf (pressure q)) = m"
    "width (readBuf (pressure q)) = n" "height (readBuf (pressure q)) = m"
    "width (divergence q) = n" "height (divergence q) = m"
    "texelSizeX (velocity q) = 1 / real n" "texelSizeY (velocity q) = 1 / real m"
    by (simp_all add: simShaped_def)
  show ?thesis
    using assms(2,3)
    by (simp add: pressureField_def divergenceField_def pressurePass_def blitSwap_def swap_def
          blit_def pressureShader_def baseVertexShader_def fragCoord_def velTexel_def d
          sample_left [OF d(3,4)] sample_right [OF d(3,4)] sample_top [OF d(3,4)]
          sample_bottom [OF d(3,4)] sample_centre [OF d(5,6)] jacobiSweep_def)
qed

lemma pressurePass_keeps:
  "simShaped n m q \<Longrightarrow> simShaped n m (pressurePass q)"
  "divergence (pressurePass q) = divergence q"
  by (simp_all add: simShaped_def pressurePass_def blitSwap_def swap_def blit_def)

lemma pressurePass_iter_keeps:
  "simShaped n m q \<Longrightarrow> simShaped n m ((pressurePass ^^ k) q)"
  "divergenceField ((pressurePass ^^ k) q) = divergenceField q"
  by (induction k) (simp_all add: pressurePass_keeps divergenceField_def fun_eq_iff)

lemma jacobiSweep_cong:
  assumes "\<And>i j. i < n \<Longrightarrow> j < m \<Longrightarrow> P i j = Q i j" and "i < n" and "j < m"
  shows "jacobiSweep n m D P i j = jacobiSweep n m D Q i j"
proof -
  have "P (i - 1) j = Q (i - 1) j" "P (min (i + 1) (n - 1)) j = Q (min (i + 1) (n - 1)) j"
    "P i (j - 1) = Q i (j - 1)" "P i (min (j + 1) (m - 1)) = Q i (min (j + 1) (m - 1))"
    using assms(2,3) by (auto intro!: assms(1))
  then show ?thesis by (simp add: jacobiSweep_def)
qed

lemma jacobiSweep_iter_cong:
  assumes "\<And>i j. i < n \<Longrightarrow> j < m \<Longrightarrow> P i j = Q i j" and "i < n" and "j < m"
  shows "(jacobiSweep n m D ^^ k) P i j = (jacobiSweep n m D ^^ k) Q i j"
  using assms(2,3)
proof (induction k arbitrary: i j)
  case 0
  then show ?case by (simp add: assms(1))
next
  case (Suc k)
  show ?case
    using Suc.prems by (simp, intro jacobiSweep_cong) (auto intro: Suc.IH)
qed

lemma pressurePass_iter:
  assumes "simShaped n m q" and "i < n" and "j < m"
  shows "pressureField ((pressurePass ^^ k) q) i j
         = (jacobiSweep n m (divergenceField q) ^^ k) (pressureField q) i j"
  using assms(2,3)
proof (induction k arbitrary: i j)
  case 0
  then show ?case by simp
next
  case (Suc k)
  have "pressureField ((pressurePass ^^ Suc k) q) i j
        = jacobiSweep n m (divergenceField q) (pressureField ((pressurePass ^^ k) q)) i j"
    using pressurePass_sweep [OF pressurePass_iter_keeps(1) [OF assms(1)] Suc.prems, of k]
    by (simp add: pressurePass_iter_keeps(2))
  also have "\<dots> = jacobiSweep n m (divergenceField q)
                    ((jacobiSweep n m (divergenceField q) ^^ k) (pressureField q)) i j"
    using Suc.prems by (intro jacobiSweep_cong) (auto intro: Suc.IH)
  finally show ?case by simp
qed


text \<open>
  The swap: a pressure pass leaves the buffer it read as the pair's write buffer, and so
  does the clear pass before the loop.
\<close>

lemma pressurePass_swaps: "writeBuf (pressure (pressurePass q)) = readBuf (pressure q)"
  by (simp add: pressurePass_def blitSwap_def swap_def)

lemma pressurePass_iter_back:
  "pressureBack ((pressurePass ^^ Suc k) q) = pressureField ((pressurePass ^^ k) q)"
  by (simp add: pressureBack_def pressureField_def pressurePass_swaps fun_eq_iff del: vx_fetch)

lemma head_back:
  "writeBuf (pressure (clearPass cfg (divergencePass (vorticityPass cfg dt (curlPass p)))))
   = readBuf (pressure p)"
  by (simp add: clearPass_def divergencePass_def vorticityPass_def curlPass_def
        blitSwap_def swap_def)

lemma seqAll_append:
  "seqAll (fs @ gs) w =
     (case seqAll fs w of Done w' \<Rightarrow> seqAll gs w' | Raised e w' \<Rightarrow> Raised e w')"
  by (induction fs arbitrary: w) (simp_all split: outcome.split)

lemma step_head:
  assumes "pool w = Some p"
  shows "seqAll [drawPass CurlP CurlT curlPass,
             drawPass VorticityP VelocityT (vorticityPass cfg dt),
             drawPass DivergenceP DivergenceT divergencePass,
             drawPass ClearP PressureT (clearPass cfg),
             pressureLoop k] w
         = Done (w\<lparr>pool := Some ((pressurePass ^^ k)
                     (clearPass cfg (divergencePass (vorticityPass cfg dt (curlPass p))))),
                   draws := draws w @ [(CurlP, CurlT), (VorticityP, VelocityT),
                     (DivergenceP, DivergenceT), (ClearP, PressureT)]
                     @ replicate k (PressureP, PressureT)\<rparr>)"
  using assms by (simp add: drawPass_Some pressureLoop_Some)

lemma step_tail:
  assumes "pool w = Some q"
  shows "\<exists>w' p'. seqAll [drawPass GradientSubtractP VelocityT gradientSubtractPass,
                        advectVelocity ex cfg dt, advectDye cfg dt] w = Done w'
           \<and> pool w' = Some p' \<and> pressure p' = pressure q \<and> divergence p' = divergence q
           \<and> draws w' = draws w @ [(GradientSubtractP, VelocityT), (AdvectionP, VelocityT),
                                    (AdvectionP, DyeT)]"
  using assms
  by (simp add: drawPass_Some advectVelocity_def advectDye_def gradientSubtractPass_def Let_def)

lemma head_shape:
  assumes "simShaped n m p"
  shows "simShaped n m (clearPass cfg (divergencePass (vorticityPass cfg dt (curlPass p))))"
  using assms
  by (simp add: simShaped_def clearPass_def divergencePass_def vorticityPass_def curlPass_def
        blitSwap_def swap_def blit_def)

lemma head_pressure:
  assumes "simShaped n m p" and "i < n" and "j < m"
  shows "pressureField (clearPass cfg (divergencePass (vorticityPass cfg dt (curlPass p)))) i j
         = PRESSURE cfg * pressureField p i j"
proof -
  from assms(1) have d: "width (writeBuf (pressure p)) = n" "height (writeBuf (pressure p)) = m"
    "width (readBuf (pressure p)) = n" "height (readBuf (pressure p)) = m"
    by (simp_all add: simShaped_def)
  show ?thesis
    using assms(2,3)
    by (simp add: pressureField_def clearPass_def divergencePass_def vorticityPass_def
          curlPass_def blitSwap_def swap_def blit_def clearShader_def baseVertexShader_def
          fragCoord_def d sample_centre [OF d(3,4)] Let_def)
qed

text \<open>\<open>initFramebuffers\<close> gives the pool the shape the next theorem asks for.\<close>

lemma initFramebuffers_simShaped:
  assumes "formatRGBA ex = Some rgba" and "formatRG ex = Some rg" and "formatR ex = Some r"
    and "0 < canvasWidth w" and "0 < canvasHeight w" and "1 \<le> SIM_RESOLUTION cfg"
  shows "\<exists>p'. initFramebuffers ex cfg w = Done (w\<lparr>pool := Some p'\<rparr>)
           \<and> simShaped (nat (fst (getResolution (canvasWidth w) (canvasHeight w)
                                     (SIM_RESOLUTION cfg))))
                         (nat (snd (getResolution (canvasWidth w) (canvasHeight w)
                                     (SIM_RESOLUTION cfg)))) p'"
proof -
  let ?sim = "getResolution (canvasWidth w) (canvasHeight w) (SIM_RESOLUTION cfg)"
  let ?dye = "getResolution (canvasWidth w) (canvasHeight w) (DYE_RESOLUTION cfg)"
  let ?filt = "if supportLinearFiltering ex then LINEAR else NEAREST"
  let ?p = "\<lparr>dye = createDoubleFBO (nat (fst ?dye)) (nat (snd ?dye))
                     (internalFormat rgba) (format rgba) (halfFloatTexType ex) ?filt,
             velocity = createDoubleFBO (nat (fst ?sim)) (nat (snd ?sim))
                     (internalFormat rg) (format rg) (halfFloatTexType ex) ?filt,
             divergence = createFBO (nat (fst ?sim)) (nat (snd ?sim))
                     (internalFormat r) (format r) (halfFloatTexType ex) NEAREST,
             curl = createFBO (nat (fst ?sim)) (nat (snd ?sim))
                     (internalFormat r) (format r) (halfFloatTexType ex) NEAREST,
             pressure = createDoubleFBO (nat (fst ?sim)) (nat (snd ?sim))
                     (internalFormat r) (format r) (halfFloatTexType ex) NEAREST\<rparr>"
  have a: "initFramebuffers ex cfg w = Done (w\<lparr>pool := Some ?p\<rparr>)"
    by (simp add: initFramebuffers_def Let_def assms)
  from getResolution_pos [OF assms(4,5,6)] have "0 < fst ?sim" "0 < snd ?sim" by simp_all
  then have "simShaped (nat (fst ?sim)) (nat (snd ?sim)) ?p"
    by (simp add: simShaped_def createDoubleFBO_def createFBO_def)
  with a show ?thesis by blast
qed

text \<open>
  C2. On a pool of simulation size \<open>n\<close> by \<open>m\<close>, one \<open>step\<close> issues, between the
  clear pass and the gradient subtraction, exactly \<open>PRESSURE_ITERATIONS\<close> draws of the
  pressure program, and the pressure it leaves in the read buffer is that many Jacobi
  sweeps, each from the previous iterate and this step's divergence, started from the
  previous pressure multiplied by \<open>PRESSURE\<close>. With no iteration the result is that
  product itself. The pair is swapped after every pass: a pressure pass leaves the
  buffer it read as the write buffer, so that after the step the write buffer holds the
  iterate before the last (one sweep fewer), and with no iteration it is the very buffer
  that held the previous frame's pressure, put there by the swap of the clear pass.
\<close>

theorem step_pressure_sweeps:
  assumes "pool w = Some p" and "simShaped n m p"
  shows "\<exists>w' p'. step ex cfg dt w = Done w' \<and> pool w' = Some p'
     \<and> draws w' = draws w
         @ [(CurlP, CurlT), (VorticityP, VelocityT), (DivergenceP, DivergenceT),
            (ClearP, PressureT)]
         @ replicate (PRESSURE_ITERATIONS cfg) (PressureP, PressureT)
         @ [(GradientSubtractP, VelocityT), (AdvectionP, VelocityT), (AdvectionP, DyeT)]
     \<and> (\<forall>i<n. \<forall>j<m. pressureField p' i j =
           (jacobiSweep n m (divergenceField p') ^^ PRESSURE_ITERATIONS cfg)
             (\<lambda>a b. PRESSURE cfg * pressureField p a b) i j)
     \<and> (\<forall>q. writeBuf (pressure (pressurePass q)) = readBuf (pressure q))
     \<and> (\<forall>k. PRESSURE_ITERATIONS cfg = Suc k \<longrightarrow>
           (\<forall>i<n. \<forall>j<m. pressureBack p' i j =
              (jacobiSweep n m (divergenceField p') ^^ k)
                (\<lambda>a b. PRESSURE cfg * pressureField p a b) i j))
     \<and> (PRESSURE_ITERATIONS cfg = 0 \<longrightarrow> writeBuf (pressure p') = readBuf (pressure p))"
proof -
  let ?k = "PRESSURE_ITERATIONS cfg"
  let ?p4 = "clearPass cfg (divergencePass (vorticityPass cfg dt (curlPass p)))"
  let ?p5 = "(pressurePass ^^ ?k) ?p4"
  let ?w5 = "w\<lparr>pool := Some ?p5,
               draws := draws w @ [(CurlP, CurlT), (VorticityP, VelocityT),
                 (DivergenceP, DivergenceT), (ClearP, PressureT)]
                 @ replicate ?k (PressureP, PressureT)\<rparr>"
  have "pool ?w5 = Some ?p5" by simp
  from step_tail [OF this, of ex cfg dt] obtain w' p' where
    t: "seqAll [drawPass GradientSubtractP VelocityT gradientSubtractPass,
                advectVelocity ex cfg dt, advectDye cfg dt] ?w5 = Done w'"
    and q: "pool w' = Some p'" "pressure p' = pressure ?p5" "divergence p' = divergence ?p5"
    and dr: "draws w' = draws ?w5 @ [(GradientSubtractP, VelocityT), (AdvectionP, VelocityT),
                                    (AdvectionP, DyeT)]"
    by blast
  have split: "step ex cfg dt w =
      (case seqAll [drawPass CurlP CurlT curlPass,
             drawPass VorticityP VelocityT (vorticityPass cfg dt),
             drawPass DivergenceP DivergenceT divergencePass,
             drawPass ClearP PressureT (clearPass cfg),
             pressureLoop ?k] w of
         Done v \<Rightarrow> seqAll [drawPass GradientSubtractP VelocityT gradientSubtractPass,
                advectVelocity ex cfg dt, advectDye cfg dt] v
       | Raised e v \<Rightarrow> Raised e v)"
    unfolding step_def
    using seqAll_append [of "[drawPass CurlP CurlT curlPass,
             drawPass VorticityP VelocityT (vorticityPass cfg dt),
             drawPass DivergenceP DivergenceT divergencePass,
             drawPass ClearP PressureT (clearPass cfg),
             pressureLoop ?k]" "[drawPass GradientSubtractP VelocityT gradientSubtractPass,
                advectVelocity ex cfg dt, advectDye cfg dt]" w]
    by simp
  have run: "step ex cfg dt w = Done w'"
    by (simp only: split step_head [OF assms(1)] outcome.case t)
  have pf: "pressureField p' = pressureField ?p5" "divergenceField p' = divergenceField ?p5"
    by (simp_all add: pressureField_def divergenceField_def q fun_eq_iff del: vx_fetch)
  have pb: "pressureBack p' = pressureBack ?p5"
    by (simp add: pressureBack_def q fun_eq_iff del: vx_fetch)
  have sh: "simShaped n m ?p4" by (rule head_shape [OF assms(2)])
  have dv: "divergenceField p' = divergenceField ?p4"
    by (simp only: pf pressurePass_iter_keeps(2))
  have sweeps: "pressureField ((pressurePass ^^ k) ?p4) i j =
           (jacobiSweep n m (divergenceField p') ^^ k)
             (\<lambda>a b. PRESSURE cfg * pressureField p a b) i j" if "i < n" "j < m" for i j k
  proof -
    have "pressureField ((pressurePass ^^ k) ?p4) i j
          = (jacobiSweep n m (divergenceField ?p4) ^^ k) (pressureField ?p4) i j"
      by (rule pressurePass_iter [OF sh that])
    also have "\<dots> = (jacobiSweep n m (divergenceField ?p4) ^^ k)
                       (\<lambda>a b. PRESSURE cfg * pressureField p a b) i j"
      by (rule jacobiSweep_iter_cong [OF _ that]) (rule head_pressure [OF assms(2)])
    finally show ?thesis by (simp only: dv)
  qed
  have field: "\<forall>i<n. \<forall>j<m. pressureField p' i j =
           (jacobiSweep n m (divergenceField p') ^^ ?k)
             (\<lambda>a b. PRESSURE cfg * pressureField p a b) i j"
    using sweeps [of _ _ ?k] by (simp only: pf) blast
  have prev: "\<forall>k. ?k = Suc k \<longrightarrow>
           (\<forall>i<n. \<forall>j<m. pressureBack p' i j =
              (jacobiSweep n m (divergenceField p') ^^ k)
                (\<lambda>a b. PRESSURE cfg * pressureField p a b) i j)"
  proof (intro allI impI)
    fix k i j
    assume k: "?k = Suc k" and ij: "i < n" "j < m"
    have "pressureBack p' i j = pressureField ((pressurePass ^^ k) ?p4) i j"
      by (simp only: pb k pressurePass_iter_back)
    then show "pressureBack p' i j =
              (jacobiSweep n m (divergenceField p') ^^ k)
                (\<lambda>a b. PRESSURE cfg * pressureField p a b) i j"
      by (simp only: sweeps [OF ij])
  qed
  have none: "?k = 0 \<longrightarrow> writeBuf (pressure p') = readBuf (pressure p)"
    by (simp add: q head_back)
  have swaps: "\<forall>q. writeBuf (pressure (pressurePass q)) = readBuf (pressure q)"
    by (simp add: pressurePass_swaps)
  from run q(1) dr field swaps prev none show ?thesis by (intro exI conjI) simp_all
qed

theorem step_pressure_sweeps_witness:
  "pool world2 = Some pool2 \<and> simShaped 2 2 pool2
   \<and> (\<exists>w' p'. step extWebGL1 (config\<lparr>PRESSURE_ITERATIONS := 0\<rparr>) (1 / 60) world2 = Done w'
         \<and> pool w' = Some p' \<and> pressureField p' 1 1 = 12 / 5
         \<and> writeBuf (pressure p') = readBuf (pressure pool2))
   \<and> (\<exists>w' p'. step extWebGL1 (config\<lparr>PRESSURE_ITERATIONS := 2\<rparr>) (1 / 60) world2 = Done w'
         \<and> pool w' = Some p'
         \<and> draws w' = [(CurlP, CurlT), (VorticityP, VelocityT), (DivergenceP, DivergenceT),
              (ClearP, PressureT), (PressureP, PressureT), (PressureP, PressureT),
              (GradientSubtractP, VelocityT), (AdvectionP, VelocityT), (AdvectionP, DyeT)]
         \<and> pressureField p' 0 0 =
             jacobiSweep 2 2 (divergenceField p')
               (jacobiSweep 2 2 (divergenceField p')
                  (\<lambda>a b. 4 / 5 * pressureField pool2 a b)) 0 0
         \<and> pressureBack p' 0 0 =
             jacobiSweep 2 2 (divergenceField p')
               (\<lambda>a b. 4 / 5 * pressureField pool2 a b) 0 0)"
proof -
  have h1: "pool world2 = Some pool2" by (simp add: world2_def)
  have h2: "simShaped 2 2 pool2"
    by (simp add: simShaped_def pool2_def double2_def grid2_def)
  have d0: "draws world2 = []" by (simp add: world2_def pageLoad_def)
  have pr: "PRESSURE (config\<lparr>PRESSURE_ITERATIONS := k\<rparr>) = 4 / 5" for k
    by (simp add: config_def)
  have p11: "pressureField pool2 1 1 = 3"
    by (simp add: pressureField_def pool2_def double2_def grid2_def)
  from step_pressure_sweeps [OF h1 h2, of extWebGL1 "config\<lparr>PRESSURE_ITERATIONS := 0\<rparr>" "1 / 60"]
  obtain w' p' where a: "step extWebGL1 (config\<lparr>PRESSURE_ITERATIONS := 0\<rparr>) (1 / 60) world2 = Done w'"
    "pool w' = Some p'"
    "\<forall>i<2. \<forall>j<2. pressureField p' i j = 4 / 5 * pressureField pool2 i j"
    "writeBuf (pressure p') = readBuf (pressure pool2)"
    by (auto simp: pr)
  have one: "(1::nat) < 2" by simp
  from a(3) one have "pressureField p' 1 1 = 4 / 5 * pressureField pool2 1 1" by blast
  then have "pressureField p' 1 1 = 12 / 5" by (simp only: p11)
  with a have A: "\<exists>w' p'. step extWebGL1 (config\<lparr>PRESSURE_ITERATIONS := 0\<rparr>) (1 / 60) world2 = Done w'
         \<and> pool w' = Some p' \<and> pressureField p' 1 1 = 12 / 5
         \<and> writeBuf (pressure p') = readBuf (pressure pool2)" by blast
  from step_pressure_sweeps [OF h1 h2, of extWebGL1 "config\<lparr>PRESSURE_ITERATIONS := 2\<rparr>" "1 / 60"]
  obtain v' q' where b: "step extWebGL1 (config\<lparr>PRESSURE_ITERATIONS := 2\<rparr>) (1 / 60) world2 = Done v'"
    "pool v' = Some q'"
    "draws v' = [(CurlP, CurlT), (VorticityP, VelocityT), (DivergenceP, DivergenceT),
              (ClearP, PressureT), (PressureP, PressureT), (PressureP, PressureT),
              (GradientSubtractP, VelocityT), (AdvectionP, VelocityT), (AdvectionP, DyeT)]"
    "\<forall>i<2. \<forall>j<2. pressureField q' i j =
           (jacobiSweep 2 2 (divergenceField q') ^^ 2)
             (\<lambda>a b. 4 / 5 * pressureField pool2 a b) i j"
    "\<forall>i<2. \<forall>j<2. pressureBack q' i j =
           (jacobiSweep 2 2 (divergenceField q') ^^ 1)
             (\<lambda>a b. 4 / 5 * pressureField pool2 a b) i j"
    by (auto simp: pr d0 numeral_2_eq_2)
  from b(4) have f: "pressureField q' 0 0 =
             jacobiSweep 2 2 (divergenceField q')
               (jacobiSweep 2 2 (divergenceField q')
                  (\<lambda>a b. 4 / 5 * pressureField pool2 a b)) 0 0"
    by (simp add: numeral_2_eq_2)
  from b(5) have g: "pressureBack q' 0 0 =
             jacobiSweep 2 2 (divergenceField q')
               (\<lambda>a b. 4 / 5 * pressureField pool2 a b) 0 0"
    by simp
  from b f g have B: "\<exists>w' p'. step extWebGL1 (config\<lparr>PRESSURE_ITERATIONS := 2\<rparr>) (1 / 60) world2 = Done w'
         \<and> pool w' = Some p'
         \<and> draws w' = [(CurlP, CurlT), (VorticityP, VelocityT), (DivergenceP, DivergenceT),
              (ClearP, PressureT), (PressureP, PressureT), (PressureP, PressureT),
              (GradientSubtractP, VelocityT), (AdvectionP, VelocityT), (AdvectionP, DyeT)]
         \<and> pressureField p' 0 0 =
             jacobiSweep 2 2 (divergenceField p')
               (jacobiSweep 2 2 (divergenceField p')
                  (\<lambda>a b. 4 / 5 * pressureField pool2 a b)) 0 0
         \<and> pressureBack p' 0 0 =
             jacobiSweep 2 2 (divergenceField p')
               (\<lambda>a b. 4 / 5 * pressureField pool2 a b) 0 0" by blast
  from h1 h2 A B show ?thesis by blast
qed

subsection \<open>Impulse injection\<close>

lemma splat_Some:
  assumes "pool w = Some p"
  shows "splat cfg x y dx dy col w =
     Done (w\<lparr>splatCalls := splatCalls w @ [(x, y, dx, dy, col)],
             pool := Some (splatDye cfg w x y col (splatVelocity cfg w x y dx dy p)),
             draws := draws w @ [(SplatP, VelocityT), (SplatP, DyeT)]\<rparr>)"
  using assms
  by (simp add: splat_def drawPass_Some splatVelocity_def splatDye_def correctRadius_def)

lemma splatShader_centre:
  assumes "width src = n" "height src = m" "width tgt = n" "height tgt = m" "i < n" "j < m"
  shows "texels (blit (splatShader (texture2D src)
                   (real_of_int (canvasWidth w) / real_of_int (canvasHeight w)) c (x, y)
                   (correctRadius w (SPLAT_RADIUS cfg / 100.0))) ts tgt) i j
         = (let k = splatKernel w cfg x y n m i j; old = fetch src i j
            in Vec4 (vx old + k * fst c) (vy old + k * fst (snd c))
                    (vz old + k * snd (snd c)) 1)"
  using assms
  by (simp add: blit_def splatShader_def baseVertexShader_def splatKernel_def
        correctRadius_def Let_def sample_centre [OF assms(1,2,5,6)] fragCoord_def)

text \<open>
  C8. With the render targets allocated, \<open>splat(x, y, dx, dy, color)\<close> finishes for
  every position. Each texel of the new velocity is the old one plus the kernel times
  \<open>(dx * SPLAT_FORCE, dy * SPLAT_FORCE)\<close>, each texel of the new dye is the old one
  plus the same kernel times the colour (the fourth channel is written as 1), the
  kernel takes the same aspect ratio and radius in both draws, and each pair is swapped
  once: the old read buffer is the new write buffer.
\<close>

theorem splat_adds_kernel:
  assumes "pool w = Some p" and "sameSize n m (velocity p)" and "sameSize a b (dye p)"
    and "0 < canvasWidth w" and "0 < canvasHeight w" and "0 < SPLAT_RADIUS cfg"
  shows "\<exists>w' p'. splat cfg x y dx dy col w = Done w' \<and> pool w' = Some p'
     \<and> draws w' = draws w @ [(SplatP, VelocityT), (SplatP, DyeT)]
     \<and> writeBuf (velocity p') = readBuf (velocity p)
     \<and> writeBuf (dye p') = readBuf (dye p)
     \<and> (\<forall>i<n. \<forall>j<m.
           texels (readBuf (velocity p')) i j =
             (let k = splatKernel w cfg x y n m i j; old = fetch (readBuf (velocity p)) i j
              in Vec4 (vx old + k * (dx * SPLAT_FORCE cfg)) (vy old + k * (dy * SPLAT_FORCE cfg))
                      (vz old) 1))
     \<and> (\<forall>i<a. \<forall>j<b.
           texels (readBuf (dye p')) i j =
             (let k = splatKernel w cfg x y a b i j; old = fetch (readBuf (dye p)) i j
              in Vec4 (vx old + k * fst col) (vy old + k * fst (snd col))
                      (vz old + k * snd (snd col)) 1))"
proof -
  let ?p' = "splatDye cfg w x y col (splatVelocity cfg w x y dx dy p)"
  from assms(2) have v: "width (readBuf (velocity p)) = n" "height (readBuf (velocity p)) = m"
    "width (writeBuf (velocity p)) = n" "height (writeBuf (velocity p)) = m"
    by (simp_all add: sameSize_def)
  from assms(3) have d: "width (readBuf (dye p)) = a" "height (readBuf (dye p)) = b"
    "width (writeBuf (dye p)) = a" "height (writeBuf (dye p)) = b"
    by (simp_all add: sameSize_def)
  have sw: "writeBuf (velocity ?p') = readBuf (velocity p)" "writeBuf (dye ?p') = readBuf (dye p)"
    by (simp_all add: splatDye_def splatVelocity_def blitSwap_def swap_def)
  have vel: "texels (readBuf (velocity ?p')) i j =
             (let k = splatKernel w cfg x y n m i j; old = fetch (readBuf (velocity p)) i j
              in Vec4 (vx old + k * (dx * SPLAT_FORCE cfg)) (vy old + k * (dy * SPLAT_FORCE cfg))
                      (vz old) 1)" if "i < n" "j < m" for i j
    using splatShader_centre [OF v that, of w "(dx * SPLAT_FORCE cfg, dy * SPLAT_FORCE cfg, 0)" x y cfg "(0, 0)"]
    by (simp add: splatDye_def splatVelocity_def blitSwap_def swap_def Let_def)
  have dy: "texels (readBuf (dye ?p')) i j =
             (let k = splatKernel w cfg x y a b i j; old = fetch (readBuf (dye p)) i j
              in Vec4 (vx old + k * fst col) (vy old + k * fst (snd col))
                      (vz old + k * snd (snd col)) 1)" if "i < a" "j < b" for i j
    using splatShader_centre [OF d that, of w col x y cfg "(0, 0)"]
    by (simp add: splatDye_def splatVelocity_def blitSwap_def swap_def Let_def)
  show ?thesis
    using splat_Some [OF assms(1), of cfg x y dx dy col] sw vel dy by simp
qed

theorem splat_adds_kernel_witness:
  "pool world2 = Some pool2 \<and> sameSize 2 2 (velocity pool2) \<and> sameSize 2 2 (dye pool2)
   \<and> 0 < canvasWidth world2 \<and> 0 < canvasHeight world2 \<and> 0 < SPLAT_RADIUS config
   \<and> splatKernel world2 config (1 / 4) (1 / 4) 2 2 0 0 = 1
   \<and> (\<exists>w' p'. splat config (1 / 4) (1 / 4) 1 0 (0, 1 / 4, 0) world2 = Done w'
         \<and> pool w' = Some p'
         \<and> draws w' = [(SplatP, VelocityT), (SplatP, DyeT)]
         \<and> texels (readBuf (velocity p')) 0 0 = Vec4 6000 0 0 1
         \<and> texels (readBuf (dye p')) 0 0 = Vec4 0 (1 / 4) 0 1)"
proof -
  have h1: "pool world2 = Some pool2" by (simp add: world2_def)
  have h2: "sameSize 2 2 (velocity pool2)" "sameSize 2 2 (dye pool2)"
    by (simp_all add: sameSize_def pool2_def double2_def grid2_def)
  have d0: "draws world2 = []" by (simp add: world2_def pageLoad_def)
  have k: "splatKernel world2 config (1 / 4) (1 / 4) 2 2 0 0 = 1"
    by (simp add: splatKernel_def world2_def pageLoad_def)
  have f: "SPLAT_FORCE config = 6000" by (simp add: config_def)
  have ov: "fetch (readBuf (velocity pool2)) 0 0 = Vec4 0 0 0 1"
    by (simp add: fetch_def pool2_def double2_def grid2_def)
  have od: "fetch (readBuf (dye pool2)) 0 0 = Vec4 0 0 0 1"
    by (simp add: fetch_def pool2_def double2_def grid2_def)
  have h3: "0 < canvasWidth world2" "0 < canvasHeight world2" "0 < SPLAT_RADIUS config"
    by (simp_all add: world2_def pageLoad_def config_def)
  from splat_adds_kernel [OF h1 h2 h3, of "1 / 4" "1 / 4" 1 0 "(0, 1 / 4, 0)"]
  obtain w' p' where r: "splat config (1 / 4) (1 / 4) 1 0 (0, 1 / 4, 0) world2 = Done w'"
    "pool w' = Some p'" "draws w' = [(SplatP, VelocityT), (SplatP, DyeT)]"
    and tv: "\<forall>i<2. \<forall>j<2. texels (readBuf (velocity p')) i j =
             (let k = splatKernel world2 config (1 / 4) (1 / 4) 2 2 i j;
                  old = fetch (readBuf (velocity pool2)) i j
              in Vec4 (vx old + k * (1 * SPLAT_FORCE config)) (vy old + k * (0 * SPLAT_FORCE config))
                      (vz old) 1)"
    and td: "\<forall>i<2. \<forall>j<2. texels (readBuf (dye p')) i j =
             (let k = splatKernel world2 config (1 / 4) (1 / 4) 2 2 i j;
                  old = fetch (readBuf (dye pool2)) i j
              in Vec4 (vx old + k * fst (0::real, 1 / 4 :: real, 0::real))
                      (vy old + k * fst (snd (0::real, 1 / 4 :: real, 0::real)))
                      (vz old + k * snd (snd (0::real, 1 / 4 :: real, 0::real))) 1)"
    by (auto simp: d0)
  have z: "(0::nat) < 2" by simp
  from tv z have "texels (readBuf (velocity p')) 0 0 =
             (let k = splatKernel world2 config (1 / 4) (1 / 4) 2 2 0 0;
                  old = fetch (readBuf (velocity pool2)) 0 0
              in Vec4 (vx old + k * (1 * SPLAT_FORCE config)) (vy old + k * (0 * SPLAT_FORCE config))
                      (vz old) 1)" by blast
  then have a: "texels (readBuf (velocity p')) 0 0 = Vec4 6000 0 0 1"
    by (simp add: k f ov)
  from td z have "texels (readBuf (dye p')) 0 0 =
             (let k = splatKernel world2 config (1 / 4) (1 / 4) 2 2 0 0;
                  old = fetch (readBuf (dye pool2)) 0 0
              in Vec4 (vx old + k * fst (0::real, 1 / 4 :: real, 0::real))
                      (vy old + k * fst (snd (0::real, 1 / 4 :: real, 0::real)))
                      (vz old + k * snd (snd (0::real, 1 / 4 :: real, 0::real))) 1)" by blast
  then have b: "texels (readBuf (dye p')) 0 0 = Vec4 0 (1 / 4) 0 1"
    by (simp add: k od)
  from r a b have "\<exists>w' p'. splat config (1 / 4) (1 / 4) 1 0 (0, 1 / 4, 0) world2 = Done w'
         \<and> pool w' = Some p'
         \<and> draws w' = [(SplatP, VelocityT), (SplatP, DyeT)]
         \<and> texels (readBuf (velocity p')) 0 0 = Vec4 6000 0 0 1
         \<and> texels (readBuf (dye p')) 0 0 = Vec4 0 (1 / 4) 0 1" by blast
  with h1 h2 h3 k show ?thesis by blast
qed

subsection \<open>Fresh render targets\<close>

lemma fetch_createFBO [simp]: "fetch (createFBO n m ifmt fmt ty filt) i j = Vec4 0 0 0 1"
  by (simp add: fetch_def createFBO_def clearColor_def Let_def split: internalFormat.split)

lemma mix4_same [simp]: "mix4 a a t = a"
  by (cases a) (simp add: mix4_def mix_def algebra_simps)

lemma texture2D_createFBO: "texture2D (createFBO n m ifmt fmt ty filt) uv = Vec4 0 0 0 1"
  by (simp add: texture2D_def Let_def split: filterMode.split)

text \<open>
  C5, as stated, fails in the fourth channel: the clear colour set by
  \<open>getWebGLContext\<close> is \<open>(0, 0, 0, 1)\<close>, so a fresh 4-channel target reads 1 there.
\<close>

theorem fresh_alpha_counterexample:
  "vw (texture2D (createFBO 4 4 RGBA16F RGBA HALF_FLOAT NEAREST) (1 / 8, 1 / 8)) \<noteq> 0"
  by (simp add: texture2D_createFBO)

text \<open>
  C5, amended. Every target \<open>createFBO\<close> returns reads as the clear colour
  \<open>(0, 0, 0, 1)\<close> at every coordinate: zero in the first three channels, one in the
  fourth. When the three formats exist, \<open>initFramebuffers\<close> replaces the pool, whatever
  it held, by eight targets that all read so.
\<close>

theorem fresh_targets_read_clear:
  "texture2D (createFBO n m ifmt fmt ty filt) uv = Vec4 0 0 0 1
   \<and> (formatRGBA ex = Some rgba \<longrightarrow> formatRG ex = Some rg \<longrightarrow> formatR ex = Some r \<longrightarrow>
        (\<exists>p'. initFramebuffers ex cfg w = Done (w\<lparr>pool := Some p'\<rparr>)
           \<and> (\<forall>f \<in> set (poolTargets p'). \<forall>st. texture2D f st = Vec4 0 0 0 1)))"
proof (intro conjI impI)
  show "texture2D (createFBO n m ifmt fmt ty filt) uv = Vec4 0 0 0 1"
    by (rule texture2D_createFBO)
next
  assume f: "formatRGBA ex = Some rgba" "formatRG ex = Some rg" "formatR ex = Some r"
  let ?sim = "getResolution (canvasWidth w) (canvasHeight w) (SIM_RESOLUTION cfg)"
  let ?dye = "getResolution (canvasWidth w) (canvasHeight w) (DYE_RESOLUTION cfg)"
  let ?filt = "if supportLinearFiltering ex then LINEAR else NEAREST"
  let ?p = "\<lparr>dye = createDoubleFBO (nat (fst ?dye)) (nat (snd ?dye))
                     (internalFormat rgba) (format rgba) (halfFloatTexType ex) ?filt,
             velocity = createDoubleFBO (nat (fst ?sim)) (nat (snd ?sim))
                     (internalFormat rg) (format rg) (halfFloatTexType ex) ?filt,
             divergence = createFBO (nat (fst ?sim)) (nat (snd ?sim))
                     (internalFormat r) (format r) (halfFloatTexType ex) NEAREST,
             curl = createFBO (nat (fst ?sim)) (nat (snd ?sim))
                     (internalFormat r) (format r) (halfFloatTexType ex) NEAREST,
             pressure = createDoubleFBO (nat (fst ?sim)) (nat (snd ?sim))
                     (internalFormat r) (format r) (halfFloatTexType ex) NEAREST\<rparr>"
  have a: "initFramebuffers ex cfg w = Done (w\<lparr>pool := Some ?p\<rparr>)"
    by (simp add: initFramebuffers_def Let_def f)
  have b: "\<forall>f \<in> set (poolTargets ?p). \<forall>st. texture2D f st = Vec4 0 0 0 1"
    by (simp add: poolTargets_def createDoubleFBO_def texture2D_createFBO)
  from a b show "\<exists>p'. initFramebuffers ex cfg w = Done (w\<lparr>pool := Some p'\<rparr>)
           \<and> (\<forall>f \<in> set (poolTargets p'). \<forall>st. texture2D f st = Vec4 0 0 0 1)"
    by blast
qed

theorem fresh_targets_read_clear_witness:
  "formatRGBA extWebGL1 = Some \<lparr>internalFormat = RGBA_internal, format = RGBA\<rparr>
   \<and> formatRG extWebGL1 = Some \<lparr>internalFormat = RGBA_internal, format = RGBA\<rparr>
   \<and> formatR extWebGL1 = Some \<lparr>internalFormat = RGBA_internal, format = RGBA\<rparr>
   \<and> (\<exists>p'. initFramebuffers extWebGL1 config (page800\<lparr>pool := Some pool2\<rparr>)
              = Done (page800\<lparr>pool := Some p'\<rparr>)
         \<and> texture2D (readBuf (dye p')) (1 / 2, 1 / 2) = Vec4 0 0 0 1
         \<and> texture2D (writeBuf (pressure p')) (0, 1) = Vec4 0 0 0 1)"
proof -
  have f: "formatRGBA extWebGL1 = Some \<lparr>internalFormat = RGBA_internal, format = RGBA\<rparr>"
    "formatRG extWebGL1 = Some \<lparr>internalFormat = RGBA_internal, format = RGBA\<rparr>"
    "formatR extWebGL1 = Some \<lparr>internalFormat = RGBA_internal, format = RGBA\<rparr>"
    by (simp_all add: extWebGL1_def)
  from fresh_targets_read_clear [of 1 1 RGBA16F RGBA HALF_FLOAT NEAREST "(0, 0)" extWebGL1
      "\<lparr>internalFormat = RGBA_internal, format = RGBA\<rparr>"
      "\<lparr>internalFormat = RGBA_internal, format = RGBA\<rparr>"
      "\<lparr>internalFormat = RGBA_internal, format = RGBA\<rparr>" config "page800\<lparr>pool := Some pool2\<rparr>"] f
  obtain p' where a: "initFramebuffers extWebGL1 config (page800\<lparr>pool := Some pool2\<rparr>)
              = Done (page800\<lparr>pool := Some p'\<rparr>)"
    and b: "\<forall>f \<in> set (poolTargets p'). \<forall>st. texture2D f st = Vec4 0 0 0 1"
    by auto
  have "readBuf (dye p') \<in> set (poolTargets p')" "writeBuf (pressure p') \<in> set (poolTargets p')"
    by (simp_all add: poolTargets_def)
  with b have "texture2D (readBuf (dye p')) (1 / 2, 1 / 2) = Vec4 0 0 0 1"
    "texture2D (writeBuf (pressure p')) (0, 1) = Vec4 0 0 0 1" by blast+
  with a f show ?thesis by blast
qed

subsection \<open>What the procedures leave alone\<close>

lemma gpuOnly_fields:
  assumes "gpuOnly w w'"
  shows "splatCalls w' = splatCalls w" "pointers0 w' = pointers0 w"
    "randoms w' = randoms w" "randomPos w' = randomPos w"
    "frameRequests w' = frameRequests w" "autoSplatTimer w' = autoSplatTimer w"
    "canvasWidth w' = canvasWidth w" "canvasHeight w' = canvasHeight w"
    "pool w' \<noteq> None"
  using assms by (auto simp: gpuOnly_def)

lemma gpuOnly_trans:
  assumes "gpuOnly w v" and "gpuOnly v u"
  shows "gpuOnly w u"
proof -
  from assms(1) obtain p D U S where
    v: "v = w\<lparr>pool := Some p, draws := D, uDyeTexelSize := U, screen := S\<rparr>"
    unfolding gpuOnly_def by blast
  from assms(2) obtain p' D' U' S' where
    u: "u = v\<lparr>pool := Some p', draws := D', uDyeTexelSize := U', screen := S'\<rparr>"
    unfolding gpuOnly_def by blast
  have "u = w\<lparr>pool := Some p', draws := D', uDyeTexelSize := U', screen := S'\<rparr>"
    by (simp add: u v)
  then show ?thesis unfolding gpuOnly_def by blast
qed

lemma gpuOnly_intro:
  "pool w = Some p \<Longrightarrow> gpuOnly w (w\<lparr>pool := Some p', draws := D\<rparr>)"
  "pool w = Some p \<Longrightarrow> gpuOnly w (w\<lparr>uDyeTexelSize := U\<rparr>)"
  "pool w = Some p \<Longrightarrow> gpuOnly w w"
proof -
  assume p: "pool w = Some p"
  have "w\<lparr>pool := Some p', draws := D\<rparr>
        = w\<lparr>pool := Some p', draws := D, uDyeTexelSize := uDyeTexelSize w, screen := screen w\<rparr>"
    by simp
  then show "gpuOnly w (w\<lparr>pool := Some p', draws := D\<rparr>)" unfolding gpuOnly_def by blast
  have "w\<lparr>uDyeTexelSize := U\<rparr>
        = w\<lparr>pool := Some p, draws := draws w, uDyeTexelSize := U, screen := screen w\<rparr>"
    using p by simp
  then show "gpuOnly w (w\<lparr>uDyeTexelSize := U\<rparr>)" unfolding gpuOnly_def by blast
  have "w = w\<lparr>pool := Some p, draws := draws w, uDyeTexelSize := uDyeTexelSize w,
               screen := screen w\<rparr>"
    using p by simp
  then show "gpuOnly w w" unfolding gpuOnly_def by blast
qed

lemma gpuStage_drawPass: "gpuStage (drawPass pr tg f)"
  unfolding gpuStage_def by (auto simp: drawPass_Some intro: gpuOnly_intro(1))

lemma gpuStage_seqAll:
  assumes "\<forall>f \<in> set fs. gpuStage f"
  shows "gpuStage (seqAll fs)"
  using assms
proof (induction fs)
  case Nil
  show ?case unfolding gpuStage_def by (auto intro: gpuOnly_intro(3))
next
  case (Cons f fs)
  then have f: "gpuStage f" and fs: "gpuStage (seqAll fs)" by simp_all
  show ?case
    unfolding gpuStage_def
  proof (intro allI impI)
    fix w :: world assume "pool w \<noteq> None"
    with f obtain v where v: "f w = Done v" "gpuOnly w v" unfolding gpuStage_def by blast
    then have "pool v \<noteq> None" by (simp add: gpuOnly_fields)
    with fs obtain u where u: "seqAll fs v = Done u" "gpuOnly v u"
      unfolding gpuStage_def by blast
    from v u show "\<exists>w'. seqAll (f # fs) w = Done w' \<and> gpuOnly w w'"
      by (auto intro: gpuOnly_trans)
  qed
qed

lemma gpuStage_pressureLoop: "gpuStage (pressureLoop n)"
  unfolding gpuStage_def by (auto simp: pressureLoop_Some intro: gpuOnly_intro(1))

lemma gpuStage_advectVelocity: "gpuStage (advectVelocity ex cfg dt)"
  unfolding gpuStage_def
proof (intro allI impI)
  fix w :: world assume "pool w \<noteq> None"
  then obtain p where p: "pool w = Some p" by blast
  let ?w1 = "if \<not> supportLinearFiltering ex then w\<lparr>uDyeTexelSize := velTexel p\<rparr> else w"
  have a: "gpuOnly w ?w1" using p by (auto intro: gpuOnly_intro)
  have p1: "pool ?w1 = Some p" using p by simp
  obtain f where "advectVelocity ex cfg dt w = drawPass AdvectionP VelocityT f ?w1"
    using p by (simp add: advectVelocity_def Let_def)
  moreover obtain v where "drawPass AdvectionP VelocityT f ?w1 = Done v" "gpuOnly ?w1 v"
    using gpuStage_drawPass [of AdvectionP VelocityT f] p1 unfolding gpuStage_def by blast
  ultimately show "\<exists>w'. advectVelocity ex cfg dt w = Done w' \<and> gpuOnly w w'"
    using a by (auto intro: gpuOnly_trans)
qed

lemma gpuStage_advectDye: "gpuStage (advectDye cfg dt)"
  unfolding gpuStage_def
proof (intro allI impI)
  fix w :: world assume "pool w \<noteq> None"
  then obtain p where p: "pool w = Some p" by blast
  let ?w1 = "w\<lparr>uDyeTexelSize := (texelSizeX (dye p), texelSizeY (dye p))\<rparr>"
  have a: "gpuOnly w ?w1" using p by (auto intro: gpuOnly_intro)
  have p1: "pool ?w1 = Some p" using p by simp
  obtain f where "advectDye cfg dt w = drawPass AdvectionP DyeT f ?w1"
    using p by (simp add: advectDye_def Let_def)
  moreover obtain v where "drawPass AdvectionP DyeT f ?w1 = Done v" "gpuOnly ?w1 v"
    using gpuStage_drawPass [of AdvectionP DyeT f] p1 unfolding gpuStage_def by blast
  ultimately show "\<exists>w'. advectDye cfg dt w = Done w' \<and> gpuOnly w w'"
    using a by (auto intro: gpuOnly_trans)
qed

lemma gpuStage_step: "gpuStage (step ex cfg dt)"
  unfolding step_def
  by (rule gpuStage_seqAll)
    (simp add: gpuStage_drawPass gpuStage_pressureLoop gpuStage_advectVelocity
       gpuStage_advectDye)

lemma step_gpuOnly:
  assumes "pool w = Some p"
  shows "\<exists>w'. step ex cfg dt w = Done w' \<and> gpuOnly w w'"
  using gpuStage_step [of ex cfg dt] assms unfolding gpuStage_def by auto

lemma render_gpuOnly:
  assumes "pool w = Some p"
  shows "\<exists>w'. render cfg w = Done w' \<and> gpuOnly w w'
            \<and> draws w' = draws w @ [(DisplayP, Screen)]"
proof -
  let ?S = "(\<lambda>i j. displayShader (texture2D (readBuf (dye p))) (BACK_COLOR cfg)
                              (baseVertexShader (0, 0)
                                 (fragCoord (nat (canvasWidth w)) (nat (canvasHeight w)) i j)))"
  have r: "render cfg w = Done (w\<lparr>screen := ?S, draws := draws w @ [(DisplayP, Screen)]\<rparr>)"
    using assms by (simp add: render_def)
  have "w\<lparr>screen := ?S, draws := draws w @ [(DisplayP, Screen)]\<rparr>
        = w\<lparr>pool := Some p, draws := draws w @ [(DisplayP, Screen)],
             uDyeTexelSize := uDyeTexelSize w, screen := ?S\<rparr>"
    using assms by simp
  then have "gpuOnly w (w\<lparr>screen := ?S, draws := draws w @ [(DisplayP, Screen)]\<rparr>)"
    unfolding gpuOnly_def by blast
  with r show ?thesis by auto
qed

lemma getRandomColor_inUnit:
  assumes "inUnit (randoms w)"
  shows "\<exists>c. getRandomColor w = (Some c, w\<lparr>randomPos := Suc (randomPos w)\<rparr>)
           \<and> c \<in> set paletteColors"
proof -
  let ?a = "randoms w (randomPos w)"
  from assms have a: "0 \<le> ?a" "?a < 1" by (simp_all add: inUnit_def)
  have len: "length PALETTE = 5" by (simp add: PALETTE_def)
  from a have k: "0 \<le> \<lfloor>?a * 5\<rfloor>" "\<lfloor>?a * 5\<rfloor> < 5" by (simp_all add: floor_less_iff)
  then have "nat \<lfloor>?a * 5\<rfloor> < 5" by linarith
  then have n: "nat \<lfloor>?a * 5\<rfloor> < length PALETTE" by (simp only: len)
  have "PALETTE ! nat \<lfloor>?a * 5\<rfloor> \<in> set PALETTE" using n by (rule nth_mem)
  then have "(\<lambda>c. (fst c * 0.25, fst (snd c) * 0.25, snd (snd c) * 0.25)) (PALETTE ! nat \<lfloor>?a * 5\<rfloor>)
          \<in> (\<lambda>c. (fst c * 0.25, fst (snd c) * 0.25, snd (snd c) * 0.25)) ` set PALETTE"
    by (rule imageI)
  then have "(\<lambda>c. (fst c * 0.25, fst (snd c) * 0.25, snd (snd c) * 0.25)) (PALETTE ! nat \<lfloor>?a * 5\<rfloor>)
          \<in> set paletteColors"
    by (simp only: paletteColors_def set_map)
  then show ?thesis
    using k by (simp add: getRandomColor_def mathRandom_def len Let_def)
qed

lemma paletteColors_bounds:
  assumes "c \<in> set paletteColors"
  shows "0 \<le> fst c \<and> fst c \<le> 0.25 \<and> 0 < fst (snd c) \<and> fst (snd c) \<le> 0.25
       \<and> 0 \<le> snd (snd c) \<and> snd (snd c) \<le> 0.25"
  using assms by (auto simp: paletteColors_def PALETTE_def)

subsection \<open>The frame tick\<close>

lemma initFramebuffers_fresh:
  assumes "formatRGBA ex = Some rgba" and "formatRG ex = Some rg" and "formatR ex = Some r"
  shows "\<exists>p'. initFramebuffers ex cfg w = Done (w\<lparr>pool := Some p'\<rparr>)
           \<and> (\<forall>f \<in> set (poolTargets p'). texels f = (\<lambda>i j. clearColor))
           \<and> sameSize (nat (fst (getResolution (canvasWidth w) (canvasHeight w)
                                   (DYE_RESOLUTION cfg))))
                       (nat (snd (getResolution (canvasWidth w) (canvasHeight w)
                                   (DYE_RESOLUTION cfg)))) (dye p')
           \<and> sameSize (nat (fst (getResolution (canvasWidth w) (canvasHeight w)
                                   (SIM_RESOLUTION cfg))))
                       (nat (snd (getResolution (canvasWidth w) (canvasHeight w)
                                   (SIM_RESOLUTION cfg)))) (velocity p')"
proof -
  let ?sim = "getResolution (canvasWidth w) (canvasHeight w) (SIM_RESOLUTION cfg)"
  let ?dye = "getResolution (canvasWidth w) (canvasHeight w) (DYE_RESOLUTION cfg)"
  let ?filt = "if supportLinearFiltering ex then LINEAR else NEAREST"
  let ?p = "\<lparr>dye = createDoubleFBO (nat (fst ?dye)) (nat (snd ?dye))
                     (internalFormat rgba) (format rgba) (halfFloatTexType ex) ?filt,
             velocity = createDoubleFBO (nat (fst ?sim)) (nat (snd ?sim))
                     (internalFormat rg) (format rg) (halfFloatTexType ex) ?filt,
             divergence = createFBO (nat (fst ?sim)) (nat (snd ?sim))
                     (internalFormat r) (format r) (halfFloatTexType ex) NEAREST,
             curl = createFBO (nat (fst ?sim)) (nat (snd ?sim))
                     (internalFormat r) (format r) (halfFloatTexType ex) NEAREST,
             pressure = createDoubleFBO (nat (fst ?sim)) (nat (snd ?sim))
                     (internalFormat r) (format r) (halfFloatTexType ex) NEAREST\<rparr>"
  have a: "initFramebuffers ex cfg w = Done (w\<lparr>pool := Some ?p\<rparr>)"
    by (simp add: initFramebuffers_def Let_def assms)
  have b: "\<forall>f \<in> set (poolTargets ?p). texels f = (\<lambda>i j. clearColor)"
    by (simp add: poolTargets_def createDoubleFBO_def createFBO_def)
  have c: "sameSize (nat (fst ?dye)) (nat (snd ?dye)) (dye ?p)"
    "sameSize (nat (fst ?sim)) (nat (snd ?sim)) (velocity ?p)"
    by (simp_all add: sameSize_def createDoubleFBO_def createFBO_def)
  from a b c show ?thesis by blast
qed

lemma fresh_pool:
  assumes "formatRGBA ex = Some rgba" and "formatRG ex = Some rg" and "formatR ex = Some r"
  shows "\<exists>p'. initFramebuffers ex cfg w = Done (w\<lparr>pool := Some p'\<rparr>)"
  using initFramebuffers_fresh [OF assms] by blast

lemma splat_frame:
  assumes "pool w = Some p"
  shows "\<exists>w'. splat cfg x y dx dy col w = Done w' \<and> pool w' \<noteq> None
           \<and> splatCalls w' = splatCalls w @ [(x, y, dx, dy, col)]
           \<and> pointers0 w' = pointers0 w \<and> randoms w' = randoms w"
  using splat_Some [OF assms, of cfg x y dx dy col] by simp

lemma pointerSplats_moved:
  assumes "moved (pointers0 w)" and "inUnit (randoms w)"
  shows "\<exists>v c. \<not> moved (pointers0 v) \<and> splatCalls v = splatCalls w \<and> pool v = pool w
           \<and> randoms v = randoms w \<and> color (pointers0 v) = c
           \<and> pointerSplats cfg dt w =
               splat cfg (texcoordX (pointers0 w)) (texcoordY (pointers0 w))
                 (deltaX (pointers0 w)) (deltaY (pointers0 w)) c v"
proof -
  let ?w1 = "w\<lparr>pointers0 := (pointers0 w)\<lparr>moved := False\<rparr>,
                colorTimer := colorTimer w + dt * COLOR_UPDATE_SPEED cfg\<rparr>"
  have "inUnit (randoms ?w1)" using assms(2) by simp
  from getRandomColor_inUnit [OF this] obtain c where
    c: "getRandomColor ?w1 = (Some c, ?w1\<lparr>randomPos := Suc (randomPos ?w1)\<rparr>)" by blast
  let ?v = "?w1\<lparr>randomPos := Suc (randomPos ?w1), pointers0 := (pointers0 ?w1)\<lparr>color := c\<rparr>\<rparr>"
  have "pointerSplats cfg dt w =
          splat cfg (texcoordX (pointers0 w)) (texcoordY (pointers0 w))
            (deltaX (pointers0 w)) (deltaY (pointers0 w)) c ?v"
    using assms(1) c by (simp add: pointerSplats_def Let_def)
  moreover have "\<not> moved (pointers0 ?v)" "splatCalls ?v = splatCalls w" "pool ?v = pool w"
    "randoms ?v = randoms w" "color (pointers0 ?v) = c"
    by simp_all
  ultimately show ?thesis by blast
qed

lemma autoSplat_frame:
  assumes "pool w = Some p" and "inUnit (randoms w)"
  shows "\<exists>w' amb. autoSplat cfg dt w = Done w' \<and> pool w' \<noteq> None \<and> length amb \<le> 1
           \<and> splatCalls w' = splatCalls w @ amb \<and> pointers0 w' = pointers0 w"
proof (cases "autoSplatTimer w + dt > 0.4")
  case False
  then have "autoSplat cfg dt w = Done (w\<lparr>autoSplatTimer := autoSplatTimer w + dt\<rparr>)"
    by (simp add: autoSplat_def Let_def)
  then have "autoSplat cfg dt w = Done (w\<lparr>autoSplatTimer := autoSplatTimer w + dt\<rparr>)
      \<and> pool (w\<lparr>autoSplatTimer := autoSplatTimer w + dt\<rparr>) \<noteq> None \<and> length ([] :: (real \<times> real \<times> real \<times> real \<times> vec3) list) \<le> 1
      \<and> splatCalls (w\<lparr>autoSplatTimer := autoSplatTimer w + dt\<rparr>) = splatCalls w @ []
      \<and> pointers0 (w\<lparr>autoSplatTimer := autoSplatTimer w + dt\<rparr>) = pointers0 w"
    using assms(1) by simp
  then show ?thesis by blast
next
  case True
  let ?w6 = "w\<lparr>autoSplatTimer := 0, randomPos := Suc (Suc (Suc (Suc (randomPos w))))\<rparr>"
  have "inUnit (randoms ?w6)" using assms(2) by simp
  from getRandomColor_inUnit [OF this] obtain c where
    c: "getRandomColor ?w6 = (Some c, ?w6\<lparr>randomPos := Suc (randomPos ?w6)\<rparr>)" by blast
  let ?w7 = "?w6\<lparr>randomPos := Suc (randomPos ?w6)\<rparr>"
  obtain x y dx dy where a: "autoSplat cfg dt w = splat cfg x y dx dy c ?w7"
    using True c by (simp add: autoSplat_def Let_def mathRandom_def)
  have "pool ?w7 = Some p" using assms(1) by simp
  from splat_frame [OF this, of cfg x y dx dy c] obtain u where
    "splat cfg x y dx dy c ?w7 = Done u" "pool u \<noteq> None"
    "splatCalls u = splatCalls ?w7 @ [(x, y, dx, dy, c)]" "pointers0 u = pointers0 ?w7"
    by blast
  with a have "autoSplat cfg dt w = Done u \<and> pool u \<noteq> None
      \<and> length [(x, y, dx, dy, c)] \<le> 1
      \<and> splatCalls u = splatCalls w @ [(x, y, dx, dy, c)] \<and> pointers0 u = pointers0 w"
    by simp
  then show ?thesis by blast
qed

lemma splat_None:
  assumes "pool w = None"
  shows "splat cfg x y dx dy col w =
     Raised TypeError (w\<lparr>splatCalls := splatCalls w @ [(x, y, dx, dy, col)]\<rparr>)"
  using assms by (simp add: splat_def drawPass_def)

text \<open>
  C9. A tick that starts with the render targets allocated finishes, and it calls
  \<open>splat\<close> for the pointer once when \<open>moved\<close> was set on entry, with the pointer's
  position and displacement and the colour just chosen, and not at all when \<open>moved\<close>
  was clear; at most one further call, the ambient one, follows. The flag is clear when
  the tick ends. It is cleared before the splat is issued: whatever the state of the
  render targets, consuming the input with \<open>moved\<close> set is the call of \<open>splat\<close> on a
  state in which the flag is already clear, and when that call throws (the targets
  missing), the state it leaves behind has the call on record and the flag clear. With
  \<open>moved\<close> clear, consuming the input changes nothing.
\<close>

theorem update_pointer_splat:
  assumes "inUnit (randoms w)"
  shows "(pool w \<noteq> None \<and> formatRGBA ex \<noteq> None \<and> formatRG ex \<noteq> None \<and> formatR ex \<noteq> None \<longrightarrow>
          (\<exists>w' amb. update ex cfg now w = Done w' \<and> \<not> moved (pointers0 w') \<and> length amb \<le> 1
             \<and> splatCalls w' = splatCalls w
                  @ (if moved (pointers0 w)
                     then [(texcoordX (pointers0 w), texcoordY (pointers0 w),
                            deltaX (pointers0 w), deltaY (pointers0 w), color (pointers0 w'))]
                     else [])
                  @ amb))
       \<and> (if moved (pointers0 w)
          then \<exists>v c. \<not> moved (pointers0 v) \<and> splatCalls v = splatCalls w \<and> pool v = pool w
                 \<and> pointerSplats cfg dt w =
                     splat cfg (texcoordX (pointers0 w)) (texcoordY (pointers0 w))
                       (deltaX (pointers0 w)) (deltaY (pointers0 w)) c v
          else pointerSplats cfg dt w = Done w)
       \<and> (moved (pointers0 w) \<and> pool w = None \<longrightarrow>
          (\<exists>v c. pointerSplats cfg dt w = Raised TypeError v \<and> \<not> moved (pointers0 v)
             \<and> splatCalls v = splatCalls w
                  @ [(texcoordX (pointers0 w), texcoordY (pointers0 w),
                      deltaX (pointers0 w), deltaY (pointers0 w), c)]))"
proof (intro conjI impI)
  show "if moved (pointers0 w)
          then \<exists>v c. \<not> moved (pointers0 v) \<and> splatCalls v = splatCalls w \<and> pool v = pool w
                 \<and> pointerSplats cfg dt w =
                     splat cfg (texcoordX (pointers0 w)) (texcoordY (pointers0 w))
                       (deltaX (pointers0 w)) (deltaY (pointers0 w)) c v
          else pointerSplats cfg dt w = Done w"
  proof (cases "moved (pointers0 w)")
    case True
    from pointerSplats_moved [OF True assms, of cfg dt] obtain v c where
      "\<not> moved (pointers0 v)" "splatCalls v = splatCalls w" "pool v = pool w"
      "pointerSplats cfg dt w =
               splat cfg (texcoordX (pointers0 w)) (texcoordY (pointers0 w))
                 (deltaX (pointers0 w)) (deltaY (pointers0 w)) c v"
      by blast
    then have "\<exists>v c. \<not> moved (pointers0 v) \<and> splatCalls v = splatCalls w \<and> pool v = pool w
                 \<and> pointerSplats cfg dt w =
                     splat cfg (texcoordX (pointers0 w)) (texcoordY (pointers0 w))
                       (deltaX (pointers0 w)) (deltaY (pointers0 w)) c v"
      by blast
    with True show ?thesis by simp
  next
    case False
    then show ?thesis by (simp add: pointerSplats_def)
  qed
next
  assume h: "moved (pointers0 w) \<and> pool w = None"
  from pointerSplats_moved [of w cfg dt] h assms obtain v c where
    v: "\<not> moved (pointers0 v)" "splatCalls v = splatCalls w" "pool v = pool w"
      "pointerSplats cfg dt w =
               splat cfg (texcoordX (pointers0 w)) (texcoordY (pointers0 w))
                 (deltaX (pointers0 w)) (deltaY (pointers0 w)) c v"
    by blast
  let ?c = "(texcoordX (pointers0 w), texcoordY (pointers0 w),
             deltaX (pointers0 w), deltaY (pointers0 w), c)"
  let ?v = "v\<lparr>splatCalls := splatCalls v @ [?c]\<rparr>"
  have "pool v = None" using v(3) h by simp
  then have "pointerSplats cfg dt w = Raised TypeError ?v"
    by (simp only: v(4) splat_None)
  moreover have "\<not> moved (pointers0 ?v)" "splatCalls ?v = splatCalls w @ [?c]"
    using v(1,2) by simp_all
  ultimately show "\<exists>v c. pointerSplats cfg dt w = Raised TypeError v \<and> \<not> moved (pointers0 v)
             \<and> splatCalls v = splatCalls w
                  @ [(texcoordX (pointers0 w), texcoordY (pointers0 w),
                      deltaX (pointers0 w), deltaY (pointers0 w), c)]"
    by blast
next
  assume hyp: "pool w \<noteq> None \<and> formatRGBA ex \<noteq> None \<and> formatRG ex \<noteq> None \<and> formatR ex \<noteq> None"
  then obtain p rgba rg r where pl: "pool w = Some p"
    and fm: "formatRGBA ex = Some rgba" "formatRG ex = Some rg" "formatR ex = Some r"
    by auto
  let ?dt = "min (real_of_int (now - lastTime w) / 1000) 0.016667"
  let ?w1 = "w\<lparr>lastTime := now\<rparr>"
  let ?w2 = "snd (resizeCanvas ?w1)"
  let ?P = "pointers0 w"
  have r2: "splatCalls ?w2 = splatCalls w" "pointers0 ?w2 = ?P" "randoms ?w2 = randoms w"
    "pool ?w2 = Some p"
    using pl by (simp_all add: resizeCanvas_def Let_def)
  \<comment> \<open>the rebuild, when the canvas was resized\<close>
  obtain w3 where s1: "(if fst (resizeCanvas ?w1) then initFramebuffers ex cfg ?w2 else Done ?w2)
                        = Done w3"
    and r3: "splatCalls w3 = splatCalls w" "pointers0 w3 = ?P" "randoms w3 = randoms w"
      "pool w3 \<noteq> None"
  proof (cases "fst (resizeCanvas ?w1)")
    case True
    from fresh_pool [OF fm, of cfg ?w2] obtain p' where
      "initFramebuffers ex cfg ?w2 = Done (?w2\<lparr>pool := Some p'\<rparr>)" by blast
    with True r2 that show ?thesis by simp
  next
    case False
    with r2 that show ?thesis by simp
  qed
  \<comment> \<open>the pointer splat\<close>
  obtain w4 where s2: "pointerSplats cfg ?dt w3 = Done w4"
    and r4: "splatCalls w4 = splatCalls w
               @ (if moved ?P
                  then [(texcoordX ?P, texcoordY ?P, deltaX ?P, deltaY ?P, color (pointers0 w4))]
                  else [])"
      "\<not> moved (pointers0 w4)" "randoms w4 = randoms w" "pool w4 \<noteq> None"
  proof (cases "moved ?P")
    case False
    then have "pointerSplats cfg ?dt w3 = Done w3" by (simp add: pointerSplats_def r3)
    with False r3 that show ?thesis by simp
  next
    case True
    then have m: "moved (pointers0 w3)" by (simp add: r3)
    have "inUnit (randoms w3)" using assms by (simp add: r3)
    from pointerSplats_moved [OF m this, of cfg ?dt] obtain v c where
      v: "\<not> moved (pointers0 v)" "splatCalls v = splatCalls w3" "pool v = pool w3"
        "randoms v = randoms w3" "color (pointers0 v) = c"
        "pointerSplats cfg ?dt w3 =
               splat cfg (texcoordX (pointers0 w3)) (texcoordY (pointers0 w3))
                 (deltaX (pointers0 w3)) (deltaY (pointers0 w3)) c v"
      by blast
    from v(3) r3(4) obtain q where "pool v = Some q" by auto
    from splat_frame [OF this, of cfg "texcoordX (pointers0 w3)" "texcoordY (pointers0 w3)"
        "deltaX (pointers0 w3)" "deltaY (pointers0 w3)" c]
    obtain u where "splat cfg (texcoordX (pointers0 w3)) (texcoordY (pointers0 w3))
                 (deltaX (pointers0 w3)) (deltaY (pointers0 w3)) c v = Done u"
      "pool u \<noteq> None"
      "splatCalls u = splatCalls v @ [(texcoordX (pointers0 w3), texcoordY (pointers0 w3),
          deltaX (pointers0 w3), deltaY (pointers0 w3), c)]"
      "pointers0 u = pointers0 v" "randoms u = randoms v"
      by blast
    with v True r3 that show ?thesis by simp
  qed
  \<comment> \<open>the ambient splat\<close>
  from r4(4) obtain q4 where "pool w4 = Some q4" by auto
  moreover have "inUnit (randoms w4)" using assms by (simp add: r4)
  ultimately obtain w5 amb where s3: "autoSplat cfg ?dt w4 = Done w5"
    and r5: "pool w5 \<noteq> None" "length amb \<le> 1" "splatCalls w5 = splatCalls w4 @ amb"
      "pointers0 w5 = pointers0 w4"
    using autoSplat_frame [of w4 q4 cfg ?dt] by blast
  \<comment> \<open>the simulation step and the display\<close>
  from r5(1) obtain q5 where "pool w5 = Some q5" by auto
  from step_gpuOnly [OF this, of ex cfg ?dt] obtain w6 where
    s4: "step ex cfg ?dt w5 = Done w6" and g6: "gpuOnly w5 w6" by blast
  from gpuOnly_fields(9) [OF g6] obtain q6 where "pool w6 = Some q6" by auto
  from render_gpuOnly [OF this, of cfg] obtain w7 where
    s5: "render cfg w6 = Done w7" and g7: "gpuOnly w6 w7" by blast
  let ?w8 = "w7\<lparr>frameRequests := Suc (frameRequests w7)\<rparr>"
  have run: "update ex cfg now w = Done ?w8"
    unfolding update_def Let_def split_beta
    by (simp only: seqAll.simps s1 s2 s3 s4 s5 outcome.case)
  have "splatCalls ?w8 = splatCalls w5" "pointers0 ?w8 = pointers0 w5"
    using gpuOnly_fields(1,2) [OF g6] gpuOnly_fields(1,2) [OF g7] by simp_all
  then have "\<not> moved (pointers0 ?w8)"
    "splatCalls ?w8 = splatCalls w
               @ (if moved ?P
                  then [(texcoordX ?P, texcoordY ?P, deltaX ?P, deltaY ?P, color (pointers0 ?w8))]
                  else [])
               @ amb"
    using r4 r5 by simp_all
  with run r5(2) show "\<exists>w' amb. update ex cfg now w = Done w' \<and> \<not> moved (pointers0 w')
          \<and> length amb \<le> 1
          \<and> splatCalls w' = splatCalls w
               @ (if moved (pointers0 w)
                  then [(texcoordX (pointers0 w), texcoordY (pointers0 w),
                         deltaX (pointers0 w), deltaY (pointers0 w), color (pointers0 w'))]
                  else [])
               @ amb"
    by blast
qed

theorem update_pointer_splat_witness:
  "inUnit (randoms worldMoved) \<and> pool worldMoved \<noteq> None
   \<and> formatRGBA extWebGL1 \<noteq> None \<and> formatRG extWebGL1 \<noteq> None \<and> formatR extWebGL1 \<noteq> None
   \<and> moved (pointers0 worldMoved)
   \<and> (\<exists>w' amb. update extWebGL1 config 16 worldMoved = Done w' \<and> \<not> moved (pointers0 w')
         \<and> length amb \<le> 1
         \<and> splatCalls w' = [(1 / 2, 1 / 2, 1 / 10, 0, color (pointers0 w'))] @ amb)
   \<and> pool world2 \<noteq> None \<and> inUnit (randoms world2) \<and> \<not> moved (pointers0 world2)
   \<and> (\<exists>w' amb. update extWebGL1 config 16 world2 = Done w' \<and> \<not> moved (pointers0 w')
         \<and> length amb \<le> 1 \<and> splatCalls w' = amb)
   \<and> pointerSplats config (1 / 60) world2 = Done world2
   \<and> inUnit (randoms pageMoved) \<and> moved (pointers0 pageMoved) \<and> pool pageMoved = None
   \<and> (\<exists>v c. pointerSplats config (1 / 60) pageMoved = Raised TypeError v
         \<and> \<not> moved (pointers0 v) \<and> splatCalls v = [(1 / 2, 1 / 2, 1 / 10, 0, c)])"
proof -
  have f: "formatRGBA extWebGL1 \<noteq> None" "formatRG extWebGL1 \<noteq> None" "formatR extWebGL1 \<noteq> None"
    by (simp_all add: extWebGL1_def)
  have m: "inUnit (randoms worldMoved)" "pool worldMoved \<noteq> None"
    "moved (pointers0 worldMoved)" "splatCalls worldMoved = []"
    "texcoordX (pointers0 worldMoved) = 1 / 2" "texcoordY (pointers0 worldMoved) = 1 / 2"
    "deltaX (pointers0 worldMoved) = 1 / 10" "deltaY (pointers0 worldMoved) = 0"
    by (simp_all add: worldMoved_def world2_def pageLoad_def inUnit_def newPointer_def)
  have s: "inUnit (randoms world2)" "pool world2 \<noteq> None"
    "\<not> moved (pointers0 world2)" "splatCalls world2 = []"
    by (simp_all add: world2_def pageLoad_def inUnit_def newPointer_def)
  have g: "inUnit (randoms pageMoved)" "pool pageMoved = None"
    "moved (pointers0 pageMoved)" "splatCalls pageMoved = []"
    "texcoordX (pointers0 pageMoved) = 1 / 2" "texcoordY (pointers0 pageMoved) = 1 / 2"
    "deltaX (pointers0 pageMoved) = 1 / 10" "deltaY (pointers0 pageMoved) = 0"
    by (simp_all add: pageMoved_def page800_def pageLoad_def inUnit_def newPointer_def)
  from update_pointer_splat [OF m(1), of extWebGL1 config 16 0]
  have A: "\<exists>w' amb. update extWebGL1 config 16 worldMoved = Done w' \<and> \<not> moved (pointers0 w')
         \<and> length amb \<le> 1
         \<and> splatCalls w' = [(1 / 2, 1 / 2, 1 / 10, 0, color (pointers0 w'))] @ amb"
    by (simp add: m f)
  from update_pointer_splat [OF s(1), of extWebGL1 config 16 "1 / 60"]
  have B: "(\<exists>w' amb. update extWebGL1 config 16 world2 = Done w' \<and> \<not> moved (pointers0 w')
         \<and> length amb \<le> 1 \<and> splatCalls w' = amb)
       \<and> pointerSplats config (1 / 60) world2 = Done world2"
    by (simp add: s f)
  from update_pointer_splat [OF g(1), of extWebGL1 config 16 "1 / 60"]
  have C: "\<exists>v c. pointerSplats config (1 / 60) pageMoved = Raised TypeError v
         \<and> \<not> moved (pointers0 v) \<and> splatCalls v = [(1 / 2, 1 / 2, 1 / 10, 0, c)]"
    by (simp add: g)
  from f m(1,2,3) s(1,2,3) g(1,2,3) A B C show ?thesis by blast
qed

subsection \<open>Startup\<close>

lemma vy_fetch_nonneg: "0 \<le> vy (texels f i j) \<Longrightarrow> 0 \<le> vy (fetch f i j)"
  by (simp add: fetch_def Let_def split: internalFormat.split)

lemma paletteColors_green:
  assumes "c \<in> set paletteColors"
  shows "1 / 10 \<le> fst (snd c)"
  using assms by (auto simp: paletteColors_def PALETTE_def)

text \<open>The texel under a position of the unit square, and the kernel's weight there.\<close>

lemma texel_under:
  assumes "0 \<le> x" and "x < 1" and "0 < n"
  shows "nat \<lfloor>x * real n\<rfloor> < n"
    and "\<bar>(real (nat \<lfloor>x * real n\<rfloor>) + 1 / 2) / real n - x\<bar> \<le> 1 / (2 * real n)"
proof -
  let ?i = "nat \<lfloor>x * real n\<rfloor>"
  have nn: "0 \<le> x * real n" using assms(1) by simp
  then have i: "real ?i = of_int \<lfloor>x * real n\<rfloor>" by simp
  have lo: "real ?i \<le> x * real n" by (simp only: i of_int_floor_le)
  have hi: "x * real n < real ?i + 1" by (simp only: i) linarith
  have "x * real n < real n" using assms(2,3) by simp
  with lo have "real ?i < real n" by linarith
  then show "?i < n" by simp
  have n: "0 < real n" using assms(3) by simp
  have "(real ?i + 1 / 2) / real n - x = (real ?i + 1 / 2 - x * real n) / real n"
    using n by (simp add: diff_divide_distrib)
  then have "\<bar>(real ?i + 1 / 2) / real n - x\<bar> = \<bar>real ?i + 1 / 2 - x * real n\<bar> / real n"
    using n by (simp only: abs_divide abs_of_pos)
  also have "\<dots> \<le> (1 / 2) / real n"
  proof (rule divide_right_mono)
    show "\<bar>real ?i + 1 / 2 - x * real n\<bar> \<le> 1 / 2" using lo hi by linarith
    show "0 \<le> real n" by simp
  qed
  finally show "\<bar>(real ?i + 1 / 2) / real n - x\<bar> \<le> 1 / (2 * real n)" by simp
qed

lemma square_le:
  fixes d c :: real
  assumes "\<bar>d\<bar> \<le> c"
  shows "d * d \<le> c * c"
proof -
  have "\<bar>d\<bar> * \<bar>d\<bar> \<le> c * c" using assms by (intro mult_mono) simp_all
  then show ?thesis by simp
qed

lemma kernel_floor:
  assumes "0 \<le> x" and "x < 1" and "0 \<le> y" and "y < 1" and "0 < a" and "0 < b"
    and "0 < canvasWidth w" and "0 < canvasHeight w" and "0 < SPLAT_RADIUS cfg"
  shows "splatFloor w cfg a b
         \<le> splatKernel w cfg x y a b (nat \<lfloor>x * real a\<rfloor>) (nat \<lfloor>y * real b\<rfloor>)"
proof -
  let ?A = "real_of_int (canvasWidth w) / real_of_int (canvasHeight w)"
  let ?r = "if ?A > 1 then SPLAT_RADIUS cfg / 100 * ?A else SPLAT_RADIUS cfg / 100"
  let ?dx = "(real (nat \<lfloor>x * real a\<rfloor>) + 1 / 2) / real a - x"
  let ?dy = "(real (nat \<lfloor>y * real b\<rfloor>) + 1 / 2) / real b - y"
  have A: "0 < ?A" using assms(7,8) by simp
  have r0: "0 < SPLAT_RADIUS cfg / 100" using assms(9) by simp
  then have rA: "0 < SPLAT_RADIUS cfg / 100 * ?A" using A by (rule mult_pos_pos)
  have r: "0 < ?r"
  proof (cases "?A > 1")
    case True
    with rA show ?thesis by (simp only: if_True)
  next
    case False
    with r0 show ?thesis by (simp only: if_False)
  qed
  have "\<bar>?dx * ?A\<bar> = \<bar>?dx\<bar> * ?A" by (simp only: abs_mult abs_of_pos [OF A])
  also have "\<dots> \<le> 1 / (2 * real a) * ?A"
    using texel_under(2) [OF assms(1,2,5)] A by (intro mult_right_mono) simp_all
  also have "\<dots> = ?A / (2 * real a)" by (simp only: times_divide_eq_left mult_1)
  finally have "\<bar>?dx * ?A\<bar> \<le> ?A / (2 * real a)" .
  then have px: "(?dx * ?A) * (?dx * ?A) \<le> (?A / (2 * real a)) * (?A / (2 * real a))"
    by (rule square_le)
  have py: "?dy * ?dy \<le> (1 / (2 * real b)) * (1 / (2 * real b))"
    using texel_under(2) [OF assms(3,4,6)] by (rule square_le)
  from px py have "(?dx * ?A) * (?dx * ?A) + ?dy * ?dy
      \<le> (?A / (2 * real a)) * (?A / (2 * real a)) + (1 / (2 * real b)) * (1 / (2 * real b))"
    by (rule add_mono)
  then have "((?dx * ?A) * (?dx * ?A) + ?dy * ?dy) / ?r
      \<le> ((?A / (2 * real a)) * (?A / (2 * real a)) + (1 / (2 * real b)) * (1 / (2 * real b))) / ?r"
    using r by (intro divide_right_mono) simp_all
  then have "- (((?A / (2 * real a)) * (?A / (2 * real a))
                + (1 / (2 * real b)) * (1 / (2 * real b))) / ?r)
      \<le> - (((?dx * ?A) * (?dx * ?A) + ?dy * ?dy) / ?r)"
    by (simp only: neg_le_iff_le)
  then have "- ((?A / (2 * real a)) * (?A / (2 * real a))
                + (1 / (2 * real b)) * (1 / (2 * real b))) / ?r
      \<le> - ((?dx * ?A) * (?dx * ?A) + ?dy * ?dy) / ?r"
    by (simp only: minus_divide_left)
  then show ?thesis
    unfolding splatFloor_def splatKernel_def Let_def by (simp only: exp_le_cancel_iff)
qed

lemma splatFloor_canvas:
  "canvasWidth v = canvasWidth w \<Longrightarrow> canvasHeight v = canvasHeight w \<Longrightarrow>
   splatFloor v cfg a b = splatFloor w cfg a b"
  by (simp add: splatFloor_def)

lemma splat_green:
  assumes "pool w = Some p" and "sameSize a b (dye p)" and "greenNonneg p"
    and "0 \<le> fst (snd col)"
  shows "\<exists>v q. splat cfg x y dx dy col w = Done v \<and> pool v = Some q
           \<and> sameSize a b (dye q) \<and> greenNonneg q
           \<and> (\<forall>i<a. \<forall>j<b. splatKernel w cfg x y a b i j * fst (snd col)
                              \<le> vy (texels (readBuf (dye q)) i j))
           \<and> v = w\<lparr>splatCalls := splatCalls w @ [(x, y, dx, dy, col)], pool := Some q,
                    draws := draws w @ [(SplatP, VelocityT), (SplatP, DyeT)]\<rparr>"
proof -
  let ?q = "splatDye cfg w x y col (splatVelocity cfg w x y dx dy p)"
  from assms(2) have d: "width (readBuf (dye p)) = a" "height (readBuf (dye p)) = b"
    "width (writeBuf (dye p)) = a" "height (writeBuf (dye p)) = b"
    by (simp_all add: sameSize_def)
  have dims: "sameSize a b (dye ?q)"
    by (simp add: sameSize_def splatDye_def splatVelocity_def blitSwap_def swap_def blit_def d)
  have g: "splatKernel w cfg x y a b i j * fst (snd col) \<le> vy (texels (readBuf (dye ?q)) i j)"
    if "i < a" "j < b" for i j
  proof -
    have old: "0 \<le> vy (fetch (readBuf (dye p)) i j)"
      using assms(3) that by (intro vy_fetch_nonneg) (simp add: greenNonneg_def d)
    have "texels (readBuf (dye ?q)) i j =
            (let k = splatKernel w cfg x y a b i j; old = fetch (readBuf (dye p)) i j
             in Vec4 (vx old + k * fst col) (vy old + k * fst (snd col))
                     (vz old + k * snd (snd col)) 1)"
      using splatShader_centre [OF d that, of w col x y cfg "(0, 0)"]
      by (simp add: splatDye_def splatVelocity_def blitSwap_def swap_def Let_def)
    with old show ?thesis by (simp add: Let_def)
  qed
  have k: "0 \<le> splatKernel w cfg x y a b i j * fst (snd col)" for i j
    using assms(4) by (simp add: splatKernel_def Let_def)
  have "greenNonneg ?q"
    unfolding greenNonneg_def
  proof (intro allI impI)
    fix i j
    assume "i < width (readBuf (dye ?q))" "j < height (readBuf (dye ?q))"
    then have "i < a" "j < b" using dims by (simp_all add: sameSize_def)
    from g [OF this] k [of i j] show "0 \<le> vy (texels (readBuf (dye ?q)) i j)" by linarith
  qed
  with splat_Some [OF assms(1), of cfg x y dx dy col] dims g show ?thesis by simp
qed

text \<open>
  The loop of initial splats: \<open>n\<close> calls within the bounds, and after the last of them
  the dye texel under its position holds at least the floor of the kernel times the
  least green of the palette.
\<close>

lemma initialSplats_run:
  assumes "pool w = Some p" and "sameSize a b (dye p)" and "inUnit (randoms w)"
    and "greenNonneg p"
  shows "\<exists>v q calls. initialSplats cfg n w = Done v \<and> pool v = Some q
           \<and> sameSize a b (dye q) \<and> greenNonneg q
           \<and> splatCalls v = splatCalls w @ calls \<and> length calls = n
           \<and> (\<forall>c \<in> set calls. initialCall c)
           \<and> draws v = draws w @ concat (replicate n [(SplatP, VelocityT), (SplatP, DyeT)])
           \<and> frameRequests v = frameRequests w
           \<and> canvasWidth v = canvasWidth w \<and> canvasHeight v = canvasHeight w
           \<and> (0 < n \<and> 0 < a \<and> 0 < b \<and> 0 < canvasWidth w \<and> 0 < canvasHeight w
                \<and> 0 < SPLAT_RADIUS cfg \<longrightarrow>
              (\<exists>i<a. \<exists>j<b. 1 / 10 * splatFloor w cfg a b \<le> vy (texels (readBuf (dye q)) i j)))"
  using assms
proof (induction n arbitrary: w p)
  case 0
  then show ?case by simp
next
  case (Suc n)
  from getRandomColor_inUnit [OF Suc.prems(3)] obtain c where
    c: "getRandomColor w = (Some c, w\<lparr>randomPos := Suc (randomPos w)\<rparr>)"
      "c \<in> set paletteColors" by blast
  let ?k = "randomPos w"
  let ?x = "randoms w (Suc ?k)" and ?y = "randoms w (Suc (Suc ?k))"
  let ?dx = "(randoms w (Suc (Suc (Suc ?k))) - 0.5) * 0.001"
  let ?dy = "(randoms w (Suc (Suc (Suc (Suc ?k)))) - 0.5) * 0.001"
  let ?w5 = "w\<lparr>randomPos := Suc (Suc (Suc (Suc (Suc ?k))))\<rparr>"
  have u: "0 \<le> randoms w k" "randoms w k < 1" for k
    using Suc.prems(3) by (simp_all add: inUnit_def)
  have ab: "\<bar>(a - 0.5) * 0.001\<bar> \<le> (0.0005::real)" if "0 \<le> a" "a < 1" for a :: real
  proof -
    have "\<bar>a - 1 / 2\<bar> \<le> 1 / 2" using that by linarith
    then show ?thesis by (simp add: abs_mult)
  qed
  have call: "initialCall (?x, ?y, ?dx, ?dy, c)"
    using u [of "Suc ?k"] u [of "Suc (Suc ?k)"] ab [OF u [of "Suc (Suc (Suc ?k))"]]
      ab [OF u [of "Suc (Suc (Suc (Suc ?k)))"]] c(2) paletteColors_bounds [OF c(2)]
    by (simp add: initialCall_def)
  have unfold: "initialSplats cfg (Suc n) w =
      (case splat cfg ?x ?y ?dx ?dy c ?w5 of
         Done w6 \<Rightarrow> initialSplats cfg n w6 | Raised e w6 \<Rightarrow> Raised e w6)"
    by (simp add: c(1) mathRandom_def Let_def)
  have p5: "pool ?w5 = Some p" using Suc.prems(1) by simp
  from paletteColors_green [OF c(2)] have gr: "1 / 10 \<le> fst (snd c)" .
  then have "0 \<le> fst (snd c)" by simp
  from splat_green [OF p5 Suc.prems(2,4) this, of cfg ?x ?y ?dx ?dy]
  obtain v q where v: "splat cfg ?x ?y ?dx ?dy c ?w5 = Done v" "pool v = Some q"
    "sameSize a b (dye q)" "greenNonneg q"
    "\<forall>i<a. \<forall>j<b. splatKernel ?w5 cfg ?x ?y a b i j * fst (snd c)
                              \<le> vy (texels (readBuf (dye q)) i j)"
    "v = ?w5\<lparr>splatCalls := splatCalls ?w5 @ [(?x, ?y, ?dx, ?dy, c)], pool := Some q,
                    draws := draws ?w5 @ [(SplatP, VelocityT), (SplatP, DyeT)]\<rparr>"
    by blast
  have iv: "inUnit (randoms v)" using Suc.prems(3) by (subst v(6)) simp
  from Suc.IH [OF v(2,3) iv v(4)] obtain v' q' calls where
    r: "initialSplats cfg n v = Done v'" "pool v' = Some q'" "sameSize a b (dye q')"
      "greenNonneg q'" "splatCalls v' = splatCalls v @ calls" "length calls = n"
      "\<forall>c \<in> set calls. initialCall c"
      "draws v' = draws v @ concat (replicate n [(SplatP, VelocityT), (SplatP, DyeT)])"
      "frameRequests v' = frameRequests v"
      "canvasWidth v' = canvasWidth v" "canvasHeight v' = canvasHeight v"
      "0 < n \<and> 0 < a \<and> 0 < b \<and> 0 < canvasWidth v \<and> 0 < canvasHeight v
                \<and> 0 < SPLAT_RADIUS cfg \<longrightarrow>
              (\<exists>i<a. \<exists>j<b. 1 / 10 * splatFloor v cfg a b \<le> vy (texels (readBuf (dye q')) i j))"
    by blast
  have sc: "splatCalls v = splatCalls w @ [(?x, ?y, ?dx, ?dy, c)]"
    "draws v = draws w @ [(SplatP, VelocityT), (SplatP, DyeT)]"
    "frameRequests v = frameRequests w"
    "canvasWidth v = canvasWidth w" "canvasHeight v = canvasHeight w"
    by (subst v(6), simp)+
  have fl: "\<exists>i<a. \<exists>j<b. 1 / 10 * splatFloor w cfg a b \<le> vy (texels (readBuf (dye q')) i j)"
    if h: "0 < a \<and> 0 < b \<and> 0 < canvasWidth w \<and> 0 < canvasHeight w \<and> 0 < SPLAT_RADIUS cfg"
  proof (cases "0 < n")
    case True
    with h r(12) have "\<exists>i<a. \<exists>j<b. 1 / 10 * splatFloor v cfg a b
                         \<le> vy (texels (readBuf (dye q')) i j)"
      by (simp add: sc)
    then show ?thesis by (simp only: splatFloor_canvas [OF sc(4,5)])
  next
    case False
    then have "n = 0" by simp
    with r(1,2) v(2) have q': "q' = q" by simp
    let ?i = "nat \<lfloor>?x * real a\<rfloor>" and ?j = "nat \<lfloor>?y * real b\<rfloor>"
    from h have pa: "0 < a" and pb: "0 < b" and cw: "0 < canvasWidth ?w5"
      and ch: "0 < canvasHeight ?w5" and sr: "0 < SPLAT_RADIUS cfg"
      by simp_all
    have i: "?i < a" by (rule texel_under(1) [OF u pa])
    have j: "?j < b" by (rule texel_under(1) [OF u pb])
    have "splatFloor ?w5 cfg a b \<le> splatKernel ?w5 cfg ?x ?y a b ?i ?j"
      by (rule kernel_floor [OF u u pa pb cw ch sr])
    moreover have "0 \<le> splatFloor ?w5 cfg a b" by (simp add: splatFloor_def Let_def)
    ultimately have "splatFloor ?w5 cfg a b * (1 / 10)
                     \<le> splatKernel ?w5 cfg ?x ?y a b ?i ?j * fst (snd c)"
      using gr by (intro mult_mono) simp_all
    moreover from v(5) i j
    have "splatKernel ?w5 cfg ?x ?y a b ?i ?j * fst (snd c)
            \<le> vy (texels (readBuf (dye q)) ?i ?j)"
      by blast
    moreover have "splatFloor ?w5 cfg a b = splatFloor w cfg a b"
      by (rule splatFloor_canvas) simp_all
    ultimately have "1 / 10 * splatFloor w cfg a b \<le> vy (texels (readBuf (dye q')) ?i ?j)"
      by (simp add: q')
    with i j show ?thesis by blast
  qed
  have "initialSplats cfg (Suc n) w = Done v'" by (simp only: unfold v(1) outcome.case r(1))
  moreover have "splatCalls v' = splatCalls w @ ((?x, ?y, ?dx, ?dy, c) # calls)"
    by (simp add: r(5) sc)
  moreover have "length ((?x, ?y, ?dx, ?dy, c) # calls) = Suc n" by (simp add: r(6))
  moreover have "\<forall>c' \<in> set ((?x, ?y, ?dx, ?dy, c) # calls). initialCall c'"
    using call r(7) by simp
  moreover have "draws v' = draws w
      @ concat (replicate (Suc n) [(SplatP, VelocityT), (SplatP, DyeT)])"
    by (simp add: r(8) sc)
  moreover have "frameRequests v' = frameRequests w" by (simp add: r(9) sc)
  moreover have "canvasWidth v' = canvasWidth w" "canvasHeight v' = canvasHeight w"
    by (simp_all add: r(10,11) sc)
  moreover have "0 < Suc n \<and> 0 < a \<and> 0 < b \<and> 0 < canvasWidth w \<and> 0 < canvasHeight w
                \<and> 0 < SPLAT_RADIUS cfg \<longrightarrow>
              (\<exists>i<a. \<exists>j<b. 1 / 10 * splatFloor w cfg a b \<le> vy (texels (readBuf (dye q')) i j))"
    using fl by blast
  ultimately show ?case using r(2,3,4) by blast
qed

lemma resizeCanvas_size:
  "canvasWidth (snd (resizeCanvas w))
     = \<lfloor>toDouble (real_of_int (clientWidth w)
          * min (if devicePixelRatio w = 0 then 1 else devicePixelRatio w) 2)\<rfloor>"
  "canvasHeight (snd (resizeCanvas w))
     = \<lfloor>toDouble (real_of_int (clientHeight w)
          * min (if devicePixelRatio w = 0 then 1 else devicePixelRatio w) 2)\<rfloor>"
  by (simp_all add: resizeCanvas_def Let_def)

lemma resizeCanvas_page800:
  "canvasWidth (snd (resizeCanvas page800)) = 800"
  "canvasHeight (snd (resizeCanvas page800)) = 600"
proof -
  have "toDouble 800 = 800" "toDouble 600 = 600"
    by (subst toDouble_frac [of 43], simp_all add: roundEven_def Let_def)+
  then show "canvasWidth (snd (resizeCanvas page800)) = 800"
    "canvasHeight (snd (resizeCanvas page800)) = 600"
    by (simp_all add: resizeCanvas_size page800_def pageLoad_def)
qed

lemma resizeCanvas_pos:
  assumes "0 < clientWidth w" and "0 < clientHeight w" and "1 \<le> devicePixelRatio w"
  shows "0 < canvasWidth (snd (resizeCanvas w)) \<and> 0 < canvasHeight (snd (resizeCanvas w))"
proof -
  let ?d = "min (if devicePixelRatio w = 0 then 1 else devicePixelRatio w) 2"
  have d: "1 \<le> ?d" using assms(3) by simp
  have "1 \<le> toDouble (real_of_int k * ?d)" if "0 < k" for k :: int
  proof -
    have "1 \<le> real_of_int k" using that by simp
    with d have "1 \<le> real_of_int k * ?d" by (metis mult_mono order_trans zero_le_one mult_1)
    then show ?thesis by (rule toDouble_ge_one)
  qed
  from this [OF assms(1)] this [OF assms(2)] show ?thesis
    by (simp only: resizeCanvas_size) linarith
qed

lemma resizeCanvas_rest:
  "pool (snd (resizeCanvas w)) = pool w" "randoms (snd (resizeCanvas w)) = randoms w"
  "splatCalls (snd (resizeCanvas w)) = splatCalls w" "draws (snd (resizeCanvas w)) = draws w"
  "frameRequests (snd (resizeCanvas w)) = frameRequests w"
  by (simp_all add: resizeCanvas_def Let_def)

text \<open>
  With the module's splat radius (0.3) on such a grid the kernel's floor is at least 0.9.
\<close>

lemma splatFloor_config:
  assumes "0 < canvasWidth v" and "0 < canvasHeight v" and "SPLAT_RADIUS cfg = 3 / 10"
    and "1023 * (real_of_int (canvasWidth v) / real_of_int (canvasHeight v)) \<le> real a"
    and "1023 \<le> real b"
  shows "9 / 10 \<le> splatFloor v cfg a b"
proof -
  let ?A = "real_of_int (canvasWidth v) / real_of_int (canvasHeight v)"
  let ?r = "if ?A > 1 then SPLAT_RADIUS cfg / 100 * ?A else SPLAT_RADIUS cfg / 100"
  let ?X = "?A / (2 * real a)" and ?Y = "1 / (2 * real b)"
  have A: "0 < ?A" using assms(1,2) by simp
  with assms(4) have a: "0 < real a" by linarith
  have b: "0 < real b" using assms(5) by linarith
  have "?A \<le> 1 / 2046 * (2 * real a)" using assms(4) by linarith
  then have X: "?X \<le> 1 / 2046" using a by (simp only: pos_divide_le_eq mult_pos_pos zero_less_numeral)
  have X0: "0 \<le> ?X" by (rule divide_nonneg_nonneg [OF less_imp_le [OF A]]) simp
  have "1 \<le> 1 / 2046 * (2 * real b)" using assms(5) by linarith
  then have Y: "?Y \<le> 1 / 2046" using b by (simp only: pos_divide_le_eq mult_pos_pos zero_less_numeral)
  have Y0: "0 \<le> ?Y" using b by simp
  have "?X * ?X \<le> 1 / 2046 * (1 / 2046)" using X X0 by (intro mult_mono) simp_all
  moreover have "?Y * ?Y \<le> 1 / 2046 * (1 / 2046)" using Y Y0 by (intro mult_mono) simp_all
  ultimately have S: "?X * ?X + ?Y * ?Y \<le> 1 / 2046 * (1 / 2046) + 1 / 2046 * (1 / 2046)"
    by (rule add_mono)
  have r: "3 / 1000 \<le> ?r"
  proof (cases "?A > 1")
    case True
    then have "3 / 1000 * 1 \<le> 3 / 1000 * ?A" by (intro mult_left_mono) simp_all
    with True show ?thesis by (simp add: assms(3))
  next
    case False
    then show ?thesis by (simp add: assms(3))
  qed
  have "(?X * ?X + ?Y * ?Y) / ?r
        \<le> (1 / 2046 * (1 / 2046) + 1 / 2046 * (1 / 2046)) / (3 / 1000)"
    by (rule frac_le [OF _ S _ r]) simp_all
  also have "\<dots> \<le> 1 / 10" by simp
  finally have "- (1 / 10) \<le> - ((?X * ?X + ?Y * ?Y) / ?r)" by (simp only: neg_le_iff_le)
  then have "- (1 / 10) \<le> - (?X * ?X + ?Y * ?Y) / ?r" by (simp only: minus_divide_left)
  then have "exp (- (1 / 10)) \<le> exp (- (?X * ?X + ?Y * ?Y) / ?r)"
    by (simp only: exp_le_cancel_iff)
  moreover have "1 + (- (1 / 10)) \<le> exp (- (1 / 10 :: real))" by (rule exp_ge_add_one_self)
  ultimately have "9 / 10 \<le> exp (- (?X * ?X + ?Y * ?Y) / ?r)" by linarith
  then show ?thesis unfolding splatFloor_def Let_def .
qed

text \<open>
  C10. On a device with the three formats, the module body before the first \<open>update\<close>
  finishes with the render targets allocated and exactly four calls of \<open>splat\<close>, each
  at a position in \<open>[0, 1]\<close> on both axes, with force components of magnitude at most
  0.0005 and a colour of the five-entry palette scaled by 0.25, every channel in
  \<open>[0, 0.25]\<close>. They make eight draws, none to the canvas, and no frame is requested
  yet. The canvas has the size \<open>resizeCanvas\<close> gave it and the dye grid the size
  \<open>getResolution\<close> computes from it. When that canvas has a positive width and height
  (and the dye resolution is at least 1, the splat radius positive), the dye grid has
  texels and the fields the first frame starts from are not all zero: the dye texel
  under the last splat holds in its second channel at least 0.1, the least green of the
  scaled palette, times the kernel's floor at that texel. With the dye resolution and
  the splat radius of the module's \<open>config\<close> that is at least 0.09, whatever the
  size of the canvas. (Far from a splat the kernel is too small for a half-float texel,
  so nothing is said of every texel.)
\<close>

theorem startup_initial_splats:
  assumes "formatRGBA ex = Some rgba" and "formatRG ex = Some rg" and "formatR ex = Some r"
    and "inUnit (randoms w)"
  shows "\<exists>v q calls. startup ex cfg t0 w = Done v \<and> pool v = Some q
     \<and> splatCalls v = splatCalls w @ calls \<and> length calls = 4
     \<and> (\<forall>c \<in> set calls. initialCall c)
     \<and> draws v = draws w
          @ [(SplatP, VelocityT), (SplatP, DyeT), (SplatP, VelocityT), (SplatP, DyeT),
             (SplatP, VelocityT), (SplatP, DyeT), (SplatP, VelocityT), (SplatP, DyeT)]
     \<and> frameRequests v = frameRequests w
     \<and> canvasWidth v = canvasWidth (snd (resizeCanvas w))
     \<and> canvasHeight v = canvasHeight (snd (resizeCanvas w))
     \<and> width (readBuf (dye q))
         = nat (fst (getResolution (canvasWidth v) (canvasHeight v) (DYE_RESOLUTION cfg)))
     \<and> height (readBuf (dye q))
         = nat (snd (getResolution (canvasWidth v) (canvasHeight v) (DYE_RESOLUTION cfg)))
     \<and> (0 < canvasWidth v \<and> 0 < canvasHeight v
          \<and> 1 \<le> DYE_RESOLUTION cfg \<and> 0 < SPLAT_RADIUS cfg
          \<longrightarrow> 0 < width (readBuf (dye q)) \<and> 0 < height (readBuf (dye q))
              \<and> (\<exists>i < width (readBuf (dye q)). \<exists>j < height (readBuf (dye q)).
                    1 / 10 * splatFloor v cfg (width (readBuf (dye q)))
                                              (height (readBuf (dye q)))
                      \<le> vy (texels (readBuf (dye q)) i j)))
     \<and> (0 < canvasWidth v \<and> 0 < canvasHeight v
          \<and> DYE_RESOLUTION cfg = DYE_RESOLUTION config
          \<and> SPLAT_RADIUS cfg = SPLAT_RADIUS config
          \<longrightarrow> (\<exists>i < width (readBuf (dye q)). \<exists>j < height (readBuf (dye q)).
                 9 / 100 \<le> vy (texels (readBuf (dye q)) i j)))
     \<and> (getWebGLContext gl = Some ex \<longrightarrow> main gl cfg t0 t1 w = update ex cfg t1 v)"
proof -
  let ?w1 = "snd (resizeCanvas w)"
  let ?res = "getResolution (canvasWidth ?w1) (canvasHeight ?w1) (DYE_RESOLUTION cfg)"
  let ?a = "nat (fst ?res)" and ?b = "nat (snd ?res)"
  from initFramebuffers_fresh [OF assms(1,2,3), of cfg ?w1] obtain p where
    i: "initFramebuffers ex cfg ?w1 = Done (?w1\<lparr>pool := Some p\<rparr>)"
    and cl: "\<forall>f \<in> set (poolTargets p). texels f = (\<lambda>i j. clearColor)"
    and sz: "sameSize ?a ?b (dye p)"
    by blast
  let ?w3 = "?w1\<lparr>pool := Some p, pointers0 := newPointer, pointerEventsNone := True,
                  listening := True, autoSplatTimer := 0, lastTime := t0, colorTimer := 0\<rparr>"
  have "readBuf (dye p) \<in> set (poolTargets p)" by (simp add: poolTargets_def)
  with cl have "texels (readBuf (dye p)) = (\<lambda>i j. clearColor)" by blast
  then have g0: "greenNonneg p" by (simp add: greenNonneg_def clearColor_def)
  have p3: "pool ?w3 = Some p" by simp
  have u3: "inUnit (randoms ?w3)" using assms(4) by (simp add: resizeCanvas_rest)
  from initialSplats_run [OF p3 sz u3 g0, of cfg 4] obtain v q calls where
    r: "initialSplats cfg 4 ?w3 = Done v" "pool v = Some q" "sameSize ?a ?b (dye q)"
      "splatCalls v = splatCalls ?w3 @ calls" "length calls = 4"
      "\<forall>c \<in> set calls. initialCall c"
      "draws v = draws ?w3 @ concat (replicate 4 [(SplatP, VelocityT), (SplatP, DyeT)])"
      "frameRequests v = frameRequests ?w3"
      "canvasWidth v = canvasWidth ?w3" "canvasHeight v = canvasHeight ?w3"
      "(0::nat) < 4 \<and> 0 < ?a \<and> 0 < ?b \<and> 0 < canvasWidth ?w3 \<and> 0 < canvasHeight ?w3
                \<and> 0 < SPLAT_RADIUS cfg \<longrightarrow>
              (\<exists>i < ?a. \<exists>j < ?b. 1 / 10 * splatFloor ?w3 cfg ?a ?b
                                 \<le> vy (texels (readBuf (dye q)) i j))"
    by blast
  have run: "startup ex cfg t0 w = Done v"
    by (simp add: startup_def i r(1))
  have cv: "canvasWidth v = canvasWidth ?w1" "canvasHeight v = canvasHeight ?w1"
    by (simp_all add: r(9,10))
  have wh: "width (readBuf (dye q)) = ?a" "height (readBuf (dye q)) = ?b"
    using r(3) by (simp_all add: sameSize_def)
  have fl: "splatFloor ?w3 cfg ?a ?b = splatFloor v cfg ?a ?b"
    by (rule splatFloor_canvas [symmetric]) (simp_all add: r(9,10))
  have dims: "0 < ?a \<and> 0 < ?b
              \<and> (\<exists>i < ?a. \<exists>j < ?b. 1 / 10 * splatFloor v cfg ?a ?b
                                 \<le> vy (texels (readBuf (dye q)) i j))"
    if h: "0 < canvasWidth v \<and> 0 < canvasHeight v
          \<and> 1 \<le> DYE_RESOLUTION cfg \<and> 0 < SPLAT_RADIUS cfg"
  proof -
    from h have c: "0 < canvasWidth ?w1" "0 < canvasHeight ?w1" by (simp_all add: cv)
    with h getResolution_pos [of "canvasWidth ?w1" "canvasHeight ?w1" "DYE_RESOLUTION cfg"]
    have ab: "0 < ?a" "0 < ?b" by simp_all
    have "0 < canvasWidth ?w3" "0 < canvasHeight ?w3" using c by simp_all
    with ab h r(11) have "\<exists>i < ?a. \<exists>j < ?b. 1 / 10 * splatFloor ?w3 cfg ?a ?b
                                 \<le> vy (texels (readBuf (dye q)) i j)"
      by simp
    with ab show ?thesis by (simp only: fl)
  qed
  have m: "main gl cfg t0 t1 w = update ex cfg t1 v" if "getWebGLContext gl = Some ex"
    by (simp add: main_def that run)
  have d: "draws v = draws w
          @ [(SplatP, VelocityT), (SplatP, DyeT), (SplatP, VelocityT), (SplatP, DyeT),
             (SplatP, VelocityT), (SplatP, DyeT), (SplatP, VelocityT), (SplatP, DyeT)]"
    by (simp add: r(7) resizeCanvas_rest numeral_eq_Suc)
  have sf: "splatCalls v = splatCalls w @ calls" "frameRequests v = frameRequests w"
    by (simp_all add: r(4,8) resizeCanvas_rest)
  have wh': "width (readBuf (dye q))
         = nat (fst (getResolution (canvasWidth v) (canvasHeight v) (DYE_RESOLUTION cfg)))"
    "height (readBuf (dye q))
         = nat (snd (getResolution (canvasWidth v) (canvasHeight v) (DYE_RESOLUTION cfg)))"
    by (simp_all only: wh cv)
  have last: "0 < canvasWidth v \<and> 0 < canvasHeight v
          \<and> 1 \<le> DYE_RESOLUTION cfg \<and> 0 < SPLAT_RADIUS cfg
          \<longrightarrow> 0 < width (readBuf (dye q)) \<and> 0 < height (readBuf (dye q))
              \<and> (\<exists>i < width (readBuf (dye q)). \<exists>j < height (readBuf (dye q)).
                    1 / 10 * splatFloor v cfg (width (readBuf (dye q)))
                                              (height (readBuf (dye q)))
                      \<le> vy (texels (readBuf (dye q)) i j))"
    using dims by (simp only: wh) blast
  have mm: "getWebGLContext gl = Some ex \<longrightarrow> main gl cfg t0 t1 w = update ex cfg t1 v"
    using m by blast
  have num: "\<exists>i < ?a. \<exists>j < ?b. 9 / 100 \<le> vy (texels (readBuf (dye q)) i j)"
    if h: "0 < canvasWidth v \<and> 0 < canvasHeight v
          \<and> DYE_RESOLUTION cfg = DYE_RESOLUTION config
          \<and> SPLAT_RADIUS cfg = SPLAT_RADIUS config"
  proof -
    from h have c: "0 < canvasWidth ?w1" "0 < canvasHeight ?w1"
      and cw: "0 < canvasWidth v" "0 < canvasHeight v"
      and dr: "DYE_RESOLUTION cfg = 1024" and sr: "SPLAT_RADIUS cfg = 3 / 10"
      by (simp_all add: cv config_def)
    from dims [of] cw dr sr obtain i j where ij: "i < ?a" "j < ?b"
      "1 / 10 * splatFloor v cfg ?a ?b \<le> vy (texels (readBuf (dye q)) i j)"
      by auto
    from dyeGrid_bounds [OF c] have g: "1023 * (real_of_int (canvasWidth ?w1)
              / real_of_int (canvasHeight ?w1)) \<le> real_of_int (fst ?res)"
      "1023 \<le> real_of_int (snd ?res)"
      by (simp_all only: dr)
    from c have "0 < real_of_int (canvasWidth ?w1) / real_of_int (canvasHeight ?w1)" by simp
    with g have "0 < real_of_int (fst ?res)" "0 < real_of_int (snd ?res)" by linarith+
    then have "real ?a = real_of_int (fst ?res)" "real ?b = real_of_int (snd ?res)" by simp_all
    with g have "1023 * (real_of_int (canvasWidth v) / real_of_int (canvasHeight v)) \<le> real ?a"
      "1023 \<le> real ?b"
      by (simp_all only: cv)
    from splatFloor_config [OF cw sr this] ij(3)
    have "9 / 100 \<le> vy (texels (readBuf (dye q)) i j)" by linarith
    with ij(1,2) show ?thesis by blast
  qed
  have num': "0 < canvasWidth v \<and> 0 < canvasHeight v
          \<and> DYE_RESOLUTION cfg = DYE_RESOLUTION config
          \<and> SPLAT_RADIUS cfg = SPLAT_RADIUS config
          \<longrightarrow> (\<exists>i < width (readBuf (dye q)). \<exists>j < height (readBuf (dye q)).
                 9 / 100 \<le> vy (texels (readBuf (dye q)) i j))"
  proof (intro impI)
    assume "0 < canvasWidth v \<and> 0 < canvasHeight v
          \<and> DYE_RESOLUTION cfg = DYE_RESOLUTION config
          \<and> SPLAT_RADIUS cfg = SPLAT_RADIUS config"
    from num [OF this]
    show "\<exists>i < width (readBuf (dye q)). \<exists>j < height (readBuf (dye q)).
                 9 / 100 \<le> vy (texels (readBuf (dye q)) i j)"
      by (simp only: wh)
  qed
  from run r(2) sf(1) r(5,6) d sf(2) cv wh' last num' mm show ?thesis
    by blast
qed

lemma getWebGLContext_gpuWebGL1: "getWebGLContext gpuWebGL1 = Some extWebGL1"
proof -
  have flags: "\<not> hasWebGL2 gpuWebGL1" "hasWebGL1 gpuWebGL1" "extHalfFloat gpuWebGL1"
    "\<not> extHalfFloatLinear gpuWebGL1"
    by (simp_all add: gpuWebGL1_def)
  have "supportRenderTextureFormat gpuWebGL1 RGBA_internal RGBA HALF_FLOAT_OES"
    by (simp add: supportRenderTextureFormat_def gpuWebGL1_def)
  then have k: "getSupportedFormat gpuWebGL1 RGBA_internal RGBA HALF_FLOAT_OES
             = Some \<lparr>internalFormat = RGBA_internal, format = RGBA\<rparr>"
    by (rule getSupportedFormat_supported)
  show ?thesis
    by (simp add: getWebGLContext_def extWebGL1_def Let_def k flags)
qed

theorem startup_initial_splats_witness:
  "formatRGBA extWebGL1 = Some \<lparr>internalFormat = RGBA_internal, format = RGBA\<rparr>
   \<and> formatRG extWebGL1 = Some \<lparr>internalFormat = RGBA_internal, format = RGBA\<rparr>
   \<and> formatR extWebGL1 = Some \<lparr>internalFormat = RGBA_internal, format = RGBA\<rparr>
   \<and> inUnit (randoms page800)
   \<and> 1 \<le> DYE_RESOLUTION config \<and> 0 < SPLAT_RADIUS config
   \<and> getWebGLContext gpuWebGL1 = Some extWebGL1
   \<and> (\<exists>v q calls. startup extWebGL1 config 0 page800 = Done v \<and> pool v = Some q
         \<and> splatCalls v = calls \<and> length calls = 4 \<and> (\<forall>c \<in> set calls. initialCall c)
         \<and> length (draws v) = 8 \<and> frameRequests v = 0
         \<and> canvasWidth v = 800 \<and> canvasHeight v = 600
         \<and> width (readBuf (dye q)) = 1365 \<and> height (readBuf (dye q)) = 1024
         \<and> (\<exists>i<1365. \<exists>j<1024. 9 / 100 \<le> vy (texels (readBuf (dye q)) i j))
         \<and> main gpuWebGL1 config 0 16 page800 = update extWebGL1 config 16 v)"
proof -
  have f: "formatRGBA extWebGL1 = Some \<lparr>internalFormat = RGBA_internal, format = RGBA\<rparr>"
    "formatRG extWebGL1 = Some \<lparr>internalFormat = RGBA_internal, format = RGBA\<rparr>"
    "formatR extWebGL1 = Some \<lparr>internalFormat = RGBA_internal, format = RGBA\<rparr>"
    by (simp_all add: extWebGL1_def)
  have h: "inUnit (randoms page800)" "splatCalls page800 = []" "draws page800 = []"
    "frameRequests page800 = 0"
    by (simp_all add: page800_def pageLoad_def inUnit_def)
  note cs = resizeCanvas_page800
  have c: "1 \<le> DYE_RESOLUTION config" "0 < SPLAT_RADIUS config"
    "DYE_RESOLUTION config = 1024" "SPLAT_RADIUS config = 3 / 10"
    by (simp_all add: config_def)
  note g = getWebGLContext_gpuWebGL1
  have a0: "toDouble (4 / 3) = 6004799503160661 / 4503599627370496"
    by (subst toDouble_frac [of 52]) (simp_all add: roundEven_def Let_def)
  have a1: "toDouble (6004799503160661 / 4398046511104) = 6004799503160661 / 4398046511104"
    by (subst toDouble_frac [of 42]) (simp_all add: roundEven_def Let_def)
  have res: "getResolution 800 600 1024 = (1365, 1024)"
    by (simp add: getResolution_def Let_def jsRound_def a0 a1)
  from startup_initial_splats [OF f h(1), of config 0 gpuWebGL1 16]
  obtain v q calls where r: "startup extWebGL1 config 0 page800 = Done v" "pool v = Some q"
    "splatCalls v = splatCalls page800 @ calls" "length calls = 4"
    "\<forall>c \<in> set calls. initialCall c"
    "draws v = draws page800
          @ [(SplatP, VelocityT), (SplatP, DyeT), (SplatP, VelocityT), (SplatP, DyeT),
             (SplatP, VelocityT), (SplatP, DyeT), (SplatP, VelocityT), (SplatP, DyeT)]"
    "frameRequests v = frameRequests page800"
    "canvasWidth v = canvasWidth (snd (resizeCanvas page800))"
    "canvasHeight v = canvasHeight (snd (resizeCanvas page800))"
    "width (readBuf (dye q))
       = nat (fst (getResolution (canvasWidth v) (canvasHeight v) (DYE_RESOLUTION config)))"
    "height (readBuf (dye q))
       = nat (snd (getResolution (canvasWidth v) (canvasHeight v) (DYE_RESOLUTION config)))"
    "0 < canvasWidth v \<and> 0 < canvasHeight v
          \<and> 1 \<le> DYE_RESOLUTION config \<and> 0 < SPLAT_RADIUS config
          \<longrightarrow> 0 < width (readBuf (dye q)) \<and> 0 < height (readBuf (dye q))
              \<and> (\<exists>i < width (readBuf (dye q)). \<exists>j < height (readBuf (dye q)).
                    1 / 10 * splatFloor v config (width (readBuf (dye q)))
                                              (height (readBuf (dye q)))
                      \<le> vy (texels (readBuf (dye q)) i j))"
    "0 < canvasWidth v \<and> 0 < canvasHeight v
          \<and> DYE_RESOLUTION config = DYE_RESOLUTION config
          \<and> SPLAT_RADIUS config = SPLAT_RADIUS config
          \<longrightarrow> (\<exists>i < width (readBuf (dye q)). \<exists>j < height (readBuf (dye q)).
                 9 / 100 \<le> vy (texels (readBuf (dye q)) i j))"
    "getWebGLContext gpuWebGL1 = Some extWebGL1
       \<longrightarrow> main gpuWebGL1 config 0 16 page800 = update extWebGL1 config 16 v"
    by blast
  have cv: "canvasWidth v = 800" "canvasHeight v = 600" by (simp_all only: r(8,9) cs)
  have wh: "width (readBuf (dye q)) = 1365" "height (readBuf (dye q)) = 1024"
    by (simp_all add: r(10,11) cv c(3) res)
  have "0 < canvasWidth v \<and> 0 < canvasHeight v
          \<and> DYE_RESOLUTION config = DYE_RESOLUTION config
          \<and> SPLAT_RADIUS config = SPLAT_RADIUS config"
    by (simp add: cv)
  with r(13) have "\<exists>i < width (readBuf (dye q)). \<exists>j < height (readBuf (dye q)).
                 9 / 100 \<le> vy (texels (readBuf (dye q)) i j)"
    by blast
  then have tx: "\<exists>i<1365. \<exists>j<1024. 9 / 100 \<le> vy (texels (readBuf (dye q)) i j)"
    by (simp only: wh)
  have sc: "splatCalls v = calls" "length (draws v) = 8" "frameRequests v = 0"
    by (simp_all add: r(3,6,7) h(2,3,4))
  have mn: "main gpuWebGL1 config 0 16 page800 = update extWebGL1 config 16 v"
    using r(14) g by blast
  from r(1,2) sc(1) r(4,5) sc(2,3) cv wh tx mn
  have "\<exists>v q calls. startup extWebGL1 config 0 page800 = Done v \<and> pool v = Some q
         \<and> splatCalls v = calls \<and> length calls = 4 \<and> (\<forall>c \<in> set calls. initialCall c)
         \<and> length (draws v) = 8 \<and> frameRequests v = 0
         \<and> canvasWidth v = 800 \<and> canvasHeight v = 600
         \<and> width (readBuf (dye q)) = 1365 \<and> height (readBuf (dye q)) = 1024
         \<and> (\<exists>i<1365. \<exists>j<1024. 9 / 100 \<le> vy (texels (readBuf (dye q)) i j))
         \<and> main gpuWebGL1 config 0 16 page800 = update extWebGL1 config 16 v"
    by blast
  with f h(1) c(1,2) g show ?thesis by blast
qed

subsection \<open>A device without float render targets\<close>

text \<open>With no context at all the module returns before touching anything.\<close>

lemma no_context_declines:
  "\<not> hasWebGL2 gl \<Longrightarrow> \<not> hasWebGL1 gl \<Longrightarrow> main gl cfg t0 t1 w = Done w"
  by (simp add: main_def getWebGLContext_def)

text \<open>With a context but no 4-channel format the module body throws in its first splat.\<close>

lemma no_format_startup:
  assumes "formatRGBA ex = None" and "inUnit (randoms w)" and "pool w = None"
  shows "\<exists>v. startup ex cfg t0 w = Raised TypeError v \<and> pool v = None
           \<and> draws v = draws w \<and> frameRequests v = frameRequests w
           \<and> screen v = screen w
           \<and> canvasWidth v = canvasWidth (snd (resizeCanvas w))
           \<and> canvasHeight v = canvasHeight (snd (resizeCanvas w))
           \<and> pointerEventsNone v \<and> listening v \<and> length (splatCalls v) = Suc (length (splatCalls w))"
proof -
  let ?w1 = "snd (resizeCanvas w)"
  have i: "initFramebuffers ex cfg ?w1 = Done ?w1"
    by (simp add: initFramebuffers_def Let_def assms(1))
  let ?w3 = "?w1\<lparr>pointers0 := newPointer, pointerEventsNone := True,
                  listening := True, autoSplatTimer := 0, lastTime := t0, colorTimer := 0\<rparr>"
  have "inUnit (randoms ?w3)" using assms(2) by (simp add: resizeCanvas_rest)
  from getRandomColor_inUnit [OF this] obtain c where
    c: "getRandomColor ?w3 = (Some c, ?w3\<lparr>randomPos := Suc (randomPos ?w3)\<rparr>)" by blast
  have p: "pool ?w3 = None" using assms(3) by (simp add: resizeCanvas_rest)
  have s: "splat cfg x y dx dy col u
           = Raised TypeError (u\<lparr>splatCalls := splatCalls u @ [(x, y, dx, dy, col)]\<rparr>)"
    if "pool u = None" for x y dx dy col u
    using that by (simp add: splat_def drawPass_def)
  obtain v where v: "initialSplats cfg 4 ?w3 = Raised TypeError v" "pool v = None"
    "draws v = draws ?w3" "frameRequests v = frameRequests ?w3" "screen v = screen ?w3"
    "canvasWidth v = canvasWidth ?w3" "canvasHeight v = canvasHeight ?w3"
    "pointerEventsNone v" "listening v"
    "length (splatCalls v) = Suc (length (splatCalls ?w3))"
    using p by (simp add: numeral_eq_Suc c mathRandom_def Let_def s)
  have "startup ex cfg t0 w = Raised TypeError v"
    by (simp add: startup_def i v(1))
  moreover have "screen ?w1 = screen w" by (simp add: resizeCanvas_def Let_def)
  ultimately show ?thesis using v by (simp add: resizeCanvas_rest)
qed

text \<open>
  C1, on a device where no probe succeeds: \<open>getWebGLContext\<close> still returns a context,
  with every format record empty. \<open>initFramebuffers\<close> returns without allocating, but
  the module body goes on and ends with a TypeError thrown by the first initial splat.
  By then the canvas has been resized from 300 by 150 to 800 by 600, its pointer events
  are switched off and the listeners are installed; nothing has been drawn and no frame
  is requested.
\<close>

theorem unsupported_device_throws:
  "getWebGLContext gpuNoFloat \<noteq> None
   \<and> (\<exists>v. main gpuNoFloat config 0 16 page800 = Raised TypeError v
          \<and> pool v = None \<and> draws v = [] \<and> frameRequests v = 0
          \<and> canvasWidth page800 = 300 \<and> canvasWidth v = 800
          \<and> canvasHeight page800 = 150 \<and> canvasHeight v = 600
          \<and> pointerEventsNone v \<and> listening v \<and> length (splatCalls v) = 1)"
proof -
  have n: "getSupportedFormat gpuNoFloat ifmt fmt ty = None" for ifmt fmt ty
  proof -
    have u: "\<not> supportRenderTextureFormat gpuNoFloat i f t" for i f t
      by (simp add: supportRenderTextureFormat_def gpuNoFloat_def)
    have a: "getSupportedFormat gpuNoFloat RGBA16F f ty = None" for f
      by (simp add: getSupportedFormat_unsupported [OF u])
    have b: "getSupportedFormat gpuNoFloat RG16F f ty = None" for f
      by (simp add: getSupportedFormat_unsupported [OF u] a)
    show ?thesis
      by (cases ifmt) (simp_all add: getSupportedFormat_unsupported [OF u] a b)
  qed
  have gl2: "hasWebGL2 gpuNoFloat" by (simp add: gpuNoFloat_def)
  obtain ex where ex: "getWebGLContext gpuNoFloat = Some ex" "formatRGBA ex = None"
    by (simp add: getWebGLContext_def Let_def n gl2)
  have h: "inUnit (randoms page800)" "pool page800 = None" "draws page800 = []"
    "frameRequests page800 = 0" "splatCalls page800 = []"
    "canvasWidth page800 = 300" "canvasHeight page800 = 150"
    by (simp_all add: page800_def pageLoad_def inUnit_def)
  note sz = resizeCanvas_page800
  from no_format_startup [OF ex(2) h(1,2), of config 0] obtain v where
    v: "startup ex config 0 page800 = Raised TypeError v" "pool v = None"
      "draws v = []" "frameRequests v = 0" "canvasWidth v = 800" "canvasHeight v = 600"
      "pointerEventsNone v" "listening v" "length (splatCalls v) = 1"
    by (auto simp: h sz)
  have "main gpuNoFloat config 0 16 page800 = Raised TypeError v"
    by (simp add: main_def ex(1) v(1))
  with v ex(1) h(6,7) show ?thesis by auto
qed

subsection \<open>Advection uniforms\<close>

lemma passes_keep_texelSizes:
  "texelSizes (curlPass p) = texelSizes p"
  "texelSizes (vorticityPass cfg dt p) = texelSizes p"
  "texelSizes (divergencePass p) = texelSizes p"
  "texelSizes (clearPass cfg p) = texelSizes p"
  "texelSizes (pressurePass p) = texelSizes p"
  "texelSizes (gradientSubtractPass p) = texelSizes p"
  by (simp_all add: texelSizes_def velTexel_def curlPass_def vorticityPass_def
        divergencePass_def clearPass_def pressurePass_def gradientSubtractPass_def
        blitSwap_def swap_def)

lemma pressurePass_iter_texelSizes: "texelSizes ((pressurePass ^^ k) p) = texelSizes p"
  by (induction k) (simp_all add: passes_keep_texelSizes)

lemma step_tail_uniform:
  assumes "pool w = Some q"
  shows "\<exists>u p'. seqAll [drawPass GradientSubtractP VelocityT gradientSubtractPass,
                        advectVelocity ex cfg dt, advectDye cfg dt] w = Done u
           \<and> pool u = Some p' \<and> texelSizes p' = texelSizes q
           \<and> uDyeTexelSize u = fst (texelSizes q)"
  using assms
  by (simp add: drawPass_Some advectVelocity_def advectDye_def gradientSubtractPass_def Let_def
        texelSizes_def velTexel_def blitSwap_def swap_def)

lemma step_uniform:
  assumes "pool w = Some p"
  shows "\<exists>u p'. step ex cfg dt w = Done u \<and> pool u = Some p'
           \<and> texelSizes p' = texelSizes p \<and> uDyeTexelSize u = fst (texelSizes p)"
proof -
  let ?k = "PRESSURE_ITERATIONS cfg"
  let ?p5 = "(pressurePass ^^ ?k)
               (clearPass cfg (divergencePass (vorticityPass cfg dt (curlPass p))))"
  let ?w5 = "w\<lparr>pool := Some ?p5,
               draws := draws w @ [(CurlP, CurlT), (VorticityP, VelocityT),
                 (DivergenceP, DivergenceT), (ClearP, PressureT)]
                 @ replicate ?k (PressureP, PressureT)\<rparr>"
  have t5: "texelSizes ?p5 = texelSizes p"
    by (simp add: pressurePass_iter_texelSizes passes_keep_texelSizes)
  have "pool ?w5 = Some ?p5" by simp
  from step_tail_uniform [OF this, of ex cfg dt] obtain u p' where
    t: "seqAll [drawPass GradientSubtractP VelocityT gradientSubtractPass,
                advectVelocity ex cfg dt, advectDye cfg dt] ?w5 = Done u"
    and q: "pool u = Some p'" "texelSizes p' = texelSizes ?p5"
      "uDyeTexelSize u = fst (texelSizes ?p5)"
    by blast
  have split: "step ex cfg dt w =
      (case seqAll [drawPass CurlP CurlT curlPass,
             drawPass VorticityP VelocityT (vorticityPass cfg dt),
             drawPass DivergenceP DivergenceT divergencePass,
             drawPass ClearP PressureT (clearPass cfg),
             pressureLoop ?k] w of
         Done v \<Rightarrow> seqAll [drawPass GradientSubtractP VelocityT gradientSubtractPass,
                advectVelocity ex cfg dt, advectDye cfg dt] v
       | Raised e v \<Rightarrow> Raised e v)"
    unfolding step_def
    using seqAll_append [of "[drawPass CurlP CurlT curlPass,
             drawPass VorticityP VelocityT (vorticityPass cfg dt),
             drawPass DivergenceP DivergenceT divergencePass,
             drawPass ClearP PressureT (clearPass cfg),
             pressureLoop ?k]" "[drawPass GradientSubtractP VelocityT gradientSubtractPass,
                advectVelocity ex cfg dt, advectDye cfg dt]" w]
    by simp
  have "step ex cfg dt w = Done u"
    by (simp only: split step_head [OF assms] outcome.case t)
  with q t5 show ?thesis by simp
qed

lemma advectVelocity_uniform:
  assumes "pool w = Some p"
  shows "\<exists>v. advectVelocity ex cfg dt w = Done v
           \<and> uDyeTexelSize v = (if supportLinearFiltering ex then uDyeTexelSize w
                                 else velTexel p)"
  using assms by (simp add: advectVelocity_def Let_def drawPass_Some)

lemma advectDye_uniform:
  assumes "pool w = Some p"
  shows "\<exists>v. advectDye cfg dt w = Done v
           \<and> uDyeTexelSize v = (texelSizeX (dye p), texelSizeY (dye p))"
  using assms by (simp add: advectDye_def Let_def drawPass_Some)

text \<open>
  C3, on a device with linear filtering: the velocity advection does not set
  \<open>dyeTexelSize\<close>, which the shader uses for the source lookup. In the first step the
  draw runs with the uniform at zero while the velocity texel size is \<open>(1/2, 1/2)\<close>;
  in a later step it runs with the dye texel size \<open>(1/4, 1/4)\<close> the previous step left.
\<close>

theorem advectVelocity_stale_uniform:
  "supportLinearFiltering extLinear \<and> velTexel pool2 = (1 / 2, 1 / 2)
   \<and> uDyeTexelSize world2 = (0, 0)
   \<and> (\<exists>v. advectVelocity extLinear config (1 / 60) world2 = Done v
          \<and> uDyeTexelSize v = (0, 0))
   \<and> (\<exists>u p v. step extLinear config (1 / 60) world4 = Done u \<and> pool u = Some p
          \<and> velTexel p = (1 / 2, 1 / 2)
          \<and> advectVelocity extLinear config (1 / 60) u = Done v
          \<and> uDyeTexelSize v = (1 / 4, 1 / 4))"
proof -
  have l: "supportLinearFiltering extLinear" by (simp add: extLinear_def)
  have t: "velTexel pool2 = (1 / 2, 1 / 2)"
    by (simp add: velTexel_def pool2_def double2_def)
  have w: "pool world2 = Some pool2" "uDyeTexelSize world2 = (0, 0)"
    by (simp_all add: world2_def pageLoad_def)
  from advectVelocity_uniform [OF w(1), of extLinear config "1 / 60"]
  have A: "\<exists>v. advectVelocity extLinear config (1 / 60) world2 = Done v
          \<and> uDyeTexelSize v = (0, 0)"
    by (simp add: l w(2))
  obtain p4 where p4: "pool world4 = Some p4"
    "texelSizes p4 = ((1 / 4, 1 / 4), (1 / 2, 1 / 2))"
    by (simp add: world4_def texelSizes_def velTexel_def pool2_def double2_def)
  from step_uniform [OF p4(1), of extLinear config "1 / 60"]
  obtain u p where u0: "step extLinear config (1 / 60) world4 = Done u" "pool u = Some p"
    "texelSizes p = texelSizes p4" "uDyeTexelSize u = fst (texelSizes p4)"
    by blast
  have "snd (texelSizes p) = (1 / 2, 1 / 2)" by (simp only: u0(3) p4(2) snd_conv)
  then have vt: "velTexel p = (1 / 2, 1 / 2)" by (simp add: texelSizes_def)
  have ud: "uDyeTexelSize u = (1 / 4, 1 / 4)" by (simp only: u0(4) p4(2) fst_conv)
  note u = u0(1,2) vt ud
  from advectVelocity_uniform [OF u(2), of extLinear config "1 / 60"]
  obtain v where "advectVelocity extLinear config (1 / 60) u = Done v"
    "uDyeTexelSize v = (1 / 4, 1 / 4)"
    by (auto simp: l u(4))
  with u have B: "\<exists>u p v. step extLinear config (1 / 60) world4 = Done u \<and> pool u = Some p
          \<and> velTexel p = (1 / 2, 1 / 2)
          \<and> advectVelocity extLinear config (1 / 60) u = Done v
          \<and> uDyeTexelSize v = (1 / 4, 1 / 4)" by blast
  from l t w(2) A B show ?thesis by blast
qed

end
